(* ===== verification/Prelude.thy ===== *)
theory Prelude
  imports Main "HOL-Library.Sublist"
begin

text \<open>
  Shared vocabulary of the development: the types that name the model's strings and
  argument vectors, the byte-level spelling of the non-ASCII characters that the
  notebook prints (Python writes them UTF-8 encoded), the collections of
  evaluation rules, and generic lemmas on lists that the component
  theories share.
\<close>

section \<open>Named collections\<close>

text \<open>
  \<open>py_defs\<close> collects the definitions of Python builtins and of the runtime that a
  concrete evaluation unfolds; \<open>py_run\<close> collects the equations that run one
  statement of the exception-state model on an arbitrary state.
\<close>

named_theorems py_defs
named_theorems py_run

section \<open>Types\<close>

text \<open>
  Python text is modelled at the level of the bytes it is written as: an Isabelle
  \<open>char\<close> is one byte, so a code point beyond ASCII is its UTF-8 encoding.
\<close>

type_synonym pystr = string
type_synonym argv = "string list"

definition nl :: char where
  "nl = CHR 0x0A"

definition cr :: char where
  "cr = CHR 0x0D"

text \<open>The UTF-8 encodings of the non-ASCII characters that occur in the source.\<close>

definition bullet :: pystr where \<comment> \<open>U+2022\<close>
  "bullet = [CHR 0xE2, CHR 0x80, CHR 0xA2]"

definition check_mark :: pystr where \<comment> \<open>U+2705\<close>
  "check_mark = [CHR 0xE2, CHR 0x9C, CHR 0x85]"

definition package_icon :: pystr where \<comment> \<open>U+1F4E6\<close>
  "package_icon = [CHR 0xF0, CHR 0x9F, CHR 0x93, CHR 0xA6]"

definition clipboard_icon :: pystr where \<comment> \<open>U+1F4CB\<close>
  "clipboard_icon = [CHR 0xF0, CHR 0x9F, CHR 0x93, CHR 0x8B]"

definition search_icon :: pystr where \<comment> \<open>U+1F50D\<close>
  "search_icon = [CHR 0xF0, CHR 0x9F, CHR 0x94, CHR 0x8D]"

definition laptop_icon :: pystr where \<comment> \<open>U+1F4BB\<close>
  "laptop_icon = [CHR 0xF0, CHR 0x9F, CHR 0x92, CHR 0xBB]"

lemmas glyph_defs [py_defs] =
  bullet_def check_mark_def package_icon_def clipboard_icon_def search_icon_def laptop_icon_def

lemma nl_cr_distinct [simp]: "nl \<noteq> cr" "cr \<noteq> nl"
  by (simp_all add: nl_def cr_def)

lemma nl_notin_glyphs [simp]:
  "nl \<notin> set bullet" "nl \<notin> set check_mark" "nl \<notin> set package_icon"
  "nl \<notin> set clipboard_icon" "nl \<notin> set search_icon" "nl \<notin> set laptop_icon"
  by (simp_all add: nl_def glyph_defs)

section \<open>Generic list lemmas\<close>

lemma prefix_drop_shorter:
  "prefix p s \<Longrightarrow> p \<noteq> [] \<Longrightarrow> length (drop (length p) s) < length s"
  by (cases s) (auto dest: prefix_length_le)

text \<open>
  Searching for a pattern in the concatenation of the images of a list. Each element
  \<open>d\<close> has a letter \<open>g d\<close>; when that letter is one of the pattern's alphabet
  \<open>T\<close>, the image \<open>f d\<close> is that letter alone (spelt through \<open>\<phi>\<close>); otherwise the
  image is non-empty and shares no letter with the alphabet. Then the pattern occurs in
  the concatenated images exactly when it occurs in the letters. This is how searching
  the UTF-8 bytes of a text, or its lower-cased form, for an ASCII pattern agrees with
  searching its code points.
\<close>

lemma sublist_skip_block:
  assumes "p \<noteq> []" "set p \<subseteq> S" "set F \<inter> S = {}"
  shows "sublist p (F @ R) \<longleftrightarrow> sublist p R"
  using assms(3)
proof (induction F)
  case (Cons x F)
  from assms(1,2) Cons.prems have "\<not> prefix p (x # F @ R)"
    by (cases p) auto
  with Cons show ?case by (simp add: sublist_Cons_right)
qed simp

lemma prefix_concat_map_letters:
  assumes small: "\<forall>d\<in>set ds. g d \<in> T \<longrightarrow> f d = [\<phi> (g d)]"
    and big: "\<forall>d\<in>set ds. g d \<notin> T \<longrightarrow> f d \<noteq> [] \<and> set (f d) \<inter> \<phi> ` T = {}"
    and inj: "inj_on \<phi> T" and q: "set q \<subseteq> T"
  shows "prefix (map \<phi> q) (concat (map f ds)) \<longleftrightarrow> prefix q (map g ds)"
  using small big q
proof (induction q arbitrary: ds)
  case (Cons x q)
  show ?case
  proof (cases ds)
    case (Cons d ds')
    show ?thesis
    proof (cases "g d \<in> T")
      case True
      with Cons.prems Cons.IH [of ds'] \<open>ds = d # ds'\<close> inj show ?thesis
        by (auto simp: inj_on_eq_iff)
    next
      case False
      with Cons.prems \<open>ds = d # ds'\<close> obtain b bs where "f d = b # bs" "b \<notin> \<phi> ` T"
        by (cases "f d") auto
      with Cons.prems False \<open>ds = d # ds'\<close> show ?thesis by auto
    qed
  qed simp
qed simp

lemma sublist_concat_map_letters:
  assumes small: "\<forall>d\<in>set ds. g d \<in> T \<longrightarrow> f d = [\<phi> (g d)]"
    and big: "\<forall>d\<in>set ds. g d \<notin> T \<longrightarrow> f d \<noteq> [] \<and> set (f d) \<inter> \<phi> ` T = {}"
    and inj: "inj_on \<phi> T" and q: "q \<noteq> []" "set q \<subseteq> T"
  shows "sublist (map \<phi> q) (concat (map f ds)) \<longleftrightarrow> sublist q (map g ds)"
  using small big
proof (induction ds)
  case Nil
  with q show ?case by simp
next
  case (Cons d ds)
  have pre: "prefix (map \<phi> q) (concat (map f (d # ds))) \<longleftrightarrow> prefix q (map g (d # ds))"
    by (rule prefix_concat_map_letters [OF Cons.prems inj q(2)])
  show ?case
  proof (cases "g d \<in> T")
    case True
    with Cons pre show ?thesis by (simp add: sublist_Cons_right)
  next
    case False
    with Cons.prems have F: "set (f d) \<inter> \<phi> ` T = {}" by simp
    from q have "map \<phi> q \<noteq> []" "set (map \<phi> q) \<subseteq> \<phi> ` T" by auto
    from sublist_skip_block [OF this F] have "sublist (map \<phi> q) (f d @ concat (map f ds))
        \<longleftrightarrow> sublist (map \<phi> q) (concat (map f ds))" .
    moreover from q False have "\<not> prefix q (g d # map g ds)" by (cases q) auto
    ultimately show ?thesis using Cons by (simp add: sublist_Cons_right)
  qed
qed

end
