(* ===== verification/PyStr.thy ===== *)
theory PyStr
  imports Prelude
begin

text \<open>
  The Python \<open>str\<close> operations that the notebook calls, modelled on the byte-level
  strings of \<^theory_text>\<open>Prelude\<close>: \<open>str.split(sep)\<close> for a one-character separator
  (CPython's \<open>split_char\<close> loop), \<open>str.lower\<close> on ASCII letters, the substring test
  \<open>sub in s\<close> (a search for the first occurrence), \<open>str.replace\<close>, and \<open>str * n\<close>.
  Each comes with the properties that pin it down: the split and join round trips, the
  equivalence of the search with the library's \<open>sublist\<close>, and the behaviour of
  \<open>replace\<close> on the characters it removes.
\<close>

section \<open>\<open>str.split(sep)\<close>\<close>

text \<open>
  CPython splits on a one-character separator with one scan: the current piece grows
  until the separator is met, is emitted, and a new piece starts after it; the piece in
  progress at the end is emitted too, so \<open>''.split(sep) == ['']\<close>.
\<close>

fun split_loop :: "'a \<Rightarrow> 'a list \<Rightarrow> 'a list \<Rightarrow> 'a list list" where
  "split_loop c cur [] = [cur]"
| "split_loop c cur (x # xs) =
     (if x = c then cur # split_loop c [] xs else split_loop c (cur @ [x]) xs)"

definition py_split :: "char \<Rightarrow> pystr \<Rightarrow> pystr list" where
  "py_split c s = split_loop c [] s"

text \<open>\<open>sep.join(ws)\<close>, the reference against which the split is specified.\<close>

fun py_join :: "pystr \<Rightarrow> pystr list \<Rightarrow> pystr" where
  "py_join sep [] = []"
| "py_join sep [w] = w"
| "py_join sep (w # v # ws) = w @ sep @ py_join sep (v # ws)"

section \<open>\<open>str.lower\<close>\<close>

text \<open>
  \<open>str.lower\<close> maps \<open>A\<close>..\<open>Z\<close> to \<open>a\<close>..\<open>z\<close> and leaves every other ASCII byte
  alone. Non-ASCII code points are left as they are here (see the root theory for why
  this does not change any test the notebook makes).
\<close>

definition lower_char :: "char \<Rightarrow> char" where
  "lower_char ch =
     (let n = (of_char ch :: nat) in if 65 \<le> n \<and> n \<le> 90 then char_of (n + 32) else ch)"

definition py_lower :: "pystr \<Rightarrow> pystr" where
  "py_lower s = map lower_char s"

section \<open>Substring search: \<open>in\<close>\<close>

text \<open>
  \<open>find_from p s i\<close> scans \<open>s\<close> from its left end, \<open>i\<close> being the index of its
  first character in the original string, and returns the first index at which \<open>p\<close>
  occurs; \<open>p in s\<close> is a hit, as CPython's \<open>str.__contains__\<close> is a search
  for the first occurrence.
\<close>

fun find_from :: "pystr \<Rightarrow> pystr \<Rightarrow> nat \<Rightarrow> nat option" where
  "find_from p [] i = (if p = [] then Some i else None)"
| "find_from p (x # xs) i = (if prefix p (x # xs) then Some i else find_from p xs (Suc i))"

definition py_in :: "pystr \<Rightarrow> pystr \<Rightarrow> bool" where
  "py_in p s \<longleftrightarrow> find_from p s 0 \<noteq> None"

section \<open>\<open>str.replace\<close> and \<open>str * n\<close>\<close>

text \<open>
  \<open>s.replace(old, new)\<close> replaces the non-overlapping occurrences of \<open>old\<close> from
  left to right; an empty \<open>old\<close> inserts \<open>new\<close> before every character and at the
  end. The recursion is on the length of \<open>s\<close>, which a replaced occurrence shortens by
  \<open>length old > 0\<close>.
\<close>

function py_replace :: "pystr \<Rightarrow> pystr \<Rightarrow> pystr \<Rightarrow> pystr" where
  "py_replace old new s =
     (if old = [] then new @ concat (map (\<lambda>c. c # new) s)
      else (case s of
              [] \<Rightarrow> []
            | c # cs \<Rightarrow>
                if prefix old s then new @ py_replace old new (drop (length old) s)
                else c # py_replace old new cs))"
  by pat_completeness auto
termination
  by (relation "measure (\<lambda>(old, new, s). length s)") (auto dest: prefix_drop_shorter)

declare py_replace.simps [simp del]

definition py_str_mul :: "pystr \<Rightarrow> int \<Rightarrow> pystr" where
  "py_str_mul s n = concat (replicate (nat n) s)"

lemmas str_defs [py_defs] = py_split_def py_lower_def py_in_def py_str_mul_def

section \<open>Properties\<close>

subsection \<open>Split and join\<close>


lemma split_loop_not_Nil [simp]: "split_loop c cur s \<noteq> []"
  by (induction s arbitrary: cur) auto

lemma py_join_Cons:
  "py_join sep (w # ws) = (if ws = [] then w else w @ sep @ py_join sep ws)"
  by (cases ws) auto

lemma py_join_split_loop: "py_join [c] (split_loop c cur s) = cur @ s"
  by (induction s arbitrary: cur) (auto simp: py_join_Cons)

text \<open>C17: Splitting on a one-character separator loses nothing: joining the pieces with the separator gives the original string back.\<close>

theorem py_split_join: "py_join [c] (py_split c s) = s"
  by (simp add: py_split_def py_join_split_loop)

lemma split_loop_pieces: "c \<notin> set cur \<Longrightarrow> w \<in> set (split_loop c cur s) \<Longrightarrow> c \<notin> set w"
  by (induction s arbitrary: cur) (simp, fastforce split: if_splits)

text \<open>C20: No piece of a split contains the separator.\<close>

theorem py_split_pieces: "w \<in> set (py_split c s) \<Longrightarrow> c \<notin> set w"
  using split_loop_pieces [of c "[]" w s] by (simp add: py_split_def)

lemma length_split_loop: "length (split_loop c cur s) = Suc (count_list s c)"
  by (induction s arbitrary: cur) auto

text \<open>C19: A split on a one-character separator yields one more piece than the string has separators; in particular it is never empty.\<close>

theorem length_py_split: "length (py_split c s) = count_list s c + 1"
  by (simp add: py_split_def length_split_loop)

lemma split_loop_free_prefix:
  "c \<notin> set w \<Longrightarrow> split_loop c cur (w @ rest) = split_loop c (cur @ w) rest"
  by (induction w arbitrary: cur) auto

text \<open>C18: Splitting the join of a non-empty list of pieces that do not contain the separator gives the pieces back.\<close>

theorem py_split_py_join:
  "ws \<noteq> [] \<Longrightarrow> \<forall>w\<in>set ws. c \<notin> set w \<Longrightarrow> py_split c (py_join [c] ws) = ws"
proof (induction ws)
  case (Cons w ws)
  then have w: "c \<notin> set w" by simp
  show ?case
  proof (cases "ws = []")
    case True
    with w show ?thesis
      using split_loop_free_prefix [of c w "[]" "[]"] by (simp add: py_split_def)
  next
    case False
    with Cons have "py_split c (py_join [c] ws) = ws" by simp
    with False w show ?thesis
      using split_loop_free_prefix [of c w "[]"] by (simp add: py_split_def py_join_Cons)
  qed
qed simp

subsection \<open>Lower, search and replace\<close>

lemma find_from_None_iff: "find_from p s i = None \<longleftrightarrow> \<not> sublist p s"
  by (induction s arbitrary: i) (auto simp: sublist_Cons_right)

lemma py_in_find_from: "py_in p s \<longleftrightarrow> find_from p s 0 \<noteq> None"
  by (simp add: py_in_def)

text \<open>C21: The substring test \<open>p in s\<close> holds exactly when \<open>p\<close> occurs in \<open>s\<close> as a contiguous sublist.\<close>

theorem py_in_iff_sublist: "py_in p s \<longleftrightarrow> sublist p s"
  by (simp add: py_in_find_from find_from_None_iff)

lemma py_replace_Nil [simp]: "old \<noteq> [] \<Longrightarrow> py_replace old new [] = []"
  by (simp add: py_replace.simps)

lemma py_replace_single_Cons:
  "py_replace [c] new (x # xs) = (if x = c then new @ py_replace [c] new xs else x # py_replace [c] new xs)"
  by (simp add: py_replace.simps [of "[c]" new "x # xs"])

theorem py_replace_removes:
  "c \<notin> set new \<Longrightarrow> c \<notin> set (py_replace [c] new s)"
  by (induction s) (auto simp: py_replace_single_Cons)

lemma py_replace_absent:
  "old \<noteq> [] \<Longrightarrow> hd old \<notin> set s \<Longrightarrow> py_replace old new s = s"
proof (induction s)
  case (Cons x xs)
  then have "\<not> prefix old (x # xs)" by (cases old) auto
  with Cons show ?case by (simp add: py_replace.simps [of old new "x # xs"])
qed simp

section \<open>Witnesses\<close>

theorem py_split_py_join_witness:
  "py_split nl (py_join [nl] [''dbt-core 1.7.1'', ''requests 2.0''])
   = [''dbt-core 1.7.1'', ''requests 2.0'']"
  using py_split_py_join [of "[''dbt-core 1.7.1'', ''requests 2.0'']" nl]
  by (simp add: nl_def)

theorem py_split_pieces_witness:
  "''dbt-core'' \<in> set (py_split nl (''dbt-core'' @ [nl])) \<and> nl \<notin> set ''dbt-core''"
  using py_split_pieces [of "''dbt-core''" nl "''dbt-core'' @ [nl]"]
  by (simp add: py_split_def nl_def)

end
