(* ===== verification/Utf8.thy ===== *)
theory Utf8
  imports Prelude
begin

text \<open>
  Strict UTF-8, as Python's \<open>bytes.decode('utf-8')\<close> applies it to the output of a
  child run with \<open>subprocess.run(..., text=True)\<close> (the locale encoding of the
  notebook's interpreter is UTF-8, its error handler \<open>strict\<close>). \<open>utf8_seq\<close> reads
  one well-formed sequence (Table 3-7 of the Unicode standard: no overlong form, no
  surrogate, nothing above U+10FFFF) and returns its code point and length;
  \<open>utf8_dec\<close> decodes a whole byte string, or stops with the position of the first
  byte at which no well-formed sequence starts, which is the \<open>start\<close> of the
  \<open>UnicodeDecodeError\<close> Python raises. \<open>utf8_encode\<close> is the encoder. The
  theorems are both round trips and the error position; they justify keeping decoded
  text as its bytes everywhere else in the development.
\<close>

section \<open>Decoder\<close>

definition byte_val :: "char \<Rightarrow> nat" where
  "byte_val c = of_char c"

definition is_cont :: "nat \<Rightarrow> bool" where
  "is_cont n \<longleftrightarrow> 128 \<le> n \<and> n < 192"

definition sum_cons :: "'a \<Rightarrow> 'e + 'a list \<Rightarrow> 'e + 'a list" where
  "sum_cons x r = (case r of Inl e \<Rightarrow> Inl e | Inr xs \<Rightarrow> Inr (x # xs))"

text \<open>Second-byte bounds of a three- or four-byte sequence (no overlong forms, no surrogates, nothing above U+10FFFF).\<close>

definition second_lo :: "nat \<Rightarrow> nat" where
  "second_lo n = (if n = 224 then 160 else if n = 240 then 144 else 128)"

definition second_hi :: "nat \<Rightarrow> nat" where
  "second_hi n = (if n = 237 then 159 else if n = 244 then 143 else 191)"

fun utf8_seq :: "pystr \<Rightarrow> (nat \<times> nat) option" where
  "utf8_seq [] = None"
| "utf8_seq (b # bs) =
     (let n = byte_val b in
      if n < 128 then Some (n, 1)
      else if 194 \<le> n \<and> n < 224 then
        (case bs of
           c1 # _ \<Rightarrow>
             if is_cont (byte_val c1) then Some ((n - 192) * 64 + (byte_val c1 - 128), 2) else None
         | [] \<Rightarrow> None)
      else if 224 \<le> n \<and> n < 240 then
        (case bs of
           c1 # c2 # _ \<Rightarrow>
             if second_lo n \<le> byte_val c1 \<and> byte_val c1 \<le> second_hi n \<and> is_cont (byte_val c2)
             then Some ((n - 224) * 4096 + (byte_val c1 - 128) * 64 + (byte_val c2 - 128), 3)
             else None
         | _ \<Rightarrow> None)
      else if 240 \<le> n \<and> n < 245 then
        (case bs of
           c1 # c2 # c3 # _ \<Rightarrow>
             if second_lo n \<le> byte_val c1 \<and> byte_val c1 \<le> second_hi n
                \<and> is_cont (byte_val c2) \<and> is_cont (byte_val c3)
             then Some ((n - 240) * 262144 + (byte_val c1 - 128) * 4096
                          + (byte_val c2 - 128) * 64 + (byte_val c3 - 128), 4)
             else None
         | _ \<Rightarrow> None)
      else None)"

function utf8_dec :: "nat \<Rightarrow> pystr \<Rightarrow> nat + nat list" where
  "utf8_dec i s =
     (if s = [] then Inr []
      else case utf8_seq s of
             None \<Rightarrow> Inl i
           | Some (c, k) \<Rightarrow> sum_cons c (utf8_dec (i + k) (drop k s)))"
  by pat_completeness auto
termination
proof (relation "measure (\<lambda>(i, s). length s)")
  fix i s x y z
  assume "s \<noteq> []" "utf8_seq s = Some x" "(y, z) = x"
  then have "1 \<le> z" by (cases s) (auto simp: Let_def split: if_splits list.splits)
  with \<open>s \<noteq> []\<close> show "((i + z, drop z s), i, s) \<in> measure (\<lambda>(i, s). length s)" by simp
qed simp

declare utf8_dec.simps [simp del]

definition utf8_decode :: "pystr \<Rightarrow> nat + nat list" where
  "utf8_decode s = utf8_dec 0 s"

definition utf8_valid :: "pystr \<Rightarrow> bool" where
  "utf8_valid s = (case utf8_decode s of Inl _ \<Rightarrow> False | Inr _ \<Rightarrow> True)"

section \<open>Encoder\<close>

definition valid_cp :: "nat \<Rightarrow> bool" where
  "valid_cp c \<longleftrightarrow> c < 1114112 \<and> \<not> (55296 \<le> c \<and> c < 57344)"

definition utf8_enc_cp :: "nat \<Rightarrow> pystr" where
  "utf8_enc_cp c =
     (if c < 128 then [char_of c]
      else if c < 2048 then [char_of (192 + c div 64), char_of (128 + c mod 64)]
      else if c < 65536 then
        [char_of (224 + c div 4096), char_of (128 + c div 64 mod 64), char_of (128 + c mod 64)]
      else [char_of (240 + c div 262144), char_of (128 + c div 4096 mod 64),
            char_of (128 + c div 64 mod 64), char_of (128 + c mod 64)])"

definition utf8_encode :: "nat list \<Rightarrow> pystr" where
  "utf8_encode cps = concat (map utf8_enc_cp cps)"

section \<open>Arithmetic of the byte fields\<close>

lemma byte_val_char_of [simp]: "x < 256 \<Longrightarrow> byte_val (char_of x) = x"
  by (simp add: byte_val_def)

lemma digits_3:
  fixes c :: nat
  shows "c = c mod 64 + 64 * (c div 64 mod 64) + 4096 * (c div 4096)"
proof -
  have e1: "c = c div 64 * 64 + c mod 64" by simp
  have e2: "c div 64 = c div 64 div 64 * 64 + c div 64 mod 64" by simp
  have e3: "c div 4096 = c div 64 div 64" using div_mult2_eq [of c 64 64] by simp
  from e1 e2 e3 show ?thesis by linarith
qed

lemma digits_4:
  fixes c :: nat
  shows "c = c mod 64 + 64 * (c div 64 mod 64) + 4096 * (c div 4096 mod 64) + 262144 * (c div 262144)"
proof -
  have e1: "c = c mod 64 + 64 * (c div 64 mod 64) + 4096 * (c div 4096)" by (rule digits_3)
  have e2: "c div 4096 = c div 4096 div 64 * 64 + c div 4096 mod 64" by simp
  have e3: "c div 262144 = c div 4096 div 64" using div_mult2_eq [of c 4096 64] by simp
  from e1 e2 e3 show ?thesis by linarith
qed

lemma length_utf8_enc_cp:
  "length (utf8_enc_cp c) = (if c < 128 then 1 else if c < 2048 then 2 else if c < 65536 then 3 else 4)"
  by (simp add: utf8_enc_cp_def)

lemma dm64: "r < 64 \<Longrightarrow> (q * 64 + r) div 64 = q \<and> (q * 64 + r) mod 64 = (r::nat)"
  by simp
lemma enc_digits_2: "2 \<le> a \<Longrightarrow> a < 32 \<Longrightarrow> r < 64 \<Longrightarrow> utf8_enc_cp (a * 64 + r) = [char_of (192 + a), char_of (128 + r)]"
  by (simp add: utf8_enc_cp_def)
lemma enc_digits_3:
  assumes "a < 16" "r1 < 64" "r2 < 64" "2048 \<le> a * 4096 + r1 * 64 + r2"
  shows "utf8_enc_cp (a * 4096 + r1 * 64 + r2) = [char_of (224 + a), char_of (128 + r1), char_of (128 + r2)]"
proof -
  have e: "a * 4096 + r1 * 64 + r2 = (a * 64 + r1) * 64 + r2" by simp
  have d: "(a * 4096 + r1 * 64 + r2) div 64 = a * 64 + r1" "(a * 4096 + r1 * 64 + r2) mod 64 = r2"
    using dm64 [OF assms(3), of "a * 64 + r1"] unfolding e by simp_all
  have d2: "(a * 4096 + r1 * 64 + r2) div 4096 = a"
    using d div_mult2_eq [of "a * 4096 + r1 * 64 + r2" 64 64] assms(2) by simp
  from assms d d2 show ?thesis by (simp add: utf8_enc_cp_def)
qed

lemma enc_digits_4:
  assumes "a < 5" "r1 < 64" "r2 < 64" "r3 < 64" "65536 \<le> a * 262144 + r1 * 4096 + r2 * 64 + r3"
  shows "utf8_enc_cp (a * 262144 + r1 * 4096 + r2 * 64 + r3)
         = [char_of (240 + a), char_of (128 + r1), char_of (128 + r2), char_of (128 + r3)]"
proof -
  define cp where "cp = a * 262144 + r1 * 4096 + r2 * 64 + r3"
  have e: "cp = ((a * 64 + r1) * 64 + r2) * 64 + r3" unfolding cp_def by simp
  have d1: "cp div 64 = (a * 64 + r1) * 64 + r2" "cp mod 64 = r3"
    using dm64 [OF assms(4), of "(a * 64 + r1) * 64 + r2"] unfolding e by simp_all
  have d2: "cp div 4096 = a * 64 + r1" "cp div 64 mod 64 = r2"
    using dm64 [OF assms(3), of "a * 64 + r1"] d1(1) div_mult2_eq [of cp 64 64] by simp_all
  have d3: "cp div 4096 mod 64 = r1" "cp div 262144 = a"
    using dm64 [OF assms(2), of a] d2(1) div_mult2_eq [of cp 4096 64] by simp_all
  have "65536 \<le> cp" using assms(5) unfolding cp_def .
  with d1 d2 d3 show ?thesis unfolding cp_def [symmetric] by (simp add: utf8_enc_cp_def)
qed

lemma char_of_byte_val [simp]: "char_of (byte_val b) = b"
  by (simp add: byte_val_def)

lemma byte_val_less [simp]: "byte_val b < 256"
  by (simp add: byte_val_def)

lemma enc_char_2:
  assumes "194 \<le> byte_val b" "byte_val b < 224" "is_cont (byte_val c1)"
  shows "utf8_enc_cp ((byte_val b - 192) * 64 + (byte_val c1 - 128)) = [b, c1]
         \<and> valid_cp ((byte_val b - 192) * 64 + (byte_val c1 - 128))"
proof -
  have "byte_val c1 - 128 < 64" using assms(3) by (auto simp: is_cont_def)
  with assms enc_digits_2 [of "byte_val b - 192" "byte_val c1 - 128"] show ?thesis
    by (auto simp: is_cont_def valid_cp_def)
qed

lemma enc_char_3:
  assumes "224 \<le> byte_val b" "byte_val b < 240"
    "second_lo (byte_val b) \<le> byte_val c1" "byte_val c1 \<le> second_hi (byte_val b)"
    "is_cont (byte_val c2)"
  shows "utf8_enc_cp ((byte_val b - 224) * 4096 + (byte_val c1 - 128) * 64 + (byte_val c2 - 128))
           = [b, c1, c2]
         \<and> valid_cp ((byte_val b - 224) * 4096 + (byte_val c1 - 128) * 64 + (byte_val c2 - 128))"
proof -
  have r: "byte_val c1 - 128 < 64" "byte_val c2 - 128 < 64" "128 \<le> byte_val c1"
    using assms(3-5) by (auto simp: is_cont_def second_lo_def second_hi_def split: if_splits)
  have lo: "2048 \<le> (byte_val b - 224) * 4096 + (byte_val c1 - 128) * 64 + (byte_val c2 - 128)"
  proof (cases "byte_val b = 224")
    case True with assms(3) show ?thesis by (simp add: second_lo_def)
  next
    case False with assms(1) show ?thesis by simp
  qed
  have sur: "byte_val b = 237 \<Longrightarrow> byte_val c1 \<le> 159" using assms(4) by (simp add: second_hi_def)
  from assms r lo enc_digits_3 [of "byte_val b - 224" "byte_val c1 - 128" "byte_val c2 - 128"]
  have "utf8_enc_cp ((byte_val b - 224) * 4096 + (byte_val c1 - 128) * 64 + (byte_val c2 - 128))
           = [b, c1, c2]" by (auto simp: is_cont_def)
  moreover have "valid_cp ((byte_val b - 224) * 4096 + (byte_val c1 - 128) * 64 + (byte_val c2 - 128))"
    using assms(2) r sur by (cases "byte_val b = 237") (auto simp: valid_cp_def)
  ultimately show ?thesis ..
qed

lemma enc_char_4:
  assumes "240 \<le> byte_val b" "byte_val b < 245"
    "second_lo (byte_val b) \<le> byte_val c1" "byte_val c1 \<le> second_hi (byte_val b)"
    "is_cont (byte_val c2)" "is_cont (byte_val c3)"
  shows "utf8_enc_cp ((byte_val b - 240) * 262144 + (byte_val c1 - 128) * 4096
            + (byte_val c2 - 128) * 64 + (byte_val c3 - 128)) = [b, c1, c2, c3]
         \<and> valid_cp ((byte_val b - 240) * 262144 + (byte_val c1 - 128) * 4096
            + (byte_val c2 - 128) * 64 + (byte_val c3 - 128))"
proof -
  have r: "byte_val c1 - 128 < 64" "byte_val c2 - 128 < 64" "byte_val c3 - 128 < 64" "128 \<le> byte_val c1"
    using assms(3-6) by (auto simp: is_cont_def second_lo_def second_hi_def split: if_splits)
  have lo: "65536 \<le> (byte_val b - 240) * 262144 + (byte_val c1 - 128) * 4096
            + (byte_val c2 - 128) * 64 + (byte_val c3 - 128)"
  proof (cases "byte_val b = 240")
    case True with assms(3) show ?thesis by (simp add: second_lo_def)
  next
    case False with assms(1) show ?thesis by simp
  qed
  have top: "byte_val b = 244 \<Longrightarrow> byte_val c1 \<le> 143" using assms(4) by (simp add: second_hi_def)
  from assms r lo enc_digits_4 [of "byte_val b - 240" "byte_val c1 - 128" "byte_val c2 - 128" "byte_val c3 - 128"]
  have "utf8_enc_cp ((byte_val b - 240) * 262144 + (byte_val c1 - 128) * 4096
            + (byte_val c2 - 128) * 64 + (byte_val c3 - 128)) = [b, c1, c2, c3]"
    by (auto simp: is_cont_def)
  moreover have "(byte_val b - 240) * 262144 + (byte_val c1 - 128) * 4096
            + (byte_val c2 - 128) * 64 + (byte_val c3 - 128) < 1114112"
  proof (cases "byte_val b = 244")
    case True with top r show ?thesis by simp
  next
    case False with assms(2) have "byte_val b - 240 \<le> 3" by simp
    with r show ?thesis by linarith
  qed
  with lo have "valid_cp ((byte_val b - 240) * 262144 + (byte_val c1 - 128) * 4096
            + (byte_val c2 - 128) * 64 + (byte_val c3 - 128))"
    by (simp add: valid_cp_def)
  ultimately show ?thesis ..
qed

section \<open>One sequence\<close>

lemma utf8_encode_Cons [simp]: "utf8_encode (c # cps) = utf8_enc_cp c @ utf8_encode cps"
  and utf8_encode_Nil [simp]: "utf8_encode [] = []"
  by (simp_all add: utf8_encode_def)

lemma sum_cons_Inr [simp]: "sum_cons x r = Inr ys \<longleftrightarrow> (\<exists>xs. r = Inr xs \<and> ys = x # xs)"
  by (auto simp: sum_cons_def split: sum.splits)

lemma utf8_seq_length: "utf8_seq s = Some (c, k) \<Longrightarrow> 1 \<le> k \<and> k \<le> length s"
  by (cases s) (auto simp: Let_def split: if_splits list.splits)

lemma utf8_seq_enc_2:
  assumes "128 \<le> c" "c < 2048"
  shows "utf8_seq (utf8_enc_cp c @ rest) = Some (c, 2)"
proof -
  have a: "194 \<le> 192 + c div 64" "192 + c div 64 < 224" using assms by linarith+
  have b: "(192 + c div 64 - 192) * 64 + (128 + c mod 64 - 128) = c" by simp
  from assms a b show ?thesis
    by (simp add: utf8_enc_cp_def is_cont_def Let_def)
qed

lemma utf8_seq_enc_3:
  assumes "2048 \<le> c" "c < 65536" "valid_cp c"
  shows "utf8_seq (utf8_enc_cp c @ rest) = Some (c, 3)"
proof -
  define q1 q2 q3 where "q1 = c mod 64" and "q2 = c div 64 mod 64" and "q3 = c div 4096"
  have c: "c = q1 + 64 * q2 + 4096 * q3" unfolding q1_def q2_def q3_def by (rule digits_3)
  have q: "q1 < 64" "q2 < 64" by (simp_all add: q1_def q2_def)
  have n: "q3 < 16" using assms(2) c by linarith
  have lo: "q3 = 0 \<Longrightarrow> 32 \<le> q2" using assms(1) c q by simp
  have hi: "q3 = 13 \<Longrightarrow> q2 < 32" using assms(3) c q by (auto simp: valid_cp_def)
  have enc: "utf8_enc_cp c = [char_of (224 + q3), char_of (128 + q2), char_of (128 + q1)]"
    using assms(1,2) by (simp add: utf8_enc_cp_def q1_def q2_def q3_def)
  have ok: "second_lo (224 + q3) \<le> 128 + q2 \<and> 128 + q2 \<le> second_hi (224 + q3)"
    using n q lo hi by (auto simp: second_lo_def second_hi_def)
  have v: "q3 * 4096 + q2 * 64 + q1 = c" using c by simp
  from n q ok v enc show ?thesis
    by (simp add: is_cont_def Let_def)
qed

lemma utf8_seq_enc_4:
  assumes "65536 \<le> c" "valid_cp c"
  shows "utf8_seq (utf8_enc_cp c @ rest) = Some (c, 4)"
proof -
  define q1 q2 q3 q4 where "q1 = c mod 64" and "q2 = c div 64 mod 64" and "q3 = c div 4096 mod 64"
    and "q4 = c div 262144"
  have c: "c = q1 + 64 * q2 + 4096 * q3 + 262144 * q4"
    unfolding q1_def q2_def q3_def q4_def by (rule digits_4)
  have q: "q1 < 64" "q2 < 64" "q3 < 64" by (simp_all add: q1_def q2_def q3_def)
  have n: "q4 < 5" using assms(2) c by (simp add: valid_cp_def)
  have lo: "q4 = 0 \<Longrightarrow> 16 \<le> q3" using assms(1) c q by simp
  have hi: "q4 = 4 \<Longrightarrow> q3 < 16" using assms(2) c q by (simp add: valid_cp_def)
  have enc: "utf8_enc_cp c =
      [char_of (240 + q4), char_of (128 + q3), char_of (128 + q2), char_of (128 + q1)]"
    using assms(1) by (simp add: utf8_enc_cp_def q1_def q2_def q3_def q4_def)
  have ok: "second_lo (240 + q4) \<le> 128 + q3 \<and> 128 + q3 \<le> second_hi (240 + q4)"
    using n q lo hi by (auto simp: second_lo_def second_hi_def)
  have v: "q4 * 262144 + q3 * 4096 + q2 * 64 + q1 = c" using c by simp
  from n q ok v enc show ?thesis
    by (simp add: is_cont_def Let_def)
qed

lemma utf8_seq_enc:
  assumes "valid_cp c"
  shows "utf8_seq (utf8_enc_cp c @ rest) = Some (c, length (utf8_enc_cp c))"
proof -
  consider "c < 128" | "128 \<le> c" "c < 2048" | "2048 \<le> c" "c < 65536" | "65536 \<le> c" by linarith
  then show ?thesis
  proof cases
    case 1 then show ?thesis by (simp add: utf8_enc_cp_def)
  next
    case 2 then show ?thesis by (simp add: utf8_seq_enc_2 length_utf8_enc_cp)
  next
    case 3 with assms show ?thesis by (simp add: utf8_seq_enc_3 length_utf8_enc_cp)
  next
    case 4 with assms show ?thesis by (simp add: utf8_seq_enc_4 length_utf8_enc_cp)
  qed
qed

lemma utf8_seq_inv:
  assumes "utf8_seq s = Some (c, k)"
  shows "take k s = utf8_enc_cp c \<and> valid_cp c"
proof (cases s)
  case Nil with assms show ?thesis by simp
next
  case (Cons b bs)
  consider (a) "byte_val b < 128" | (t) "194 \<le> byte_val b" "byte_val b < 224"
    | (h) "224 \<le> byte_val b" "byte_val b < 240" | (f) "240 \<le> byte_val b" "byte_val b < 245"
    | (bad) "\<not> byte_val b < 128" "\<not> (194 \<le> byte_val b \<and> byte_val b < 224)"
        "\<not> (224 \<le> byte_val b \<and> byte_val b < 240)" "\<not> (240 \<le> byte_val b \<and> byte_val b < 245)"
    by linarith
  then show ?thesis
  proof cases
    case a with assms Cons show ?thesis by (auto simp: utf8_enc_cp_def valid_cp_def)
  next
    case t with assms Cons enc_char_2 [OF t] show ?thesis
      by (auto simp: Let_def split: list.splits if_splits)
  next
    case h with assms Cons enc_char_3 [OF h] show ?thesis
      by (auto simp: Let_def split: list.splits if_splits)
  next
    case f with assms Cons enc_char_4 [OF f] show ?thesis
      by (auto simp: Let_def split: list.splits if_splits)
  next
    case bad with assms Cons show ?thesis by (simp add: Let_def)
  qed
qed

section \<open>Whole strings\<close>

lemma utf8_dec_Nil [simp]: "utf8_dec i [] = Inr []"
  by (simp add: utf8_dec.simps)

lemma utf8_dec_seq:
  "s \<noteq> [] \<Longrightarrow> utf8_seq s = Some (c, k) \<Longrightarrow> utf8_dec i s = sum_cons c (utf8_dec (i + k) (drop k s))"
  by (simp add: utf8_dec.simps)

lemma utf8_enc_cp_not_Nil [simp]: "utf8_enc_cp c \<noteq> []"
  by (simp add: utf8_enc_cp_def)

lemma utf8_dec_enc_append:
  "valid_cp c \<Longrightarrow> utf8_dec i (utf8_enc_cp c @ rest) = sum_cons c (utf8_dec (i + length (utf8_enc_cp c)) rest)"
  by (simp add: utf8_dec_seq utf8_seq_enc)

lemma utf8_dec_encode: "list_all valid_cp cps \<Longrightarrow> utf8_dec i (utf8_encode cps) = Inr cps"
  by (induction cps arbitrary: i) (simp_all add: utf8_dec_enc_append sum_cons_def)

lemma utf8_dec_inverse:
  "utf8_dec i s = Inr cps \<Longrightarrow> utf8_encode cps = s \<and> list_all valid_cp cps"
proof (induction i s arbitrary: cps rule: utf8_dec.induct)
  case (1 i s)
  show ?case
  proof (cases "s = []")
    case True with "1.prems" show ?thesis by simp
  next
    case False
    with "1.prems" obtain c k where seq: "utf8_seq s = Some (c, k)"
      by (cases "utf8_seq s") (auto simp: utf8_dec.simps)
    with False "1.prems" obtain cps' where rest: "utf8_dec (i + k) (drop k s) = Inr cps'"
      and cps: "cps = c # cps'"
      by (auto simp: utf8_dec_seq)
    from "1.IH" [OF False seq refl rest] have "utf8_encode cps' = drop k s \<and> list_all valid_cp cps'" .
    with utf8_seq_inv [OF seq] cps show ?thesis
      by (metis append_take_drop_id list.pred_inject(2) utf8_encode_Cons)
  qed
qed

lemma utf8_dec_error:
  "utf8_dec i s = Inl p \<Longrightarrow> i \<le> p \<and> p < i + length s \<and> utf8_seq (drop (p - i) s) = None
     \<and> (\<exists>cps. utf8_dec i (take (p - i) s) = Inr cps)"
proof (induction i s arbitrary: p rule: utf8_dec.induct)
  case (1 i s)
  have ne: "s \<noteq> []" using "1.prems" by (cases "s = []") simp_all
  show ?case
  proof (cases "utf8_seq s")
    case None
    with ne "1.prems" show ?thesis by (simp add: utf8_dec.simps)
  next
    case (Some x)
    then obtain c k where seq: "utf8_seq s = Some (c, k)" by (cases x) auto
    with ne "1.prems" have rest: "utf8_dec (i + k) (drop k s) = Inl p"
      by (simp add: utf8_dec_seq sum_cons_def split: sum.splits)
    from "1.IH" [OF ne seq refl rest] obtain cps' where
      ih: "i + k \<le> p" "p < i + k + length (drop k s)" "utf8_seq (drop (p - (i + k)) (drop k s)) = None"
          "utf8_dec (i + k) (take (p - (i + k)) (drop k s)) = Inr cps'" by blast
    from utf8_seq_inv [OF seq] utf8_seq_length [OF seq]
    have enc: "take k s = utf8_enc_cp c" "valid_cp c" by auto
    with utf8_seq_length [OF seq] have len: "length (utf8_enc_cp c) = k"
      by (simp flip: enc(1))
    have split: "take (p - i) s = utf8_enc_cp c @ take (p - (i + k)) (drop k s)"
      using ih(1) enc(1) take_add [of k "p - (i + k)" s] by simp
    have "utf8_dec i (take (p - i) s) = Inr (c # cps')"
      by (simp add: split utf8_dec_enc_append enc len ih(4) sum_cons_def)
    with ih show ?thesis by auto
  qed
qed

lemma utf8_encode_append: "utf8_encode (xs @ ys) = utf8_encode xs @ utf8_encode ys"
  by (simp add: utf8_encode_def)

lemma utf8_valid_iff_encode: "utf8_valid s \<longleftrightarrow> (\<exists>cps. list_all valid_cp cps \<and> utf8_encode cps = s)"
  by (auto simp: utf8_valid_def utf8_decode_def utf8_dec_encode dest: utf8_dec_inverse split: sum.split)

lemma utf8_encode_ascii: "\<forall>b\<in>set s. byte_val b < 128 \<Longrightarrow> utf8_encode (map byte_val s) = s"
  by (induction s) (simp_all add: utf8_enc_cp_def)

lemma valid_cp_ascii: "\<forall>b\<in>set s. byte_val b < 128 \<Longrightarrow> list_all valid_cp (map byte_val s)"
  by (fastforce simp: list_all_iff valid_cp_def)

lemma utf8_dec_ascii: "\<forall>b\<in>set s. byte_val b < 128 \<Longrightarrow> utf8_dec i s = Inr (map byte_val s)"
  using utf8_dec_encode [OF valid_cp_ascii, of s i] utf8_encode_ascii [of s] by simp

lemma utf8_valid_ascii: "\<forall>b\<in>set s. byte_val b < 128 \<Longrightarrow> utf8_valid s"
  by (simp add: utf8_valid_def utf8_decode_def utf8_dec_ascii)

lemma utf8_valid_Nil [simp]: "utf8_valid []"
  by (simp add: utf8_valid_def utf8_decode_def)

text \<open>The rules that evaluate the decoder on a concrete byte string.\<close>

lemmas utf8_eval = utf8_decode_def utf8_dec.simps byte_val_def is_cont_def second_lo_def second_hi_def
  sum_cons_def

section \<open>Properties\<close>

text \<open>C14: Decoding the UTF-8 encoding of a list of Unicode scalar values gives the list back.\<close>

theorem utf8_decode_encode: "list_all valid_cp cps \<Longrightarrow> utf8_decode (utf8_encode cps) = Inr cps"
  by (simp add: utf8_decode_def utf8_dec_encode)

theorem utf8_decode_encode_witness:
  "list_all valid_cp [100, 233, 8226, 128230]
   \<and> utf8_decode (utf8_encode [100, 233, 8226, 128230]) = Inr [100, 233, 8226, 128230]"
  using utf8_decode_encode [of "[100, 233, 8226, 128230]"] by (simp add: valid_cp_def)

text \<open>C15: Whatever the strict decoder accepts is the UTF-8 encoding of the scalar values it
  returns: decoding loses nothing and yields no surrogate and nothing above U+10FFFF.\<close>

theorem utf8_encode_decode:
  "utf8_decode s = Inr cps \<Longrightarrow> utf8_encode cps = s \<and> list_all valid_cp cps"
  by (simp add: utf8_decode_def utf8_dec_inverse)

theorem utf8_encode_decode_witness:
  "utf8_decode bullet = Inr [8226] \<and> utf8_encode [8226] = bullet \<and> list_all valid_cp [8226]"
proof -
  have dec: "utf8_decode bullet = Inr [8226]"
    by (simp add: bullet_def utf8_decode_def utf8_dec.simps byte_val_def is_cont_def
        second_lo_def second_hi_def sum_cons_def)
  with utf8_encode_decode [OF dec] show ?thesis by simp
qed

text \<open>C16: A rejected input is rejected at the first byte where no well-formed sequence
  starts: the position is inside the input, the bytes before it are valid UTF-8, and no
  sequence the decoder accepts starts there (the \<open>start\<close> of Python's
  \<open>UnicodeDecodeError\<close>).\<close>

theorem utf8_decode_error:
  "utf8_decode s = Inl p \<Longrightarrow> p < length s \<and> utf8_valid (take p s) \<and> utf8_seq (drop p s) = None"
  using utf8_dec_error [of 0 s p]
  by (auto simp: utf8_decode_def utf8_valid_def split: sum.split)

theorem utf8_decode_error_witness:
  "utf8_decode [CHR ''d'', CHR 0xE2, CHR 0x80] = Inl 1 \<and> 1 < length [CHR ''d'', CHR 0xE2, CHR 0x80]
   \<and> utf8_valid [CHR ''d''] \<and> utf8_seq [CHR 0xE2, CHR 0x80] = None"
proof -
  have dec: "utf8_decode [CHR ''d'', CHR 0xE2, CHR 0x80] = Inl 1"
    by (simp add: utf8_decode_def utf8_dec.simps byte_val_def is_cont_def
        second_lo_def second_hi_def sum_cons_def)
  with utf8_decode_error [OF dec] show ?thesis by simp
qed

text \<open>ASCII text decodes to its byte values, one code point per byte.\<close>

end
