(* ===== verification/Subprocess.thy ===== *)
theory Subprocess
  imports PyStr Utf8
begin

text \<open>
  The part of the Python runtime that the notebook drives: the interpreter's standard
  output, the child processes it starts through \<open>subprocess\<close>, and the import of a
  module of the installed package. The environment (the package installer and the
  package index it changes) is not code of the notebook; it is the parameter \<open>H\<close>
  of type \<open>'w host\<close>: the interpreter's path, what running a child does to the world
  \<open>'w\<close>, and what the import finds there. Every statement is a function from the
  process state to a result (an exception or a value) and the next state, so that a
  raised exception stops the rest of the script as it does in Python.
\<close>

section \<open>State, environment, errors\<close>

datatype py_error =
    CalledProcessError int argv  \<comment> \<open>\<open>check_call\<close>: the child's exit status and command\<close>
  | ModuleNotFoundError pystr    \<comment> \<open>\<open>import\<close>: the module that was not found\<close>
  | UnicodeDecodeError nat       \<comment> \<open>text mode: where the undecodable bytes start\<close>
  | AttributeError pystr         \<comment> \<open>attribute access: the missing attribute\<close>
  | NameError pystr              \<comment> \<open>reading a name bound neither in the module nor in builtins\<close>
  | TypeError pystr              \<comment> \<open>an operation applied to a value of the wrong type\<close>
  | Unsupported pystr            \<comment> \<open>not a Python exception: an operation outside the modelled fragment\<close>

text \<open>
  \<open>exec H args w\<close> runs the child \<open>args\<close> to completion in world \<open>w\<close>: its exit
  status, the bytes it wrote to its standard output and to its standard error, and the
  world it leaves. \<open>find_module H w m\<close> says whether the import system finds the
  module \<open>m\<close> in world \<open>w\<close>, and \<open>import_version H w\<close> is the
  \<open>__version__\<close> attribute of \<open>dbt.version\<close> there, if the module defines one.
\<close>

record 'w host =
  executable :: pystr
  exec :: "argv \<Rightarrow> 'w \<Rightarrow> int \<times> pystr \<times> pystr \<times> 'w"
  find_module :: "'w \<Rightarrow> pystr \<Rightarrow> bool"
  import_version :: "'w \<Rightarrow> pystr option"

text \<open>
  The interpreter's state: what has been written to standard output and to standard
  error, the children started so far (in order), and the world.
\<close>

record 'w proc =
  stdout :: pystr
  stderr :: pystr
  spawned :: "argv list"
  world :: 'w

type_synonym ('w, 'a) py = "'w proc \<Rightarrow> (py_error + 'a) \<times> 'w proc"

section \<open>Sequencing with exceptions\<close>

definition py_return :: "'a \<Rightarrow> ('w, 'a) py" where
  "py_return x st = (Inr x, st)"

definition py_bind :: "('w, 'a) py \<Rightarrow> ('a \<Rightarrow> ('w, 'b) py) \<Rightarrow> ('w, 'b) py" where
  "py_bind m f st = (case m st of (Inl e, st') \<Rightarrow> (Inl e, st') | (Inr x, st') \<Rightarrow> f x st')"

definition py_discard :: "('w, 'a) py \<Rightarrow> ('w, unit) py" where
  "py_discard m = py_bind m (\<lambda>_. py_return ())"

text \<open>A block of statements runs them in order, stopping at the first exception.\<close>

fun py_seq :: "('w, unit) py list \<Rightarrow> ('w, unit) py" where
  "py_seq [] = py_return ()"
| "py_seq (m # ms) = py_bind m (\<lambda>_. py_seq ms)"

section \<open>Built-ins and \<open>subprocess\<close>\<close>

text \<open>\<open>print(s)\<close> writes \<open>s\<close> and a newline.\<close>

definition py_print :: "pystr \<Rightarrow> ('w, unit) py" where
  "py_print s st = (Inr (), st\<lparr>stdout := stdout st @ s @ [nl]\<rparr>)"

text \<open>
  \<open>subprocess.check_call(args)\<close> runs the child with the interpreter's own standard
  output and standard error (so what the child writes appears there) and raises
  \<open>CalledProcessError\<close> when the exit status is not zero; otherwise it returns 0.
\<close>

definition check_call :: "'w host \<Rightarrow> argv \<Rightarrow> ('w, int) py" where
  "check_call H args st =
     (case exec H args (world st) of
        (rc, out, err, w') \<Rightarrow>
          let st' = st\<lparr>stdout := stdout st @ out, stderr := stderr st @ err,
                       spawned := spawned st @ [args], world := w'\<rparr>
          in if rc \<noteq> 0 then (Inl (CalledProcessError rc args), st') else (Inr 0, st'))"

text \<open>
  \<open>subprocess.run(args, capture_output=True, text=True)\<close> never raises on the exit
  status: it returns a \<open>CompletedProcess\<close>. Both streams are captured, not written
  to the interpreter's. In text mode \<open>Popen._communicate\<close> waits for the child and
  then passes its standard output, then its standard error, through
  \<open>Popen._translate_newlines\<close>: \<open>data.decode(encoding)\<close> (strict UTF-8, which
  raises \<open>UnicodeDecodeError\<close> out of \<open>run\<close>) followed by
  \<open>.replace("\r\n", "\n").replace("\r", "\n")\<close>. Decoded text is kept as its bytes,
  which \<^theory_text>\<open>Utf8\<close> shows loses nothing; newlines are translated on the bytes,
  which is the same because the bytes of CR and LF occur in UTF-8 only as those
  characters.
\<close>

record completed_process =
  cp_args :: argv
  returncode :: int
  cp_stdout :: pystr
  cp_stderr :: pystr

definition translate_newlines :: "pystr \<Rightarrow> pystr" where
  "translate_newlines s = py_replace [cr] [nl] (py_replace [cr, nl] [nl] s)"

definition decode_text :: "pystr \<Rightarrow> py_error + pystr" where
  "decode_text s =
     (case utf8_decode s of
        Inl p \<Rightarrow> Inl (UnicodeDecodeError p)
      | Inr _ \<Rightarrow> Inr (translate_newlines s))"

definition run_capture_text :: "'w host \<Rightarrow> argv \<Rightarrow> ('w, completed_process) py" where
  "run_capture_text H args st =
     (case exec H args (world st) of
        (rc, out, err, w') \<Rightarrow>
          let st' = st\<lparr>spawned := spawned st @ [args], world := w'\<rparr>
          in case decode_text out of
               Inl e \<Rightarrow> (Inl e, st')
             | Inr out' \<Rightarrow>
                 (case decode_text err of
                    Inl e \<Rightarrow> (Inl e, st')
                  | Inr err' \<Rightarrow>
                      (Inr \<lparr>cp_args = args, returncode = rc, cp_stdout = out', cp_stderr = err'\<rparr>,
                       st')))"

text \<open>
  The exception, if any, that decoding the two captured streams raises, in the order
  \<open>_communicate\<close> decodes them.
\<close>

definition capture_error :: "pystr \<Rightarrow> pystr \<Rightarrow> py_error option" where
  "capture_error out err =
     (case decode_text out of
        Inl e \<Rightarrow> Some e
      | Inr _ \<Rightarrow> (case decode_text err of Inl e \<Rightarrow> Some e | Inr _ \<Rightarrow> None))"

text \<open>
  \<open>import dbt.version\<close> followed by reading \<open>dbt.version.__version__\<close>. The import
  system imports the package \<open>dbt\<close> first and then its submodule, and the first one
  it cannot find is the \<open>name\<close> of the \<open>ModuleNotFoundError\<close>; reading an attribute
  the module does not define raises \<open>AttributeError\<close>.
\<close>

definition dbt_import :: "'w host \<Rightarrow> 'w \<Rightarrow> py_error + pystr" where
  "dbt_import H w =
     (if \<not> find_module H w ''dbt'' then Inl (ModuleNotFoundError ''dbt'')
      else if \<not> find_module H w ''dbt.version'' then Inl (ModuleNotFoundError ''dbt.version'')
      else case import_version H w of
             None \<Rightarrow> Inl (AttributeError ''__version__'')
           | Some v \<Rightarrow> Inr v)"

definition import_dbt_version :: "'w host \<Rightarrow> ('w, pystr) py" where
  "import_dbt_version H st = (dbt_import H (world st), st)"

text \<open>The text that a sequence of \<open>print\<close> calls writes.\<close>

definition printed :: "pystr list \<Rightarrow> pystr" where
  "printed ls = concat (map (\<lambda>l. l @ [nl]) ls)"

section \<open>Properties\<close>

subsection \<open>Sequencing\<close>

lemma py_bind_return [simp]: "py_bind (py_return x) f = f x"
  by (simp add: py_bind_def py_return_def fun_eq_iff)

lemma py_bind_return_right [simp]: "py_bind m py_return = m"
  by (auto simp: py_bind_def py_return_def fun_eq_iff split: prod.split sum.split)

lemma py_bind_assoc:
  "py_bind (py_bind m f) g = py_bind m (\<lambda>x. py_bind (f x) g)"
  by (auto simp: py_bind_def fun_eq_iff split: prod.split sum.split)

lemma py_bind_Inl [py_run]: "m st = (Inl e, st') \<Longrightarrow> py_bind m f st = (Inl e, st')"
  by (simp add: py_bind_def)

lemma py_bind_Inr [py_run]: "m st = (Inr x, st') \<Longrightarrow> py_bind m f st = f x st'"
  by (simp add: py_bind_def)

lemma printed_simps [simp]:
  "printed [] = []"
  "printed (l # ls) = l @ nl # printed ls"
  "printed (ls @ ms) = printed ls @ printed ms"
  by (simp_all add: printed_def)

lemma py_print_run [py_run]: "py_print s st = (Inr (), st\<lparr>stdout := stdout st @ s @ [nl]\<rparr>)"
  by (simp add: py_print_def)

lemma py_seq_prints [py_run]:
  "py_seq (map py_print ls) st = (Inr (), st\<lparr>stdout := stdout st @ printed ls\<rparr>)"
  by (induction ls arbitrary: st) (simp_all add: py_bind_def py_print_def py_return_def)

lemma py_seq_Nil_run [py_run]: "py_seq [] st = (Inr (), st)"
  by (simp add: py_return_def)

lemma py_seq_Cons_run [py_run]:
  "m st = (Inr (), st') \<Longrightarrow> py_seq (m # ms) st = py_seq ms st'"
  by (simp add: py_bind_def)

lemma py_seq_Cons_raise [py_run]:
  "m st = (Inl e, st') \<Longrightarrow> py_seq (m # ms) st = (Inl e, st')"
  by (simp add: py_bind_def)

subsection \<open>Children and imports\<close>

lemma check_call_ok [py_run]:
  "exec H args (world st) = (0, out, err, w') \<Longrightarrow>
   check_call H args st =
     (Inr 0, st\<lparr>stdout := stdout st @ out, stderr := stderr st @ err,
               spawned := spawned st @ [args], world := w'\<rparr>)"
  by (simp add: check_call_def)

lemma check_call_fail [py_run]:
  "exec H args (world st) = (rc, out, err, w') \<Longrightarrow> rc \<noteq> 0 \<Longrightarrow>
   check_call H args st =
     (Inl (CalledProcessError rc args),
      st\<lparr>stdout := stdout st @ out, stderr := stderr st @ err,
         spawned := spawned st @ [args], world := w'\<rparr>)"
  by (simp add: check_call_def)

lemma decode_text_valid: "utf8_valid s \<Longrightarrow> decode_text s = Inr (translate_newlines s)"
  by (simp add: decode_text_def utf8_valid_def split: sum.splits)

lemma capture_error_None_iff: "capture_error out err = None \<longleftrightarrow> utf8_valid out \<and> utf8_valid err"
  by (simp add: capture_error_def decode_text_def utf8_valid_def split: sum.splits)

lemma run_capture_text_run [py_run]:
  "exec H args (world st) = (rc, out, err, w') \<Longrightarrow> capture_error out err = None \<Longrightarrow>
   run_capture_text H args st =
     (Inr \<lparr>cp_args = args, returncode = rc, cp_stdout = translate_newlines out,
           cp_stderr = translate_newlines err\<rparr>,
      st\<lparr>spawned := spawned st @ [args], world := w'\<rparr>)"
  by (simp add: run_capture_text_def capture_error_None_iff decode_text_valid)

lemma run_capture_text_raise [py_run]:
  "exec H args (world st) = (rc, out, err, w') \<Longrightarrow> capture_error out err = Some e \<Longrightarrow>
   run_capture_text H args st = (Inl e, st\<lparr>spawned := spawned st @ [args], world := w'\<rparr>)"
  by (simp add: run_capture_text_def capture_error_def split: sum.splits)

lemma import_dbt_version_ok [py_run]:
  "dbt_import H (world st) = Inr v \<Longrightarrow> import_dbt_version H st = (Inr v, st)"
  by (simp add: import_dbt_version_def)

lemma import_dbt_version_fail [py_run]:
  "dbt_import H (world st) = Inl e \<Longrightarrow> import_dbt_version H st = (Inl e, st)"
  by (simp add: import_dbt_version_def)

subsection \<open>Reading back printed lines\<close>

lemma py_split_printed:
  "\<forall>l\<in>set ls. nl \<notin> set l \<Longrightarrow> py_split nl (printed ls) = ls @ [[]]"
proof (induction ls)
  case (Cons l ls)
  then have "split_loop nl [] (l @ nl # printed ls) = l # split_loop nl [] (printed ls)"
    by (simp add: split_loop_free_prefix)
  with Cons show ?case by (simp add: py_split_def)
qed (simp add: py_split_def)

lemma cr_notin_printed: "\<forall>l\<in>set ls. cr \<notin> set l \<Longrightarrow> cr \<notin> set (printed ls)"
  by (induction ls) auto

subsection \<open>Decoding captured output\<close>

text \<open>C12: \<open>subprocess.run(..., capture_output=True, text=True)\<close> raises exactly when a captured stream is not well-formed UTF-8, and then raises only \<open>UnicodeDecodeError\<close>: at the first undecodable byte of standard output when that stream is not well-formed, otherwise at the first undecodable byte of standard error. Whether it raises or not, the child has run to completion: it is recorded, its change of the world is kept, and nothing is written to the interpreter's streams.\<close>

theorem run_capture_text_raises:
  assumes "exec H args (world st) = (rc, out, err, w')"
  shows "snd (run_capture_text H args st) = st\<lparr>spawned := spawned st @ [args], world := w'\<rparr>
    \<and> (fst (run_capture_text H args st) = Inl e \<longleftrightarrow>
         (\<exists>p. e = UnicodeDecodeError p
              \<and> (utf8_decode out = Inl p \<or> (utf8_valid out \<and> utf8_decode err = Inl p))))"
  using assms
  by (auto simp: run_capture_text_def decode_text_def utf8_valid_def split: sum.splits)

subsection \<open>Universal newlines\<close>

text \<open>C13: The text that \<open>subprocess.run(..., text=True)\<close> returns contains no carriage return: universal newlines turn every CR LF pair and every lone CR into LF.\<close>

theorem cr_notin_translate_newlines: "cr \<notin> set (translate_newlines s)"
  by (simp add: translate_newlines_def py_replace_removes)

lemma translate_newlines_no_cr: "cr \<notin> set s \<Longrightarrow> translate_newlines s = s"
  by (simp add: translate_newlines_def py_replace_absent)

subsection \<open>Witnesses\<close>

theorem run_capture_text_raises_witness:
  "fst (run_capture_text
          \<lparr>executable = ''python'', exec = (\<lambda>args w. (0, ''ok'', [CHR 0xC0], w)), find_module = (\<lambda>w m. False), import_version = (\<lambda>w. None)\<rparr>
          [''python'']
          \<lparr>stdout = [], stderr = [], spawned = [], world = ()\<rparr>)
   = Inl (UnicodeDecodeError 0)"
  using run_capture_text_raises
    [of "\<lparr>executable = ''python'', exec = (\<lambda>args w. (0, ''ok'', [CHR 0xC0], w)), find_module = (\<lambda>w m. False), import_version = (\<lambda>w. None)\<rparr>"
        "[''python'']" "\<lparr>stdout = [], stderr = [], spawned = [], world = ()\<rparr>" 0 "''ok''" "[CHR 0xC0]" "()"
        "UnicodeDecodeError 0"]
  by (simp add: utf8_eval utf8_valid_def)

end
