(* ===== verification/Reporter.thy ===== *)
theory Reporter
  imports Subprocess
begin

text \<open>
  The notebook \<open>src/notebooks/dbt_package_lister.py\<close>, cell by cell: each cell is a
  block of statements of the runtime model of \<^theory_text>\<open>Subprocess\<close>, and the notebook
  runs the six cells and its closing \<open>print\<close> in order, stopping at the first
  exception. The lemmas compute each cell on an arbitrary state, with the environment's
  answers as hypotheses, and the properties of the whole run are assembled from them.
\<close>

section \<open>Cell 1: install \<open>dbt-snowflake\<close>\<close>

definition install_args :: "'w host \<Rightarrow> argv" where
  "install_args H = [executable H, ''-m'', ''pip'', ''install'', ''dbt-snowflake==1.7.1'', ''-q'']"

definition installing_msg :: pystr where
  "installing_msg = ''Installing dbt-snowflake...''"

definition installed_msg :: pystr where
  "installed_msg = check_mark @ '' dbt-snowflake installed successfully!''"

definition cell1_install :: "'w host \<Rightarrow> ('w, unit) py" where
  "cell1_install H =
     py_seq [py_print installing_msg,
             py_discard (check_call H (install_args H)),
             py_print installed_msg]"

section \<open>Cell 2: the installed version\<close>

definition cell2_version :: "'w host \<Rightarrow> ('w, unit) py" where
  "cell2_version H = py_bind (import_dbt_version H) (\<lambda>v. py_print (''dbt version: '' @ v))"

section \<open>Cell 3: installed packages whose name mentions dbt\<close>

definition list_args :: "'w host \<Rightarrow> argv" where
  "list_args H = [executable H, ''-m'', ''pip'', ''list'']"

definition listing_header :: pystr where
  "listing_header = nl # package_icon @ '' Installed dbt-related packages:''"

text \<open>The loop's test \<open>'dbt' in line.lower()\<close> and its \<open>print(f"  \<bullet> {line}")\<close>.\<close>

definition is_dbt_line :: "pystr \<Rightarrow> bool" where
  "is_dbt_line l = py_in ''dbt'' (py_lower l)"

definition bullet_line :: "pystr \<Rightarrow> pystr" where
  "bullet_line l = ''  '' @ bullet @ '' '' @ l"

fun print_dbt_lines :: "pystr list \<Rightarrow> ('w, unit) py" where
  "print_dbt_lines [] = py_return ()"
| "print_dbt_lines (l # ls) =
     py_bind (if is_dbt_line l then py_print (bullet_line l) else py_return ())
             (\<lambda>_. print_dbt_lines ls)"

definition cell3_list :: "'w host \<Rightarrow> ('w, unit) py" where
  "cell3_list H =
     py_bind (py_print listing_header)
       (\<lambda>_. py_bind (run_capture_text H (list_args H))
              (\<lambda>result. print_dbt_lines (py_split nl (cp_stdout result))))"

section \<open>Cells 4 to 6 and the closing line: fixed text\<close>

definition packages_content :: pystr where
  "packages_content =
     [nl] @ ''packages:'' @ [nl] @ ''  - package: dbt-labs/dbt_utils'' @ [nl]
     @ ''    version: 1.1.1'' @ [nl]"

definition cell4_packages :: "('w, unit) py" where
  "cell4_packages =
     py_seq [py_print (nl # clipboard_icon @ '' dbt Packages configured in project:''),
             py_print packages_content]"

definition cell5_details :: "('w, unit) py" where
  "cell5_details =
     py_seq [py_print (nl # search_icon @ '' dbt Package Details:''),
             py_print (py_str_mul ''='' 60),
             py_print ''Package: dbt-labs/dbt_utils'',
             py_print ''Version: 1.1.1'',
             py_print ''Description: Utility macros for dbt projects'',
             py_print ''Repository: https://github.com/dbt-labs/dbt-utils'',
             py_print (py_str_mul ''='' 60)]"

definition commands :: "pystr list" where
  "commands =
     [''dbt debug - Test database connection'',
      ''dbt deps - Install package dependencies'',
      ''dbt seed - Load CSV files'',
      ''dbt run - Execute models'',
      ''dbt test - Run data tests'',
      ''dbt docs generate - Create documentation'',
      ''dbt build - Run everything'']"

definition cell6_commands :: "('w, unit) py" where
  "cell6_commands =
     py_seq (py_print (nl # laptop_icon @ '' Available dbt commands:'')
             # map (\<lambda>cmd. py_print (bullet_line cmd)) commands)"

definition complete_msg :: pystr where
  "complete_msg = nl # check_mark @ '' Notebook execution complete!''"

section \<open>The notebook\<close>

definition notebook :: "'w host \<Rightarrow> ('w, unit) py" where
  "notebook H =
     py_seq [cell1_install H, cell2_version H, cell3_list H,
             cell4_packages, cell5_details, cell6_commands, py_print complete_msg]"

section \<open>Reference output and an example environment\<close>

text \<open>
  The text that cells 4 to 6 and the closing \<open>print\<close> write, line by line, as the
  source spells it: the configuration block, the package details between two rules of
  sixty \<open>=\<close>, the seven commands, and the completion line.
\<close>

definition static_report_lines :: "pystr list" where
  "static_report_lines =
     [nl # clipboard_icon @ '' dbt Packages configured in project:'',
      [nl] @ ''packages:'' @ [nl] @ ''  - package: dbt-labs/dbt_utils'' @ [nl] @ ''    version: 1.1.1'' @ [nl],
      nl # search_icon @ '' dbt Package Details:'',
      replicate 60 (CHR ''=''),
      ''Package: dbt-labs/dbt_utils'',
      ''Version: 1.1.1'',
      ''Description: Utility macros for dbt projects'',
      ''Repository: https://github.com/dbt-labs/dbt-utils'',
      replicate 60 (CHR ''=''),
      nl # laptop_icon @ '' Available dbt commands:'',
      ''  '' @ bullet @ '' dbt debug - Test database connection'',
      ''  '' @ bullet @ '' dbt deps - Install package dependencies'',
      ''  '' @ bullet @ '' dbt seed - Load CSV files'',
      ''  '' @ bullet @ '' dbt run - Execute models'',
      ''  '' @ bullet @ '' dbt test - Run data tests'',
      ''  '' @ bullet @ '' dbt docs generate - Create documentation'',
      ''  '' @ bullet @ '' dbt build - Run everything'',
      nl # check_mark @ '' Notebook execution complete!'']"

text \<open>
  A concrete environment for the witnesses: every child exits with \<open>rc\<close> and
  writes nothing, except \<open>pip list\<close>, which succeeds and prints \<open>lst\<close> (below, a
  small table); \<open>ver\<close> is the version the import finds, and the \<open>dbt\<close>
  package and its \<open>version\<close> module are present exactly when \<open>ver\<close> is.
\<close>

definition example_listing :: pystr where
  "example_listing =
     printed [''Package         Version'', ''--------------- -------'',
              ''dbt-core        1.7.1'', ''requests        2.31.0'', ''DBT-Snowflake   1.7.1'']"

definition example_host :: "int \<Rightarrow> pystr option \<Rightarrow> pystr \<Rightarrow> unit host" where
  "example_host rc ver lst =
     \<lparr>executable = ''/usr/bin/python3'',
      exec = (\<lambda>args w. if args = [''/usr/bin/python3'', ''-m'', ''pip'', ''list'']
                       then (0, lst, [], w) else (rc, [], [], w)),
      find_module = (\<lambda>_ _. ver \<noteq> None), import_version = (\<lambda>_. ver)\<rparr>"

definition example_state :: "unit proc" where
  "example_state = \<lparr>stdout = [], stderr = [], spawned = [], world = ()\<rparr>"

section \<open>Running the cells\<close>


lemma cell1_install_ok:
  "exec H (install_args H) (world st) = (0, out, err, w') \<Longrightarrow>
   cell1_install H st =
     (Inr (), st\<lparr>stdout := stdout st @ installing_msg @ [nl] @ out @ installed_msg @ [nl],
                stderr := stderr st @ err, spawned := spawned st @ [install_args H], world := w'\<rparr>)"
  by (simp add: cell1_install_def py_discard_def py_bind_def py_return_def py_print_def check_call_def)

lemma cell1_install_fail:
  "exec H (install_args H) (world st) = (rc, out, err, w') \<Longrightarrow> rc \<noteq> 0 \<Longrightarrow>
   cell1_install H st =
     (Inl (CalledProcessError rc (install_args H)),
      st\<lparr>stdout := stdout st @ installing_msg @ [nl] @ out, stderr := stderr st @ err,
         spawned := spawned st @ [install_args H], world := w'\<rparr>)"
  by (simp add: cell1_install_def py_discard_def py_bind_def py_return_def py_print_def check_call_def)

lemma cell2_version_ok:
  "dbt_import H (world st) = Inr v \<Longrightarrow>
   cell2_version H st = (Inr (), st\<lparr>stdout := stdout st @ ''dbt version: '' @ v @ [nl]\<rparr>)"
  by (simp add: cell2_version_def py_bind_def py_print_def import_dbt_version_def)

lemma cell2_version_fail:
  "dbt_import H (world st) = Inl e \<Longrightarrow> cell2_version H st = (Inl e, st)"
  by (simp add: cell2_version_def py_bind_def import_dbt_version_def)

lemma print_dbt_lines_run:
  "print_dbt_lines ls st =
     (Inr (), st\<lparr>stdout := stdout st @ printed (map bullet_line (filter is_dbt_line ls))\<rparr>)"
  by (induction ls arbitrary: st) (simp_all add: py_bind_def py_print_def py_return_def)

lemma cell3_list_run:
  "exec H (list_args H) (world st) = (rc, out, err, w') \<Longrightarrow> capture_error out err = None \<Longrightarrow>
   cell3_list H st =
     (Inr (), st\<lparr>stdout := stdout st @ listing_header @ [nl]
                   @ printed (map bullet_line (filter is_dbt_line (py_split nl (translate_newlines out)))),
                spawned := spawned st @ [list_args H], world := w'\<rparr>)"
  by (simp add: cell3_list_def py_bind_def py_print_def run_capture_text_run print_dbt_lines_run)

lemma cell3_list_raise:
  "exec H (list_args H) (world st) = (rc, out, err, w') \<Longrightarrow> capture_error out err = Some e \<Longrightarrow>
   cell3_list H st =
     (Inl e, st\<lparr>stdout := stdout st @ listing_header @ [nl],
                spawned := spawned st @ [list_args H], world := w'\<rparr>)"
  by (simp add: cell3_list_def py_bind_def py_print_def run_capture_text_raise)

lemma static_cells_run:
  "py_seq [cell4_packages, cell5_details, cell6_commands, py_print complete_msg] st =
   (Inr (), st\<lparr>stdout := stdout st @ printed static_report_lines\<rparr>)"
  by (simp add: static_report_lines_def cell4_packages_def cell5_details_def cell6_commands_def commands_def complete_msg_def
      packages_content_def bullet_line_def py_str_mul_def py_bind_def py_print_def py_return_def)

lemma notebook_tail:
  "notebook H = py_seq [cell1_install H, cell2_version H, cell3_list H,
     py_seq [cell4_packages, cell5_details, cell6_commands, py_print complete_msg]]"
  by (simp add: notebook_def)

lemmas notebook_cell_runs =
  cell1_install_ok cell1_install_fail cell2_version_ok cell2_version_fail cell3_list_run cell3_list_raise
  static_cells_run

text \<open>C1: When the install exits with status 0, the version import succeeds and what \<open>pip list\<close> writes to its two streams is well-formed UTF-8, the notebook completes without an exception, whatever the exit status of \<open>pip list\<close>. It writes, in order, the install message, whatever the installer wrote, the success message, the version line, the listing header, one bullet line per line of the listing that mentions dbt, and the fixed text of cells 4 to 6 and the closing line; standard error receives only what the installer wrote there. It starts exactly the two children, install first, and leaves the world as \<open>pip list\<close> left it.\<close>

theorem notebook_success:
  assumes "exec H (install_args H) (world st) = (0, out1, err1, w1)"
    and "dbt_import H w1 = Inr v"
    and "exec H (list_args H) w1 = (rc, out2, err2, w2)"
    and "utf8_valid out2" and "utf8_valid err2"
  shows "notebook H st =
    (Inr (), st\<lparr>stdout := stdout st @ printed
                   ([''Installing dbt-snowflake...'']) @ out1 @ printed
                   ([check_mark @ '' dbt-snowflake installed successfully!'',
                     ''dbt version: '' @ v,
                     nl # package_icon @ '' Installed dbt-related packages:'']
                    @ map bullet_line (filter is_dbt_line (py_split nl (translate_newlines out2)))
                    @ static_report_lines),
               stderr := stderr st @ err1,
               spawned := spawned st @ [install_args H, list_args H], world := w2\<rparr>)"
  using assms
  by (simp add: notebook_tail notebook_cell_runs capture_error_None_iff py_seq_Cons_run py_seq_Nil_run
      installing_msg_def installed_msg_def listing_header_def del: py_seq.simps)

text \<open>C2: When the install exits with a nonzero status, the notebook raises \<open>CalledProcessError\<close> with that status and the install command. Nothing runs after the install: the only output is the install message and what the installer wrote to its two streams, and no other child is started.\<close>

theorem notebook_install_fails:
  assumes "exec H (install_args H) (world st) = (rc, out1, err1, w1)" and "rc \<noteq> 0"
  shows "notebook H st =
    (Inl (CalledProcessError rc (install_args H)),
     st\<lparr>stdout := stdout st @ ''Installing dbt-snowflake...'' @ [nl] @ out1, stderr := stderr st @ err1,
        spawned := spawned st @ [install_args H], world := w1\<rparr>)"
  using assms by (simp add: notebook_def notebook_cell_runs py_bind_def installing_msg_def)

text \<open>C3: When the install succeeds but \<open>import dbt.version\<close> or the reading of \<open>dbt.version.__version__\<close> raises (\<open>ModuleNotFoundError\<close> naming the first of \<open>dbt\<close> and \<open>dbt.version\<close> that is missing, or \<open>AttributeError\<close>), the notebook raises that exception after printing the install and success messages. \<open>pip list\<close> is never started.\<close>

theorem notebook_import_fails:
  assumes "exec H (install_args H) (world st) = (0, out1, err1, w1)" and "dbt_import H w1 = Inl e"
  shows "notebook H st =
    (Inl e,
     st\<lparr>stdout := stdout st @ printed [''Installing dbt-snowflake...''] @ out1
                   @ printed [check_mark @ '' dbt-snowflake installed successfully!''],
        stderr := stderr st @ err1,
        spawned := spawned st @ [install_args H], world := w1\<rparr>)"
  using assms by (simp add: notebook_def notebook_cell_runs py_bind_def installing_msg_def installed_msg_def)

text \<open>C4: When the install and the import succeed but what \<open>pip list\<close> writes to standard output, or else to standard error, is not well-formed UTF-8, the notebook raises \<open>UnicodeDecodeError\<close> at the first undecodable byte of that stream, after the listing header and before any bullet line: \<open>subprocess.run(..., text=True)\<close> decodes the captured output before the loop sees it.\<close>

theorem notebook_list_undecodable:
  assumes "exec H (install_args H) (world st) = (0, out1, err1, w1)"
    and "dbt_import H w1 = Inr v"
    and "exec H (list_args H) w1 = (rc, out2, err2, w2)"
    and "utf8_decode out2 = Inl p \<or> (utf8_valid out2 \<and> utf8_decode err2 = Inl p)"
  shows "notebook H st =
    (Inl (UnicodeDecodeError p),
     st\<lparr>stdout := stdout st @ printed [''Installing dbt-snowflake...''] @ out1
                   @ printed [check_mark @ '' dbt-snowflake installed successfully!'',
                              ''dbt version: '' @ v,
                              nl # package_icon @ '' Installed dbt-related packages:''],
        stderr := stderr st @ err1,
        spawned := spawned st @ [install_args H, list_args H], world := w2\<rparr>)"
proof -
  from assms(4) have "capture_error out2 err2 = Some (UnicodeDecodeError p)"
    by (auto simp: capture_error_def decode_text_def utf8_valid_def split: sum.splits)
  with assms(1-3) show ?thesis
    by (simp add: notebook_tail notebook_cell_runs py_seq_Cons_run py_seq_Cons_raise
        installing_msg_def installed_msg_def listing_header_def del: py_seq.simps)
qed

lemma notebook_cases:
  obtains (install_fail) rc out1 err1 w1 where
    "exec H (install_args H) (world st) = (rc, out1, err1, w1)" "rc \<noteq> 0"
    "notebook H st = (Inl (CalledProcessError rc (install_args H)),
       st\<lparr>stdout := stdout st @ installing_msg @ [nl] @ out1, stderr := stderr st @ err1,
          spawned := spawned st @ [install_args H], world := w1\<rparr>)"
  | (import_fail) out1 err1 w1 e where
    "exec H (install_args H) (world st) = (0, out1, err1, w1)" "dbt_import H w1 = Inl e"
    "notebook H st = (Inl e,
       st\<lparr>stdout := stdout st @ installing_msg @ [nl] @ out1 @ installed_msg @ [nl],
          stderr := stderr st @ err1,
          spawned := spawned st @ [install_args H], world := w1\<rparr>)"
  | (list_fail) out1 err1 w1 v rc out2 err2 w2 e where
    "exec H (install_args H) (world st) = (0, out1, err1, w1)" "dbt_import H w1 = Inr v"
    "exec H (list_args H) w1 = (rc, out2, err2, w2)" "capture_error out2 err2 = Some e"
    "notebook H st = (Inl e,
       st\<lparr>stderr := stderr st @ err1,
          stdout := stdout st @ installing_msg @ [nl] @ out1 @ installed_msg @ [nl]
            @ ''dbt version: '' @ v @ [nl] @ listing_header @ [nl],
          spawned := spawned st @ [install_args H, list_args H], world := w2\<rparr>)"
  | (ok) out1 err1 w1 v rc out2 err2 w2 where
    "exec H (install_args H) (world st) = (0, out1, err1, w1)" "dbt_import H w1 = Inr v"
    "exec H (list_args H) w1 = (rc, out2, err2, w2)" "capture_error out2 err2 = None"
    "notebook H st = (Inr (),
       st\<lparr>stderr := stderr st @ err1,
          spawned := spawned st @ [install_args H, list_args H], world := w2,
          stdout := stdout st @ installing_msg @ [nl] @ out1 @ installed_msg @ [nl]
            @ ''dbt version: '' @ v @ [nl] @ listing_header @ [nl]
            @ printed (map bullet_line (filter is_dbt_line (py_split nl (translate_newlines out2))))
            @ printed static_report_lines\<rparr>)"
proof -
  obtain rc out1 err1 w1 where inst: "exec H (install_args H) (world st) = (rc, out1, err1, w1)"
    by (cases "exec H (install_args H) (world st)") auto
  show thesis
  proof (cases "rc = 0")
    case False
    with inst show thesis
      by (intro install_fail) (simp_all add: notebook_def notebook_cell_runs py_bind_def)
  next
    case True
    show thesis
    proof (cases "dbt_import H w1")
      case (Inl e)
      with inst True show thesis
        by (intro import_fail) (simp_all add: notebook_def notebook_cell_runs py_bind_def)
    next
      case (Inr v)
      obtain rc2 out2 err2 w2 where lst: "exec H (list_args H) w1 = (rc2, out2, err2, w2)"
        by (cases "exec H (list_args H) w1") auto
      show thesis
      proof (cases "capture_error out2 err2")
        case None
        with inst True Inr lst show thesis
          by (intro ok) (simp_all add: notebook_tail notebook_cell_runs py_seq_Cons_run py_seq_Nil_run
              del: py_seq.simps)
      next
        case (Some e)
        with inst True \<open>dbt_import H w1 = Inr v\<close> lst show thesis
          by (intro list_fail) (simp_all add: notebook_tail notebook_cell_runs py_seq_Cons_run
              py_seq_Cons_raise del: py_seq.simps)
      qed
    qed
  qed
qed

text \<open>C5: The notebook completes without an exception exactly when the install exits with status 0, the version import then succeeds, and \<open>pip list\<close> writes well-formed UTF-8 to both streams. A failing exit status of \<open>pip list\<close> is never an error.\<close>

theorem notebook_ok_iff:
  "fst (notebook H st) = Inr () \<longleftrightarrow>
     (case exec H (install_args H) (world st) of
        (rc, out1, err1, w1) \<Rightarrow>
          rc = 0 \<and> \<not> isl (dbt_import H w1)
          \<and> (case exec H (list_args H) w1 of (rc2, out2, err2, w2) \<Rightarrow> utf8_valid out2 \<and> utf8_valid err2))"
  by (cases rule: notebook_cases [of H st]) (auto simp flip: capture_error_None_iff)

text \<open>C6: Every run starts the install child first and nothing else before it. A run starts at most one more child, \<open>pip list\<close>, and no other.\<close>

theorem notebook_spawn_order:
  "\<exists>ys. spawned (snd (notebook H st)) = spawned st @ ys
     \<and> (ys = [install_args H] \<or> ys = [install_args H, list_args H])"
  by (cases rule: notebook_cases [of H st]) auto

text \<open>C7: A run only appends to standard output and to standard error. The first thing it appends to standard output is the install message, and all it appends to standard error is what the install child wrote there.\<close>

theorem notebook_stdout_extends:
  "\<exists>out err. stdout (snd (notebook H st)) = stdout st @ ''Installing dbt-snowflake...'' @ [nl] @ out
     \<and> stderr (snd (notebook H st)) = stderr st @ err
     \<and> (case exec H (install_args H) (world st) of (rc, out1, err1, w1) \<Rightarrow> err = err1)"
  by (cases rule: notebook_cases [of H st]) (auto simp: installing_msg_def)

lemma is_dbt_line_eq: "is_dbt_line = (\<lambda>l. sublist ''dbt'' (py_lower l))"
  by (simp add: fun_eq_iff is_dbt_line_def py_in_find_from find_from_None_iff)

text \<open>C8: The listing loop prints one bullet line for each line of its input whose lower-cased form contains \<open>dbt\<close>, in input order, and nothing else. It never raises.\<close>

theorem print_dbt_lines_output:
  "print_dbt_lines ls st =
     (Inr (), st\<lparr>stdout := stdout st @ printed (map bullet_line [l \<leftarrow> ls. sublist ''dbt'' (py_lower l)])\<rparr>)"
  by (simp add: print_dbt_lines_run is_dbt_line_eq)

text \<open>Cells 4 to 6 and the closing line write the same text from every state: the configuration block, the package details between two rules of sixty \<open>=\<close>, the seven commands debug, deps, seed, run, test, docs generate and build in this order, each after a bullet, and the completion line. They never raise.\<close>

theorem static_cells_output:
  "py_seq [cell4_packages, cell5_details, cell6_commands, py_print complete_msg] st =
   (Inr (), st\<lparr>stdout := stdout st @ printed
     [nl # clipboard_icon @ '' dbt Packages configured in project:'',
      [nl] @ ''packages:'' @ [nl] @ ''  - package: dbt-labs/dbt_utils'' @ [nl] @ ''    version: 1.1.1'' @ [nl],
      nl # search_icon @ '' dbt Package Details:'',
      replicate 60 (CHR ''=''),
      ''Package: dbt-labs/dbt_utils'',
      ''Version: 1.1.1'',
      ''Description: Utility macros for dbt projects'',
      ''Repository: https://github.com/dbt-labs/dbt-utils'',
      replicate 60 (CHR ''=''),
      nl # laptop_icon @ '' Available dbt commands:'',
      ''  '' @ bullet @ '' dbt debug - Test database connection'',
      ''  '' @ bullet @ '' dbt deps - Install package dependencies'',
      ''  '' @ bullet @ '' dbt seed - Load CSV files'',
      ''  '' @ bullet @ '' dbt run - Execute models'',
      ''  '' @ bullet @ '' dbt test - Run data tests'',
      ''  '' @ bullet @ '' dbt docs generate - Create documentation'',
      ''  '' @ bullet @ '' dbt build - Run everything'',
      nl # check_mark @ '' Notebook execution complete!'']\<rparr>)"
  by (subst static_cells_run) (simp add: static_report_lines_def)

text \<open>The listing filter keeps exactly the lines that mention dbt in any case, in order: of \<open>dbt-core 1.7.1\<close>, \<open>requests 2.0\<close> and \<open>DBT-Snowflake 1.7.1\<close> it keeps the first and the last.\<close>

section \<open>Witnesses\<close>

lemmas example_simps = example_host_def example_state_def install_args_def list_args_def dbt_import_def

lemma example_listing_ascii: "utf8_valid example_listing"
  by (rule utf8_valid_ascii) (simp add: example_listing_def byte_val_def nl_def)

theorem notebook_success_witness:
  "fst (notebook (example_host 0 (Some ''1.7.1'') example_listing) example_state) = Inr ()
   \<and> spawned (snd (notebook (example_host 0 (Some ''1.7.1'') example_listing) example_state))
       = [install_args (example_host 0 (Some ''1.7.1'') example_listing),
          list_args (example_host 0 (Some ''1.7.1'') example_listing)]"
  using notebook_success [of "example_host 0 (Some ''1.7.1'') example_listing" example_state "[]" "[]"
      "()" "''1.7.1''" 0 example_listing "[]" "()"]
  by (simp add: example_simps example_listing_ascii utf8_valid_ascii)

theorem notebook_install_fails_witness:
  "fst (notebook (example_host 1 None []) example_state)
   = Inl (CalledProcessError 1 (install_args (example_host 1 None [])))"
  using notebook_install_fails [of "example_host 1 None []" example_state 1 "[]" "[]" "()"]
  by (simp add: example_simps)

theorem notebook_import_fails_witness:
  "fst (notebook (example_host 0 None []) example_state) = Inl (ModuleNotFoundError ''dbt'')
   \<and> spawned (snd (notebook (example_host 0 None []) example_state)) = [install_args (example_host 0 None [])]"
  using notebook_import_fails [of "example_host 0 None []" example_state "[]" "[]" "()" "ModuleNotFoundError ''dbt''"]
  by (simp add: example_simps)

theorem notebook_list_undecodable_witness:
  "fst (notebook (example_host 0 (Some ''1.7.1'') [CHR ''d'', CHR 0xFF]) example_state)
   = Inl (UnicodeDecodeError 1)"
  using notebook_list_undecodable [of "example_host 0 (Some ''1.7.1'') [CHR ''d'', CHR 0xFF]" example_state
      "[]" "[]" "()" "''1.7.1''" 0 "[CHR ''d'', CHR 0xFF]" "[]" "()" 1]
  by (simp add: example_simps utf8_eval)

theorem notebook_ok_iff_witness:
  "fst (notebook (example_host 1 (Some ''1.7.1'') example_listing) example_state) \<noteq> Inr ()"
  using notebook_ok_iff [of "example_host 1 (Some ''1.7.1'') example_listing" example_state]
  by (simp add: example_simps)

end
