(* ===== verification/PipModel.thy ===== *)
theory PipModel
  imports Reporter "HOL-Library.Char_ord" "HOL-Library.List_Lexorder"
begin

text \<open>
  An environment for the notebook: a model of pip and of the site it installs into,
  written from pip's documented behaviour (pip is not code of this repository). The
  world is the installed distributions, in the order they were installed, and an
  index that resolves a requirement to the distributions its install brings in.
  \<open>pip install -q\<close> writes nothing to standard output; on an unresolvable requirement
  it writes its two \<open>ERROR:\<close> lines to standard error and exits 1; \<open>pip list\<close>
  prints pip's \<open>tabulate\<close> table (a header, a rule of dashes, one row per
  distribution, sorted by canonical name: the name padded to the column width, a space,
  the version, the whole right-stripped) and nothing to standard error. Distribution names
  and versions are ASCII (PEP 508 names, PEP 440 versions). The \<open>dbt\<close> package and
  \<open>dbt.version\<close> are importable exactly when a \<open>dbt-core\<close> distribution is installed,
  and \<open>__version__\<close> is its version. The theorem gives the notebook's complete
  run in this environment, the listing read back from pip's table through the split of
  \<^theory_text>\<open>PyStr\<close> and the filter of cell 3.
\<close>

section \<open>Python string methods pip uses\<close>

definition py_isspace :: "char \<Rightarrow> bool" where
  "py_isspace c =
     (let k = (of_char c :: nat) in k = 32 \<or> (9 \<le> k \<and> k \<le> 13) \<or> (28 \<le> k \<and> k \<le> 31))"

definition py_rstrip :: "pystr \<Rightarrow> pystr" where
  "py_rstrip s = rev (dropWhile py_isspace (rev s))"

definition py_ljust :: "pystr \<Rightarrow> nat \<Rightarrow> pystr" where
  "py_ljust s n = s @ replicate (n - length s) (CHR '' '')"

section \<open>The package site and index\<close>

record pip_world =
  site :: "(pystr \<times> pystr) list"
  index :: "pystr \<Rightarrow> (pystr \<times> pystr) list option"

definition install_dist :: "pystr \<times> pystr \<Rightarrow> (pystr \<times> pystr) list \<Rightarrow> (pystr \<times> pystr) list" where
  "install_dist d ps =
     (if fst d \<in> fst ` set ps then map (\<lambda>e. if fst e = fst d then d else e) ps else ps @ [d])"

definition install_dists :: "(pystr \<times> pystr) list \<Rightarrow> (pystr \<times> pystr) list \<Rightarrow> (pystr \<times> pystr) list" where
  "install_dists ds ps = fold install_dist ds ps"

definition pip_install :: "pystr \<Rightarrow> pip_world \<Rightarrow> int \<times> pystr \<times> pystr \<times> pip_world" where
  "pip_install req w =
     (case index w req of
        None \<Rightarrow>
          (1, [], printed [''ERROR: Could not find a version that satisfies the requirement '' @ req
                           @ '' (from versions: none)'',
                           ''ERROR: No matching distribution found for '' @ req], w)
      | Some ds \<Rightarrow> (0, [], [], w\<lparr>site := install_dists ds (site w)\<rparr>))"

definition max_len :: "pystr list \<Rightarrow> nat" where
  "max_len xs = fold max (map length xs) 0"

definition pip_row :: "nat \<Rightarrow> nat \<Rightarrow> pystr \<times> pystr \<Rightarrow> pystr" where
  "pip_row w1 w2 d = py_rstrip (py_ljust (fst d) w1 @ '' '' @ py_ljust (snd d) w2)"

definition pip_widths :: "(pystr \<times> pystr) list \<Rightarrow> nat \<times> nat" where
  "pip_widths ps = (max_len (''Package'' # map fst ps), max_len (''Version'' # map snd ps))"

definition pip_list_lines :: "(pystr \<times> pystr) list \<Rightarrow> pystr list" where
  "pip_list_lines ps =
     (if ps = [] then []
      else case pip_widths ps of
        (w1, w2) \<Rightarrow>
          pip_row w1 w2 (''Package'', ''Version'')
          # (replicate w1 (CHR ''-'') @ '' '' @ replicate w2 (CHR ''-''))
          # map (pip_row w1 w2) ps)"

text \<open>
  \<open>pip list\<close> sorts the distributions by their canonical name (PEP 503: runs of
  \<open>-\<close>, \<open>_\<close> and \<open>.\<close> become one \<open>-\<close>, the whole lower-cased), comparing
  strings by code point; \<open>sort_key\<close> is stable, as Python's \<open>sorted\<close> is.
\<close>

fun canon_seps :: "bool \<Rightarrow> pystr \<Rightarrow> pystr" where
  "canon_seps sep [] = []"
| "canon_seps sep (c # cs) =
     (if c = CHR ''-'' \<or> c = CHR ''_'' \<or> c = CHR ''.''
      then (if sep then canon_seps True cs else CHR ''-'' # canon_seps True cs)
      else c # canon_seps False cs)"

definition canonical_name :: "pystr \<Rightarrow> pystr" where
  "canonical_name n = py_lower (canon_seps False n)"

definition pip_sorted :: "(pystr \<times> pystr) list \<Rightarrow> (pystr \<times> pystr) list" where
  "pip_sorted ps = sort_key (\<lambda>d. canonical_name (fst d)) ps"

definition pip_exec :: "pystr \<Rightarrow> argv \<Rightarrow> pip_world \<Rightarrow> int \<times> pystr \<times> pystr \<times> pip_world" where
  "pip_exec exe args w =
     (if args = [exe, ''-m'', ''pip'', ''list''] then (0, printed (pip_list_lines (pip_sorted (site w))), [], w)
      else if length args = 6 \<and> take 4 args = [exe, ''-m'', ''pip'', ''install''] \<and> args ! 5 = ''-q''
      then pip_install (args ! 4) w
      else (2, [], ''ERROR: unknown command'' @ [nl], w))"

definition pip_host :: "pystr \<Rightarrow> pip_world host" where
  "pip_host exe =
     \<lparr>executable = exe, exec = pip_exec exe,
      find_module = (\<lambda>w m. map_of (site w) ''dbt-core'' \<noteq> None),
      import_version = (\<lambda>w. map_of (site w) ''dbt-core'')\<rparr>"

definition wf_dist :: "pystr \<times> pystr \<Rightarrow> bool" where
  "wf_dist d =
     (fst d \<noteq> [] \<and> snd d \<noteq> [] \<and> list_all (\<lambda>c. \<not> py_isspace c \<and> byte_val c < 128) (fst d @ snd d))"

definition dbt_dist :: "pystr \<times> pystr \<Rightarrow> bool" where
  "dbt_dist d = (sublist ''dbt'' (py_lower (fst d)) \<or> sublist ''dbt'' (py_lower (snd d)))"

section \<open>An example site and index\<close>

definition demo_resolution :: "(pystr \<times> pystr) list" where
  "demo_resolution =
     [(''dbt-core'', ''1.7.4''), (''dbt-extractor'', ''0.5.1''),
      (''snowflake-connector-python'', ''3.6.0''), (''dbt-snowflake'', ''1.7.1'')]"

definition demo_index :: "pystr \<Rightarrow> (pystr \<times> pystr) list option" where
  "demo_index req =
     (if req = ''dbt-snowflake==1.7.1''
      then Some demo_resolution else None)"

definition demo_world :: pip_world where
  "demo_world = \<lparr>site = [(''pip'', ''23.3.1''), (''requests'', ''2.31.0'')], index = demo_index\<rparr>"

definition demo_state :: "pip_world proc" where
  "demo_state = \<lparr>stdout = [], stderr = [], spawned = [], world = demo_world\<rparr>"

section \<open>Lemmas\<close>

lemma sublist_around: "x \<notin> set p \<Longrightarrow> sublist p (a @ x # b) \<longleftrightarrow> sublist p a \<or> sublist p b"
proof
  assume x: "x \<notin> set p" and s: "sublist p (a @ x # b)"
  show "sublist p a \<or> sublist p b"
  proof (cases "p = []")
    case False
    from s consider "sublist p a" | "sublist p (x # b)"
      | p1 p2 where "p = p1 @ p2" "suffix p1 a" "prefix p2 (x # b)"
      by (auto simp: sublist_append)
    then show ?thesis
    proof cases
      case 2
      with x False show ?thesis by (auto simp: sublist_Cons_right prefix_Cons)
    next
      case 3
      with x show ?thesis by (auto simp: prefix_Cons)
    qed simp
  qed simp
next
  assume "sublist p a \<or> sublist p b"
  then show "sublist p (a @ x # b)"
    by (metis append.assoc append_Cons append_Nil sublist_appendI sublist_def)
qed

lemma sublist_Cons_absent: "x \<notin> set p \<Longrightarrow> sublist p (x # b) \<longleftrightarrow> p = [] \<or> sublist p b"
  using sublist_around [of x p "[]" b] by auto

lemma sublist_spaces: "x \<notin> set p \<Longrightarrow> sublist p (replicate k x @ b) \<longleftrightarrow> p = [] \<or> sublist p b"
  by (induction k) (auto simp: sublist_Cons_absent)

lemma sublist_padded:
  "x \<notin> set p \<Longrightarrow> sublist p (a @ replicate k x @ x # b) \<longleftrightarrow> sublist p a \<or> sublist p b"
proof -
  assume x: "x \<notin> set p"
  have eq: "a @ replicate k x @ x # b = a @ x # (replicate k x @ b)"
    by (simp add: replicate_app_Cons_same)
  have "sublist p (a @ x # (replicate k x @ b)) \<longleftrightarrow> sublist p a \<or> p = [] \<or> sublist p b"
    by (simp only: sublist_around [OF x] sublist_spaces [OF x])
  then show ?thesis unfolding eq by auto
qed

abbreviation sp :: char where
  "sp \<equiv> CHR '' ''"

lemma py_isspace_sp [simp]: "py_isspace sp"
  by (simp add: py_isspace_def)

lemma py_isspace_nl_cr [simp]: "py_isspace nl" "py_isspace cr"
  by (simp_all add: py_isspace_def nl_def cr_def)

lemma lower_char_sp [simp]: "lower_char sp = sp"
  by (simp add: lower_char_def)

lemma lower_char_dash [simp]: "lower_char (CHR ''-'') = CHR ''-''"
  by (simp add: lower_char_def)

lemma py_lower_append [simp]: "py_lower (a @ b) = py_lower a @ py_lower b"
  and py_lower_Cons [simp]: "py_lower (c # b) = lower_char c # py_lower b"
  and py_lower_replicate [simp]: "py_lower (replicate k c) = replicate k (lower_char c)"
  and py_lower_Nil [simp]: "py_lower [] = []"
  by (simp_all add: py_lower_def)

lemma dropWhile_replicate_append:
  "P x \<Longrightarrow> dropWhile P (replicate k x @ ys) = dropWhile P ys"
  by (induction k) auto

lemma py_rstrip_padded:
  assumes "v \<noteq> []" "\<not> py_isspace (last v)"
  shows "py_rstrip (x @ v @ replicate k sp) = x @ v"
proof -
  from assms obtain u c where v: "v = u @ [c]" and c: "\<not> py_isspace c"
    by (metis append_butlast_last_id)
  then show ?thesis
    by (simp add: py_rstrip_def dropWhile_replicate_append)
qed

lemma wf_dist_last:
  "wf_dist d \<Longrightarrow> snd d \<noteq> [] \<and> \<not> py_isspace (last (snd d))"
  by (auto simp: wf_dist_def list_all_iff)

lemma pip_row_wf:
  assumes "wf_dist d"
  shows "pip_row w1 w2 d = fst d @ replicate (w1 - length (fst d)) sp @ sp # snd d"
proof -
  have "py_rstrip ((fst d @ replicate (w1 - length (fst d)) sp @ [sp]) @ snd d
          @ replicate (w2 - length (snd d)) sp)
        = (fst d @ replicate (w1 - length (fst d)) sp @ [sp]) @ snd d"
    using wf_dist_last [OF assms] by (intro py_rstrip_padded) auto
  then show ?thesis by (simp add: pip_row_def py_ljust_def)
qed

lemma is_dbt_line_pip_row:
  "wf_dist d \<Longrightarrow> is_dbt_line (pip_row w1 w2 d) \<longleftrightarrow> dbt_dist d"
  by (simp add: pip_row_wf is_dbt_line_eq dbt_dist_def sublist_padded)

lemma dbt_dist_header: "\<not> dbt_dist (''Package'', ''Version'')"
  by code_simp

lemma wf_dist_header: "wf_dist (''Package'', ''Version'')"
  by code_simp

lemma not_dbt_separator:
  "\<not> is_dbt_line (replicate w1 (CHR ''-'') @ sp # replicate w2 (CHR ''-''))"
proof
  assume "is_dbt_line (replicate w1 (CHR ''-'') @ sp # replicate w2 (CHR ''-''))"
  then have "CHR ''d'' \<in> set (replicate w1 (CHR ''-'') @ sp # replicate w2 (CHR ''-''))"
    by (auto simp: is_dbt_line_eq dest!: set_mono_sublist)
  then show False by (auto split: if_splits)
qed

lemma pip_list_dbt_lines:
  assumes "list_all wf_dist ps" and "pip_widths ps = (w1, w2)"
  shows "filter is_dbt_line (pip_list_lines ps) = map (pip_row w1 w2) (filter dbt_dist ps)"
proof (cases "ps = []")
  case False
  have "filter is_dbt_line (map (pip_row w1 w2) ps) = map (pip_row w1 w2) (filter dbt_dist ps)"
    using assms(1) by (induction ps) (auto simp: is_dbt_line_pip_row)
  with False assms(2) show ?thesis
    by (simp add: pip_list_lines_def is_dbt_line_pip_row wf_dist_header dbt_dist_header not_dbt_separator)
qed (simp add: pip_list_lines_def)

lemma pip_row_chars:
  "wf_dist d \<Longrightarrow> c \<in> set (pip_row w1 w2 d) \<Longrightarrow> c = sp \<or> \<not> py_isspace c"
  by (auto simp: pip_row_wf wf_dist_def list_all_iff)

lemma breaks_not_padding [simp]:
  "nl \<noteq> sp" "cr \<noteq> sp" "nl \<noteq> CHR ''-''" "cr \<noteq> CHR ''-''"
  by (simp_all add: nl_def cr_def)

lemma pip_row_no_breaks:
  "wf_dist d \<Longrightarrow> nl \<notin> set (pip_row w1 w2 d) \<and> cr \<notin> set (pip_row w1 w2 d)"
  using pip_row_chars [of d] py_isspace_nl_cr breaks_not_padding by blast

lemma pip_list_lines_no_breaks:
  assumes "list_all wf_dist ps" and "l \<in> set (pip_list_lines ps)"
  shows "nl \<notin> set l \<and> cr \<notin> set l"
  using assms
  by (auto simp: pip_list_lines_def list_all_iff wf_dist_header pip_row_no_breaks
      split: prod.splits if_splits)

lemma is_dbt_line_Nil [simp]: "\<not> is_dbt_line []"
  by (simp add: is_dbt_line_eq)

lemma pip_listing_read_back:
  assumes "list_all wf_dist ps" and "pip_widths ps = (w1, w2)"
  shows "filter is_dbt_line (py_split nl (translate_newlines (printed (pip_list_lines ps))))
         = map (pip_row w1 w2) (filter dbt_dist ps)"
proof -
  have breaks: "\<forall>l\<in>set (pip_list_lines ps). nl \<notin> set l" "\<forall>l\<in>set (pip_list_lines ps). cr \<notin> set l"
    using pip_list_lines_no_breaks [OF assms(1)] by auto
  then have "translate_newlines (printed (pip_list_lines ps)) = printed (pip_list_lines ps)"
    by (simp add: translate_newlines_no_cr cr_notin_printed)
  with breaks show ?thesis
    by (simp add: py_split_printed pip_list_dbt_lines [OF assms])
qed

lemma printed_chars: "b \<in> set (printed ls) \<Longrightarrow> b = nl \<or> (\<exists>l\<in>set ls. b \<in> set l)"
  by (induction ls) auto

lemma pip_row_ascii: "wf_dist d \<Longrightarrow> b \<in> set (pip_row w1 w2 d) \<Longrightarrow> byte_val b < 128"
  by (auto simp: pip_row_wf wf_dist_def list_all_iff byte_val_def)

lemma byte_val_padding [simp]: "byte_val sp = 32" "byte_val (CHR ''-'') = 45"
  by (simp_all add: byte_val_def)

lemma pip_list_lines_ascii:
  "list_all wf_dist ps \<Longrightarrow> l \<in> set (pip_list_lines ps) \<Longrightarrow> b \<in> set l \<Longrightarrow> byte_val b < 128"
  by (auto simp: pip_list_lines_def list_all_iff intro: pip_row_ascii wf_dist_header
      split: prod.splits if_splits)

lemma pip_listing_valid: "list_all wf_dist ps \<Longrightarrow> utf8_valid (printed (pip_list_lines ps))"
  by (rule utf8_valid_ascii) (auto dest!: printed_chars pip_list_lines_ascii simp: byte_val_def nl_def)

lemma list_all_pip_sorted [simp]: "list_all P (pip_sorted ps) = list_all P ps"
  by (simp add: pip_sorted_def list_all_iff)

lemma pip_exec_install:
  "exec (pip_host exe) (install_args (pip_host exe)) w = pip_install ''dbt-snowflake==1.7.1'' w"
  by (simp add: pip_host_def pip_exec_def install_args_def)

lemma pip_exec_list:
  "exec (pip_host exe) (list_args (pip_host exe)) w = (0, printed (pip_list_lines (pip_sorted (site w))), [], w)"
  by (simp add: pip_host_def pip_exec_def list_args_def)

lemma pip_dbt_import [simp]:
  "dbt_import (pip_host exe) w =
     (case map_of (site w) ''dbt-core'' of None \<Rightarrow> Inl (ModuleNotFoundError ''dbt'') | Some v \<Rightarrow> Inr v)"
  by (simp add: pip_host_def dbt_import_def split: option.split)

lemma pip_notebook_run:
  assumes idx: "index (world st) ''dbt-snowflake==1.7.1'' = Some ds"
    and ver: "map_of (install_dists ds (site (world st))) ''dbt-core'' = Some v"
    and wf: "list_all wf_dist (install_dists ds (site (world st)))"
  shows "notebook (pip_host exe) st =
    (Inr (), st\<lparr>spawned := spawned st @ [install_args (pip_host exe), list_args (pip_host exe)],
       world := (world st)\<lparr>site := install_dists ds (site (world st))\<rparr>,
       stdout := stdout st @ installing_msg @ [nl] @ installed_msg @ [nl] @ ''dbt version: '' @ v @ [nl]
         @ listing_header @ [nl]
         @ printed (map bullet_line (filter is_dbt_line (py_split nl (translate_newlines
             (printed (pip_list_lines (pip_sorted (install_dists ds (site (world st))))))))))
         @ printed static_report_lines\<rparr>)"
proof (cases rule: notebook_cases [of "pip_host exe" st])
  case (install_fail rc out1 err1 w1)
  with idx show ?thesis by (simp add: pip_exec_install pip_install_def)
next
  case (import_fail out1 err1 w1)
  with idx ver show ?thesis by (auto simp: pip_exec_install pip_install_def)
next
  case (list_fail out1 err1 w1' v' rc out2 err2 w2' e)
  with idx have "out2 = printed (pip_list_lines (pip_sorted (install_dists ds (site (world st)))))" "err2 = []"
    by (auto simp: pip_exec_install pip_install_def pip_exec_list)
  then have "capture_error out2 err2 = None"
    by (simp add: capture_error_None_iff pip_listing_valid wf)
  with list_fail show ?thesis by simp
next
  case (ok out1 err1 w1' v' rc out2 err2 w2')
  with idx have w1': "w1' = (world st)\<lparr>site := install_dists ds (site (world st))\<rparr>"
    and "out1 = []" and "err1 = []"
    by (simp_all add: pip_exec_install pip_install_def)
  with ok ver have "v' = v" and "out2 = printed (pip_list_lines (pip_sorted (install_dists ds (site (world st)))))"
    and "w2' = w1'"
    by (simp_all add: pip_exec_list)
  with ok w1' \<open>out1 = []\<close> \<open>err1 = []\<close> show ?thesis by simp
qed

text \<open>C11: With pip as the environment and an index that resolves \<open>dbt-snowflake==1.7.1\<close>, the notebook completes, reports the installed \<open>dbt-core\<close> version, and lists exactly the rows of pip's table for the installed distributions whose name or version mentions dbt in any case, in the order \<open>pip list\<close> prints them (by canonical name), each behind a bullet; it starts the install and then \<open>pip list\<close>, writes nothing to standard error, and leaves the resolved distributions installed.\<close>

theorem pip_notebook_success:
  assumes idx: "index (world st) ''dbt-snowflake==1.7.1'' = Some ds"
    and ver: "map_of (install_dists ds (site (world st))) ''dbt-core'' = Some v"
    and wf: "list_all wf_dist (install_dists ds (site (world st)))"
    and widths: "pip_widths (pip_sorted (install_dists ds (site (world st)))) = (w1, w2)"
  shows "notebook (pip_host exe) st =
    (Inr (), st\<lparr>spawned := spawned st @ [install_args (pip_host exe), list_args (pip_host exe)],
       world := (world st)\<lparr>site := install_dists ds (site (world st))\<rparr>,
       stdout := stdout st @ printed
         ([''Installing dbt-snowflake...'', check_mark @ '' dbt-snowflake installed successfully!'',
           ''dbt version: '' @ v, nl # package_icon @ '' Installed dbt-related packages:'']
          @ map (\<lambda>d. bullet_line (pip_row w1 w2 d)) (filter dbt_dist (pip_sorted (install_dists ds (site (world st)))))
          @ static_report_lines)\<rparr>)"
proof -
  have wfs: "list_all wf_dist (pip_sorted (install_dists ds (site (world st))))" using wf by simp
  show ?thesis
    by (simp add: pip_notebook_run [OF idx ver wf] pip_listing_read_back [OF wfs widths] installing_msg_def
      installed_msg_def listing_header_def comp_def)
qed

section \<open>Witnesses\<close>

lemma demo_hyps:
  "index (world demo_state) ''dbt-snowflake==1.7.1'' = Some demo_resolution"
  "map_of (install_dists demo_resolution (site (world demo_state))) ''dbt-core'' = Some ''1.7.4''"
  "list_all wf_dist (install_dists demo_resolution (site (world demo_state)))"
  "pip_widths (pip_sorted (install_dists demo_resolution (site (world demo_state)))) = (26, 7)"
  by (simp add: demo_state_def demo_world_def demo_index_def) code_simp+

theorem pip_notebook_success_witness:
  "fst (notebook (pip_host ''/usr/bin/python3'') demo_state) = Inr ()
   \<and> filter dbt_dist (pip_sorted (install_dists demo_resolution (site (world demo_state))))
       = [(''dbt-core'', ''1.7.4''), (''dbt-extractor'', ''0.5.1''), (''dbt-snowflake'', ''1.7.1'')]"
proof -
  have "filter dbt_dist (pip_sorted (install_dists demo_resolution (site (world demo_state))))
       = [(''dbt-core'', ''1.7.4''), (''dbt-extractor'', ''0.5.1''), (''dbt-snowflake'', ''1.7.1'')]"
    by code_simp
  with pip_notebook_success [OF demo_hyps, of "''/usr/bin/python3''"] show ?thesis by simp
qed

end
