(* ===== verification/Codepoints.thy ===== *)
theory Codepoints
  imports Reporter
begin

text \<open>
  The script's \<open>str\<close> values are sequences of code points; the development keeps them
  as their UTF-8 bytes. This theory shows that the two operations the listing loop
  applies to a decoded line decide the same on the bytes as on the code points:
  \<open>line.split('\n')\<close> splits the bytes exactly where it splits the code points, and
  \<open>'dbt' in line.lower()\<close> holds of the bytes exactly when it holds of the code points,
  for every lower-case mapping that lowers ASCII as ASCII and maps no other code point
  to a string that contains \<open>d\<close>, \<open>b\<close> or \<open>t\<close> (Unicode's \<open>str.lower\<close> is one:
  its only non-ASCII code points with ASCII in their lower case are U+0130, to
  \<open>i\<close> and a combining dot, and U+212A, to \<open>k\<close>).
\<close>

section \<open>Code-point level operations\<close>

definition ascii_lower_cp :: "nat \<Rightarrow> nat" where
  "ascii_lower_cp c = (if 65 \<le> c \<and> c \<le> 90 then c + 32 else c)"

text \<open>\<open>'dbt'\<close> as code points.\<close>

definition dbt_cps :: "nat list" where
  "dbt_cps = [100, 98, 116]"

text \<open>
  A lower-case mapping for the witnesses: ASCII lowering, U+212A KELVIN SIGN to
  \<open>k\<close>, every other code point to itself.
\<close>

definition example_lower :: "nat \<Rightarrow> nat list" where
  "example_lower c = (if c < 128 then [ascii_lower_cp c] else if c = 8490 then [107] else [c])"

section \<open>Bytes of one encoded code point\<close>

lemma utf8_enc_cp_ascii [simp]: "c < 128 \<Longrightarrow> utf8_enc_cp c = [char_of c]"
  by (simp add: utf8_enc_cp_def)

lemma div_bound: "c < a * b \<Longrightarrow> (c::nat) div b < a"
  by (simp add: less_mult_imp_div_less)

lemma utf8_enc_cp_high:
  assumes "valid_cp c" "128 \<le> c" "b \<in> set (utf8_enc_cp c)"
  shows "128 \<le> byte_val b"
proof -
  have m: "128 \<le> 128 + x mod 64 \<and> 128 + x mod 64 < (256::nat)" for x by simp
  consider "c < 2048" | "2048 \<le> c" "c < 65536" | "65536 \<le> c"
    by linarith
  then show ?thesis
  proof cases
    case 1
    with div_bound [of c 32 64] have "192 + c div 64 < 256" by simp
    with 1 assms m show ?thesis by (auto simp: utf8_enc_cp_def)
  next
    case 2
    with div_bound [of c 16 4096] have "224 + c div 4096 < 256" by simp
    with 2 assms m show ?thesis by (auto simp: utf8_enc_cp_def)
  next
    case 3
    with assms(1) div_bound [of c 5 262144] have "240 + c div 262144 < 256"
      by (simp add: valid_cp_def)
    with 3 assms m show ?thesis by (auto simp: utf8_enc_cp_def)
  qed
qed

lemma utf8_enc_cp_no_ascii:
  assumes "valid_cp c" "128 \<le> c"
  shows "set (utf8_enc_cp c) \<inter> char_of ` {..<(128::nat)} = {}"
proof -
  have "byte_val (char_of x) < 128" if "x < (128::nat)" for x
    using that by simp
  with utf8_enc_cp_high [OF assms] show ?thesis by fastforce
qed

lemma byte_val_nl [simp]: "byte_val nl = 10"
  by (simp add: nl_def byte_val_def)

lemma utf8_enc_cp_nl: "valid_cp c \<Longrightarrow> c \<noteq> 10 \<Longrightarrow> nl \<notin> set (utf8_enc_cp c)"
proof (cases "c < 128")
  case True
  moreover assume "c \<noteq> 10"
  ultimately have "byte_val (char_of c) \<noteq> byte_val nl" by simp
  then have "char_of c \<noteq> nl" by metis
  with True show ?thesis by simp
next
  case False
  moreover assume "valid_cp c"
  ultimately show ?thesis using utf8_enc_cp_high [of c nl] by auto
qed

lemma valid_ascii_lower_cp: "valid_cp c \<Longrightarrow> valid_cp (ascii_lower_cp c)"
  by (simp add: valid_cp_def ascii_lower_cp_def)

lemma lower_char_high: "128 \<le> byte_val b \<Longrightarrow> lower_char b = b"
  by (simp add: lower_char_def byte_val_def)

lemma py_lower_enc_cp: "valid_cp c \<Longrightarrow> py_lower (utf8_enc_cp c) = utf8_enc_cp (ascii_lower_cp c)"
proof (cases "c < 128")
  case True
  then show ?thesis
    by (simp add: py_lower_def lower_char_def ascii_lower_cp_def Let_def)
next
  case False
  moreover assume "valid_cp c"
  ultimately have "map lower_char (utf8_enc_cp c) = utf8_enc_cp c"
    by (auto intro!: map_idI lower_char_high utf8_enc_cp_high)
  with False show ?thesis by (simp add: py_lower_def ascii_lower_cp_def)
qed

lemma py_lower_encode:
  assumes "list_all valid_cp cps"
  shows "py_lower (utf8_encode cps) = utf8_encode (map ascii_lower_cp cps)"
proof -
  have "py_lower (utf8_encode cps) = concat (map (\<lambda>c. py_lower (utf8_enc_cp c)) cps)"
    by (simp add: py_lower_def utf8_encode_def map_concat comp_def)
  also have "\<dots> = concat (map (\<lambda>c. utf8_enc_cp (ascii_lower_cp c)) cps)"
    using assms by (simp add: list_all_iff py_lower_enc_cp cong: map_cong)
  finally show ?thesis by (simp add: utf8_encode_def comp_def)
qed

lemma inj_on_char_of_ascii: "inj_on char_of {..<(128::nat)}"
proof (rule inj_onI)
  fix x y :: nat
  assume "x \<in> {..<128}" "y \<in> {..<128}" "char_of x = char_of y"
  then have "byte_val (char_of x) = byte_val (char_of y)" "x < 256" "y < 256" by simp_all
  then show "x = y" by simp
qed

lemma dbt_bytes: "''dbt'' = map char_of dbt_cps"
  by code_simp

section \<open>The listing test\<close>

lemma is_dbt_line_encode:
  assumes "list_all valid_cp cps"
  shows "is_dbt_line (utf8_encode cps) \<longleftrightarrow> sublist dbt_cps (map ascii_lower_cp cps)"
proof -
  have valid: "list_all valid_cp (map ascii_lower_cp cps)"
    using assms by (simp add: list_all_iff valid_ascii_lower_cp)
  have "sublist (map char_of dbt_cps) (concat (map utf8_enc_cp (map ascii_lower_cp cps)))
        \<longleftrightarrow> sublist dbt_cps (map id (map ascii_lower_cp cps))"
    by (rule sublist_concat_map_letters [where T = "{..<128}"])
       (use valid in \<open>auto simp: list_all_iff inj_on_char_of_ascii dbt_cps_def utf8_enc_cp_no_ascii\<close>)
  moreover have "is_dbt_line (utf8_encode cps)
      \<longleftrightarrow> sublist (map char_of dbt_cps) (utf8_encode (map ascii_lower_cp cps))"
    by (simp only: is_dbt_line_eq py_lower_encode [OF assms] dbt_bytes)
  ultimately show ?thesis by (simp add: utf8_encode_def)
qed

lemma lower_dbt_cps:
  assumes ascii: "\<forall>c<128. lc c = [ascii_lower_cp c]"
    and other: "\<forall>c. 128 \<le> c \<longrightarrow> lc c \<noteq> [] \<and> set (lc c) \<inter> set dbt_cps = {}"
  shows "sublist dbt_cps (concat (map lc cps)) \<longleftrightarrow> sublist dbt_cps (map ascii_lower_cp cps)"
proof -
  have small: "lc d = [id (ascii_lower_cp d)]" if "ascii_lower_cp d \<in> set dbt_cps" for d
  proof -
    from that have "d < 128" by (auto simp: ascii_lower_cp_def dbt_cps_def split: if_splits)
    with ascii show ?thesis by simp
  qed
  have big: "lc d \<noteq> [] \<and> set (lc d) \<inter> id ` set dbt_cps = {}" if "ascii_lower_cp d \<notin> set dbt_cps" for d
    using ascii other that by (cases "d < 128") auto
  have "sublist (map id dbt_cps) (concat (map lc cps)) \<longleftrightarrow> sublist dbt_cps (map ascii_lower_cp cps)"
    using sublist_concat_map_letters [of cps ascii_lower_cp "set dbt_cps" lc id dbt_cps] small big
    by (simp add: dbt_cps_def)
  then show ?thesis by simp
qed

section \<open>The split\<close>

lemma char_of_10: "char_of (10::nat) = nl"
  by (metis byte_val_nl char_of_byte_val)

lemma utf8_enc_cp_10: "utf8_enc_cp 10 = [nl]"
  by (simp add: utf8_enc_cp_def char_of_10)

lemma split_loop_encode:
  "list_all valid_cp cps \<Longrightarrow>
   split_loop nl (utf8_encode cur) (utf8_encode cps) = map utf8_encode (split_loop 10 cur cps)"
proof (induction cps arbitrary: cur)
  case Nil
  then show ?case by (simp add: utf8_encode_def)
next
  case (Cons c cps)
  show ?case
  proof (cases "c = 10")
    case True
    with Cons.prems Cons.IH [of "[]"] show ?thesis by (simp add: utf8_enc_cp_10)
  next
    case False
    with Cons.prems have "nl \<notin> set (utf8_enc_cp c)" by (simp add: utf8_enc_cp_nl)
    moreover have "utf8_encode cur @ utf8_enc_cp c = utf8_encode (cur @ [c])"
      by (simp add: utf8_encode_append)
    ultimately show ?thesis using Cons False
      by (simp add: split_loop_free_prefix)
  qed
qed

lemma split_loop_pieces_from: "w \<in> set (split_loop c cur s) \<Longrightarrow> set w \<subseteq> set cur \<union> set s"
proof (induction s arbitrary: cur)
  case (Cons x xs)
  from Cons.prems show ?case
    by (auto split: if_splits dest!: Cons.IH)
qed simp

section \<open>Properties\<close>

text \<open>C22: On a decoded listing, the loop of cell 3 selects the same lines on the bytes as on the code points: splitting the UTF-8 bytes on LF and keeping the lines whose byte-level lower case contains \<open>dbt\<close> gives exactly the encodings of the code-point lines that the code-point split yields and whose lower case, under any lower-case mapping that lowers ASCII as ASCII and maps no other code point to a string containing \<open>d\<close>, \<open>b\<close> or \<open>t\<close>, contains \<open>dbt\<close>.\<close>

theorem listing_filter_decoded:
  assumes valid: "list_all valid_cp cps"
    and ascii: "\<forall>c<128. lc c = [ascii_lower_cp c]"
    and other: "\<forall>c. 128 \<le> c \<longrightarrow> lc c \<noteq> [] \<and> set (lc c) \<inter> set dbt_cps = {}"
  shows "filter is_dbt_line (py_split nl (utf8_encode cps))
         = map utf8_encode (filter (\<lambda>l. sublist dbt_cps (concat (map lc l))) (split_loop 10 [] cps))"
proof -
  have "is_dbt_line (utf8_encode l) \<longleftrightarrow> sublist dbt_cps (concat (map lc l))"
    if "l \<in> set (split_loop 10 [] cps)" for l
  proof -
    from that valid have "list_all valid_cp l"
      by (auto simp: list_all_iff dest!: split_loop_pieces_from)
    then show ?thesis by (simp add: is_dbt_line_encode lower_dbt_cps [OF ascii other])
  qed
  then show ?thesis
    using split_loop_encode [OF valid, of "[]"]
    by (simp add: py_split_def filter_map comp_def cong: filter_cong)
qed

text \<open>C23: Splitting the UTF-8 bytes of a decoded text on the newline byte gives the encodings of the pieces that splitting its code points on U+000A gives: \<open>str.split('\n')\<close> on the byte model is the split of the text.\<close>

theorem py_split_decoded:
  "list_all valid_cp cps \<Longrightarrow> py_split nl (utf8_encode cps) = map utf8_encode (split_loop 10 [] cps)"
  using split_loop_encode [of cps "[]"] by (simp add: py_split_def)

section \<open>Witnesses\<close>

theorem listing_filter_decoded_witness:
  "filter is_dbt_line (py_split nl (utf8_encode [68, 66, 84, 45, 8490, 10, 120]))
   = [utf8_encode [68, 66, 84, 45, 8490]]"
proof -
  have keep: "sublist dbt_cps (concat (map example_lower [68, 66, 84, 45, 8490]))"
    and drop: "\<not> sublist dbt_cps (concat (map example_lower [120]))"
    by code_simp+
  have split: "split_loop 10 [] [68, 66, 84, 45, 8490, 10, 120 :: nat] = [[68, 66, 84, 45, 8490], [120]]"
    by simp
  have "filter is_dbt_line (py_split nl (utf8_encode [68, 66, 84, 45, 8490, 10, 120]))
      = map utf8_encode (filter (\<lambda>l. sublist dbt_cps (concat (map example_lower l)))
          (split_loop 10 [] [68, 66, 84, 45, 8490, 10, 120]))"
    by (rule listing_filter_decoded) (simp_all add: valid_cp_def example_lower_def dbt_cps_def)
  also have "\<dots> = [utf8_encode [68, 66, 84, 45, 8490]]"
    by (simp only: split filter.simps keep drop if_True if_False, simp only: list.map)
  finally show ?thesis .
qed

theorem py_split_decoded_witness:
  "py_split nl (utf8_encode [8226, 10, 100]) = [utf8_encode [8226], utf8_encode [100]]"
  using py_split_decoded [of "[8226, 10, 100]"] by (simp add: valid_cp_def)

end
