(* ===== verification/Interp.thy ===== *)
theory Interp
  imports Subprocess
begin

text \<open>
  The statement-level interpreter: the part of Python that executes the module's
  statements one by one. A value (\<open>pyval\<close>) is one of the objects the script handles;
  the module's global namespace and the table of loaded modules (\<open>sys.modules\<close>) are
  maps from names; the interpreter state \<open>'w interp\<close> adds them to the process state
  of \<^theory_text>\<open>Subprocess\<close>, whose operations (\<open>print\<close>, \<open>check_call\<close>, \<open>run\<close>) a
  call lifts. Expressions (\<open>expr\<close>) and statements (\<open>stmt\<close>) are a deep embedding of
  the constructs the script uses: literals, names, attribute access, calls with
  keyword arguments, f-strings, \<open>in\<close>, \<open>*\<close> and list displays; expression
  statements, assignment, \<open>import\<close>, \<open>for\<close> and \<open>if\<close>. \<open>eval_expr\<close> evaluates
  operands from left to right and \<open>exec_stmt\<close> runs a statement; a raised exception
  ends the block it is raised in, and the bindings made before it stay. The theory
  ends with a definite-assignment analysis (\<open>defass\<close>) and its soundness: a block
  the analysis accepts never raises \<open>NameError\<close>.
\<close>

section \<open>Values, namespaces and the interpreter state\<close>

text \<open>
  \<open>VFunc n self\<close> is a built-in function or method by its qualified name, with the
  object a method is bound to; \<open>VModule m\<close> is the module \<open>m\<close>, whose attributes are
  its entry in \<open>sys.modules\<close>.
\<close>

datatype pyval =
    VNone
  | VBool bool
  | VInt int
  | VStr pystr
  | VList "pyval list"
  | VModule pystr
  | VFunc pystr "pyval option"
  | VCompleted completed_process

type_synonym namespace = "pystr \<rightharpoonup> pyval"

record 'w interp =
  globals :: namespace
  modules :: "pystr \<rightharpoonup> namespace"
  pstate :: "'w proc"

type_synonym ('w, 'a) stm = "'w interp \<Rightarrow> (py_error + 'a) \<times> 'w interp"

text \<open>The built-in names the script reads (the module \<open>builtins\<close>).\<close>

definition builtins :: namespace where
  "builtins = [''print'' \<mapsto> VFunc ''print'' None]"

section \<open>Sequencing in the interpreter state\<close>

definition st_return :: "'a \<Rightarrow> ('w, 'a) stm" where
  "st_return x \<sigma> = (Inr x, \<sigma>)"

definition st_raise :: "py_error \<Rightarrow> ('w, 'a) stm" where
  "st_raise e \<sigma> = (Inl e, \<sigma>)"

definition st_bind :: "('w, 'a) stm \<Rightarrow> ('a \<Rightarrow> ('w, 'b) stm) \<Rightarrow> ('w, 'b) stm" where
  "st_bind m f \<sigma> = (case m \<sigma> of (Inl e, \<sigma>') \<Rightarrow> (Inl e, \<sigma>') | (Inr x, \<sigma>') \<Rightarrow> f x \<sigma>')"

text \<open>An operation of the runtime acts on the process part of the state.\<close>

definition lift :: "('w, 'a) py \<Rightarrow> ('w, 'a) stm" where
  "lift m \<sigma> = (case m (pstate \<sigma>) of (r, st') \<Rightarrow> (r, \<sigma>\<lparr>pstate := st'\<rparr>))"

section \<open>Names and attributes\<close>

text \<open>
  A name is looked up in the module's globals, then in the built-ins; a name bound in
  neither raises \<open>NameError\<close>. Binding a name (assignment, \<open>import\<close>, the target of
  \<open>for\<close>) stores it in the globals.
\<close>

definition load_name :: "pystr \<Rightarrow> ('w, pyval) stm" where
  "load_name x \<sigma> =
     (case globals \<sigma> x of
        Some v \<Rightarrow> (Inr v, \<sigma>)
      | None \<Rightarrow> (case builtins x of Some v \<Rightarrow> (Inr v, \<sigma>) | None \<Rightarrow> (Inl (NameError x), \<sigma>)))"

definition store_name :: "pystr \<Rightarrow> pyval \<Rightarrow> ('w, unit) stm" where
  "store_name x v \<sigma> = (Inr (), \<sigma>\<lparr>globals := (globals \<sigma>)(x \<mapsto> v)\<rparr>)"

text \<open>
  \<open>getattr(v, a)\<close>: a module's attribute is read from its dictionary, and a name
  missing there raises \<open>AttributeError\<close>; of the standard-library modules \<open>sys\<close>
  and \<open>subprocess\<close> the dictionaries hold only the attributes the script reads, so
  any other attribute of them is outside the model. A \<open>str\<close> has the methods
  \<open>lower\<close> and \<open>split\<close> the script calls, and a \<open>CompletedProcess\<close> the four
  fields \<open>subprocess.run\<close> sets; the other attributes of these and of the remaining
  values are outside the model.
\<close>

definition getattr :: "pyval \<Rightarrow> pystr \<Rightarrow> ('w, pyval) stm" where
  "getattr v a \<sigma> =
     (case v of
        VModule m \<Rightarrow>
          (case modules \<sigma> m of
             Some d \<Rightarrow>
               (case d a of
                  Some x \<Rightarrow> (Inr x, \<sigma>)
                | None \<Rightarrow>
                    if m = ''sys'' \<or> m = ''subprocess'' then (Inl (Unsupported a), \<sigma>)
                    else (Inl (AttributeError a), \<sigma>))
           | None \<Rightarrow> (Inl (Unsupported a), \<sigma>))
      | VStr s \<Rightarrow>
          (if a = ''lower'' \<or> a = ''split'' then (Inr (VFunc (''str.'' @ a) (Some v)), \<sigma>)
           else (Inl (Unsupported a), \<sigma>))
      | VCompleted cp \<Rightarrow>
          (if a = ''args'' then (Inr (VList (map VStr (cp_args cp))), \<sigma>)
           else if a = ''returncode'' then (Inr (VInt (returncode cp)), \<sigma>)
           else if a = ''stdout'' then (Inr (VStr (cp_stdout cp)), \<sigma>)
           else if a = ''stderr'' then (Inr (VStr (cp_stderr cp)), \<sigma>)
           else (Inl (Unsupported a), \<sigma>))
      | _ \<Rightarrow> (Inl (Unsupported a), \<sigma>))"

section \<open>Built-in operations\<close>

text \<open>
  \<open>str(v)\<close> for the values whose text the model fixes (\<open>print\<close> and f-strings call
  it); the script only ever formats strings.
\<close>

fun to_str :: "pyval \<Rightarrow> pystr option" where
  "to_str (VStr s) = Some s"
| "to_str VNone = Some ''None''"
| "to_str (VBool b) = Some (if b then ''True'' else ''False'')"
| "to_str _ = None"

text \<open>An f-string: its literal pieces, with the formatted values between them.\<close>

fun format_parts :: "pystr list \<Rightarrow> pyval list \<Rightarrow> pystr option" where
  "format_parts [l] [] = Some l"
| "format_parts (l # ls) (v # vs) =
     (case (to_str v, format_parts ls vs) of (Some s, Some r) \<Rightarrow> Some (l @ s @ r) | _ \<Rightarrow> None)"
| "format_parts _ _ = None"

text \<open>The argument list of a child process: a list of strings.\<close>

definition as_argv :: "pyval \<Rightarrow> argv option" where
  "as_argv v =
     (case v of
        VList vs \<Rightarrow> those (map (\<lambda>x. case x of VStr s \<Rightarrow> Some s | _ \<Rightarrow> None) vs)
      | _ \<Rightarrow> None)"

text \<open>
  Calling a built-in: \<open>print(*args)\<close>; \<open>subprocess.check_call(args)\<close>;
  \<open>subprocess.run(args, capture_output=True, text=True)\<close>; \<open>s.lower()\<close>;
  \<open>s.split(sep)\<close> with a one-character ASCII separator. Calling a value that is not a
  function raises \<open>TypeError\<close>; other argument forms of these functions are outside
  the model (\<open>Unsupported\<close>).
\<close>

definition py_call :: "'w host \<Rightarrow> pyval \<Rightarrow> pyval list \<Rightarrow> (pystr \<times> pyval) list \<Rightarrow> ('w, pyval) stm" where
  "py_call H f args kws =
     (case f of
        VFunc n self \<Rightarrow>
          if n = ''print'' \<and> kws = [] then
            (case those (map to_str args) of
               Some ss \<Rightarrow> st_bind (lift (py_print (py_join '' '' ss))) (\<lambda>_. st_return VNone)
             | None \<Rightarrow> st_raise (Unsupported n))
          else if n = ''subprocess.check_call'' \<and> kws = [] then
            (case map as_argv args of
               [Some a] \<Rightarrow> st_bind (lift (check_call H a)) (\<lambda>rc. st_return (VInt rc))
             | _ \<Rightarrow> st_raise (Unsupported n))
          else if n = ''subprocess.run'' \<and> kws = [(''capture_output'', VBool True), (''text'', VBool True)] then
            (case map as_argv args of
               [Some a] \<Rightarrow> st_bind (lift (run_capture_text H a)) (\<lambda>cp. st_return (VCompleted cp))
             | _ \<Rightarrow> st_raise (Unsupported n))
          else if n = ''str.lower'' \<and> args = [] \<and> kws = [] then
            (case self of
               Some (VStr s) \<Rightarrow> st_return (VStr (py_lower s))
             | _ \<Rightarrow> st_raise (Unsupported n))
          else if n = ''str.split'' \<and> kws = [] then
            (case (self, args) of
               (Some (VStr s), [VStr [c]]) \<Rightarrow>
                 if byte_val c < 128 then st_return (VList (map VStr (py_split c s)))
                 else st_raise (Unsupported n)
             | _ \<Rightarrow> st_raise (Unsupported n))
          else st_raise (Unsupported n)
      | _ \<Rightarrow> st_raise (TypeError ''object is not callable''))"

text \<open>
  \<open>a in b\<close> on two strings, and \<open>s * n\<close> / \<open>n * s\<close>; a non-string left of \<open>in\<close>
  a string raises \<open>TypeError\<close>.
\<close>

definition py_contains :: "pyval \<Rightarrow> pyval \<Rightarrow> ('w, pyval) stm" where
  "py_contains a b =
     (case (a, b) of
        (VStr p, VStr s) \<Rightarrow> st_return (VBool (py_in p s))
      | (_, VStr s) \<Rightarrow> st_raise (TypeError ''in <string> requires string as left operand'')
      | _ \<Rightarrow> st_raise (Unsupported ''in''))"

definition py_mul :: "pyval \<Rightarrow> pyval \<Rightarrow> ('w, pyval) stm" where
  "py_mul a b =
     (case (a, b) of
        (VStr s, VInt n) \<Rightarrow> st_return (VStr (py_str_mul s n))
      | (VInt n, VStr s) \<Rightarrow> st_return (VStr (py_str_mul s n))
      | _ \<Rightarrow> st_raise (Unsupported ''*''))"

text \<open>
  \<open>for\<close> asks its iterable for its items: a list's elements, a string's characters
  (code points, each kept as its UTF-8 bytes). Other values are not iterable.
\<close>

definition py_iter :: "pyval \<Rightarrow> ('w, pyval list) stm" where
  "py_iter v =
     (case v of
        VList vs \<Rightarrow> st_return vs
      | VStr s \<Rightarrow>
          (case utf8_decode s of
             Inr cps \<Rightarrow> st_return (map (\<lambda>c. VStr (utf8_enc_cp c)) cps)
           | Inl _ \<Rightarrow> st_raise (Unsupported ''str''))
      | _ \<Rightarrow> st_raise (TypeError ''object is not iterable''))"

text \<open>The truth value \<open>if\<close> tests.\<close>

fun py_truth :: "pyval \<Rightarrow> bool" where
  "py_truth VNone = False"
| "py_truth (VBool b) = b"
| "py_truth (VInt i) = (i \<noteq> 0)"
| "py_truth (VStr s) = (s \<noteq> [])"
| "py_truth (VList vs) = (vs \<noteq> [])"
| "py_truth _ = True"

section \<open>Modules\<close>

text \<open>
  The dictionaries of the modules the script imports: \<open>sys\<close> (built into the
  interpreter and loaded at start-up), \<open>subprocess\<close> (its two functions the script
  calls), \<open>dbt.version\<close> (its \<open>__version__\<close>, read from the installed package when
  it is loaded). A package starts empty; importing a submodule adds it as an
  attribute.
\<close>

definition sys_ns :: "'w host \<Rightarrow> namespace" where
  "sys_ns H = [''executable'' \<mapsto> VStr (executable H)]"

definition subprocess_ns :: namespace where
  "subprocess_ns =
     [''run'' \<mapsto> VFunc ''subprocess.run'' None, ''check_call'' \<mapsto> VFunc ''subprocess.check_call'' None]"

definition module_init :: "'w host \<Rightarrow> 'w \<Rightarrow> pystr \<Rightarrow> namespace" where
  "module_init H w q =
     (if q = ''subprocess'' then subprocess_ns
      else if q = ''dbt.version'' then
        (case import_version H w of Some v \<Rightarrow> [''__version__'' \<mapsto> VStr v] | None \<Rightarrow> Map.empty)
      else Map.empty)"

text \<open>
  \<open>importlib._bootstrap._find_and_load\<close> for the component \<open>c\<close> of a dotted name
  below the package \<open>parent\<close>: a module already in \<open>sys.modules\<close> is not looked
  up again; otherwise the import system must find it, or \<open>ModuleNotFoundError\<close>
  names it, and once loaded it is stored in \<open>sys.modules\<close> and bound as an attribute
  of its parent.
\<close>

definition qualify :: "pystr option \<Rightarrow> pystr \<Rightarrow> pystr" where
  "qualify parent c = (case parent of None \<Rightarrow> c | Some p \<Rightarrow> p @ ''.'' @ c)"

definition find_and_load :: "'w host \<Rightarrow> pystr option \<Rightarrow> pystr \<Rightarrow> ('w, pystr) stm" where
  "find_and_load H parent c \<sigma> =
     (let q = qualify parent c; w = world (pstate \<sigma>) in
      if modules \<sigma> q \<noteq> None then (Inr q, \<sigma>)
      else if find_module H w q then
        (Inr q, \<sigma>\<lparr>modules :=
                  (case parent of
                     None \<Rightarrow> (modules \<sigma>)(q \<mapsto> module_init H w q)
                   | Some p \<Rightarrow> ((modules \<sigma>)(q \<mapsto> module_init H w q))
                                 (p := map_option (\<lambda>d. d(c \<mapsto> VModule q)) (modules \<sigma> p)))\<rparr>)
      else (Inl (ModuleNotFoundError q), \<sigma>))"

text \<open>\<open>import a.b.c\<close> loads \<open>a\<close>, then \<open>a.b\<close>, then \<open>a.b.c\<close>.\<close>

fun import_path :: "'w host \<Rightarrow> pystr option \<Rightarrow> pystr list \<Rightarrow> ('w, unit) stm" where
  "import_path H parent [] = st_return ()"
| "import_path H parent (c # cs) = st_bind (find_and_load H parent c) (\<lambda>q. import_path H (Some q) cs)"

section \<open>Expressions and statements\<close>

text \<open>
  An operation applied to the values of its operands: \<open>GetAttr a\<close> (\<open>e.a\<close>),
  \<open>Call kws\<close> (the callee, then the positional arguments, then the values of the
  keyword arguments named \<open>kws\<close>), \<open>Format ls\<close> (an f-string with literal pieces
  \<open>ls\<close>), \<open>Contains\<close> (\<open>in\<close>), \<open>Mul\<close> (\<open>*\<close>) and \<open>MkList\<close> (a list display).
\<close>

datatype pyop = GetAttr pystr | Call "pystr list" | Format "pystr list" | Contains | Mul | MkList

datatype expr = Lit pyval | Name pystr | Op pyop "expr list"

text \<open>
  \<open>Import m ms\<close> is \<open>import m.ms\<close>, which binds the top-level name \<open>m\<close>;
  \<open>For x e body\<close> and \<open>IfS e body\<close> are the loop and the conditional without
  \<open>else\<close>.
\<close>

datatype stmt =
    ExprS expr
  | Assign pystr expr
  | Import pystr "pystr list"
  | For pystr expr "stmt list"
  | IfS expr "stmt list"

definition apply_op :: "'w host \<Rightarrow> pyop \<Rightarrow> pyval list \<Rightarrow> ('w, pyval) stm" where
  "apply_op H p vs =
     (case p of
        GetAttr a \<Rightarrow> (case vs of [v] \<Rightarrow> getattr v a | _ \<Rightarrow> st_raise (Unsupported ''getattr''))
      | Call kws \<Rightarrow>
          (case vs of
             f # rest \<Rightarrow>
               if length kws \<le> length rest then
                 py_call H f (take (length rest - length kws) rest)
                   (zip kws (drop (length rest - length kws) rest))
               else st_raise (Unsupported ''call'')
           | [] \<Rightarrow> st_raise (Unsupported ''call''))
      | Format ls \<Rightarrow>
          (case format_parts ls vs of Some s \<Rightarrow> st_return (VStr s) | None \<Rightarrow> st_raise (Unsupported ''format''))
      | Contains \<Rightarrow> (case vs of [a, b] \<Rightarrow> py_contains a b | _ \<Rightarrow> st_raise (Unsupported ''in''))
      | Mul \<Rightarrow> (case vs of [a, b] \<Rightarrow> py_mul a b | _ \<Rightarrow> st_raise (Unsupported ''*''))
      | MkList \<Rightarrow> st_return (VList vs))"

primrec eval_expr :: "'w host \<Rightarrow> expr \<Rightarrow> ('w, pyval) stm"
  and eval_exprs :: "'w host \<Rightarrow> expr list \<Rightarrow> ('w, pyval list) stm" where
  "eval_expr H (Lit v) = st_return v"
| "eval_expr H (Name x) = load_name x"
| "eval_expr H (Op p es) = st_bind (eval_exprs H es) (apply_op H p)"
| "eval_exprs H [] = st_return []"
| "eval_exprs H (e # es) =
     st_bind (eval_expr H e) (\<lambda>v. st_bind (eval_exprs H es) (\<lambda>vs. st_return (v # vs)))"

text \<open>
  The body of a \<open>for\<close> runs once per item, with the target bound to it; the target
  keeps its last binding after the loop.
\<close>

primrec for_loop :: "pystr \<Rightarrow> pyval list \<Rightarrow> ('w, unit) stm \<Rightarrow> ('w, unit) stm" where
  "for_loop x [] body = st_return ()"
| "for_loop x (v # vs) body = st_bind (store_name x v) (\<lambda>_. st_bind body (\<lambda>_. for_loop x vs body))"

primrec exec_stmt :: "'w host \<Rightarrow> stmt \<Rightarrow> ('w, unit) stm"
  and exec_block :: "'w host \<Rightarrow> stmt list \<Rightarrow> ('w, unit) stm" where
  "exec_stmt H (ExprS e) = st_bind (eval_expr H e) (\<lambda>_. st_return ())"
| "exec_stmt H (Assign x e) = st_bind (eval_expr H e) (store_name x)"
| "exec_stmt H (Import m ms) = st_bind (import_path H None (m # ms)) (\<lambda>_. store_name m (VModule m))"
| "exec_stmt H (For x e body) =
     st_bind (eval_expr H e) (\<lambda>v. st_bind (py_iter v) (\<lambda>vs. for_loop x vs (exec_block H body)))"
| "exec_stmt H (IfS e body) =
     st_bind (eval_expr H e) (\<lambda>v. if py_truth v then exec_block H body else st_return ())"
| "exec_block H [] = st_return ()"
| "exec_block H (s # ss) = st_bind (exec_stmt H s) (\<lambda>_. exec_block H ss)"

section \<open>Definite assignment\<close>

text \<open>
  The names an expression reads, and the analysis: \<open>defass s A\<close> is the set of names
  bound after \<open>s\<close> completes when the names \<open>A\<close> are bound before it, or \<open>None\<close>
  when \<open>s\<close> may read a name bound neither in \<open>A\<close>, nor earlier in \<open>s\<close>, nor in
  the built-ins. The target of a \<open>for\<close> is bound in its body; after the loop it is
  not guaranteed (the iterable may be empty), nor is what an \<open>if\<close> body binds.
\<close>

primrec fv_expr :: "expr \<Rightarrow> pystr set" and fv_exprs :: "expr list \<Rightarrow> pystr set" where
  "fv_expr (Lit v) = {}"
| "fv_expr (Name x) = {x}"
| "fv_expr (Op p es) = fv_exprs es"
| "fv_exprs [] = {}"
| "fv_exprs (e # es) = fv_expr e \<union> fv_exprs es"

primrec defass :: "stmt \<Rightarrow> pystr set \<Rightarrow> pystr set option"
  and defass_block :: "stmt list \<Rightarrow> pystr set \<Rightarrow> pystr set option" where
  "defass (ExprS e) A = (if fv_expr e \<subseteq> A \<union> dom builtins then Some A else None)"
| "defass (Assign x e) A = (if fv_expr e \<subseteq> A \<union> dom builtins then Some (insert x A) else None)"
| "defass (Import m ms) A = Some (insert m A)"
| "defass (For x e body) A =
     (if fv_expr e \<subseteq> A \<union> dom builtins \<and> defass_block body (insert x A) \<noteq> None then Some A else None)"
| "defass (IfS e body) A =
     (if fv_expr e \<subseteq> A \<union> dom builtins \<and> defass_block body A \<noteq> None then Some A else None)"
| "defass_block [] A = Some A"
| "defass_block (s # ss) A = (case defass s A of None \<Rightarrow> None | Some A' \<Rightarrow> defass_block ss A')"

section \<open>What a statement may change\<close>

text \<open>
  The names a statement may bind (assignment, \<open>import\<close>, the target of \<open>for\<close>,
  in the style of \<open>lvars\<close> of IMP), and the entries of \<open>sys.modules\<close> it may
  change: \<open>import a.b.c\<close> may load \<open>a\<close>, \<open>a.b\<close> and \<open>a.b.c\<close> and set an
  attribute of the first two, so its keys are the qualified prefixes of the path.
\<close>

fun path_keys :: "pystr option \<Rightarrow> pystr list \<Rightarrow> pystr set" where
  "path_keys p [] = {}"
| "path_keys p (c # cs) = insert (qualify p c) (path_keys (Some (qualify p c)) cs)"

primrec binds :: "stmt \<Rightarrow> pystr set" and binds_block :: "stmt list \<Rightarrow> pystr set" where
  "binds (ExprS e) = {}"
| "binds (Assign x e) = {x}"
| "binds (Import m ms) = {m}"
| "binds (For x e body) = insert x (binds_block body)"
| "binds (IfS e body) = binds_block body"
| "binds_block [] = {}"
| "binds_block (s # ss) = binds s \<union> binds_block ss"

primrec import_keys :: "stmt \<Rightarrow> pystr set" and import_keys_block :: "stmt list \<Rightarrow> pystr set" where
  "import_keys (ExprS e) = {}"
| "import_keys (Assign x e) = {}"
| "import_keys (Import m ms) = path_keys None (m # ms)"
| "import_keys (For x e body) = import_keys_block body"
| "import_keys (IfS e body) = import_keys_block body"
| "import_keys_block [] = {}"
| "import_keys_block (s # ss) = import_keys s \<union> import_keys_block ss"

text \<open>Whether an outcome is a \<open>NameError\<close>.\<close>

fun name_error :: "py_error + 'a \<Rightarrow> bool" where
  "name_error (Inl (NameError x)) = True"
| "name_error _ = False"

section \<open>Proof vocabulary\<close>

text \<open>
  An operation is inert when it changes neither the globals nor \<open>sys.modules\<close> and
  never raises \<open>NameError\<close>: every operation on values is.
\<close>

definition inert :: "('w, 'a) stm \<Rightarrow> bool" where
  "inert m \<longleftrightarrow>
     (\<forall>\<sigma>. globals (snd (m \<sigma>)) = globals \<sigma> \<and> modules (snd (m \<sigma>)) = modules \<sigma>
          \<and> \<not> name_error (fst (m \<sigma>)))"

text \<open>
  No statement of the fragment unbinds a name or unloads a module: the names bound and
  the modules loaded only grow, whatever the statement raises.
\<close>

definition grows :: "'w interp \<Rightarrow> 'w interp \<Rightarrow> bool" where
  "grows \<sigma> \<sigma>' \<longleftrightarrow> dom (globals \<sigma>) \<subseteq> dom (globals \<sigma>') \<and> dom (modules \<sigma>) \<subseteq> dom (modules \<sigma>')"

definition stm_grows :: "('w, 'a) stm \<Rightarrow> bool" where
  "stm_grows m \<longleftrightarrow> (\<forall>\<sigma>. grows \<sigma> (snd (m \<sigma>)))"

text \<open>
  The frame of a step: outside the names \<open>X\<close> the globals, and outside the keys
  \<open>K\<close> the entries of \<open>sys.modules\<close>, are as before.
\<close>

definition frame :: "pystr set \<Rightarrow> pystr set \<Rightarrow> 'w interp \<Rightarrow> 'w interp \<Rightarrow> bool" where
  "frame X K \<sigma> \<sigma>' \<longleftrightarrow>
     (\<forall>x. x \<notin> X \<longrightarrow> globals \<sigma>' x = globals \<sigma> x) \<and> (\<forall>k. k \<notin> K \<longrightarrow> modules \<sigma>' k = modules \<sigma> k)"

definition stm_frame :: "pystr set \<Rightarrow> pystr set \<Rightarrow> ('w, 'a) stm \<Rightarrow> bool" where
  "stm_frame X K m \<longleftrightarrow> (\<forall>\<sigma>. frame X K \<sigma> (snd (m \<sigma>)))"

section \<open>Properties\<close>

subsection \<open>Sequencing\<close>

lemma st_bind_return [simp]: "st_bind (st_return x) f = f x"
  by (simp add: st_bind_def st_return_def fun_eq_iff)

lemma st_bind_raise [simp]: "st_bind (st_raise e) f = st_raise e"
  by (simp add: st_bind_def st_raise_def fun_eq_iff)

lemma st_bind_assoc: "st_bind (st_bind m f) g = st_bind m (\<lambda>x. st_bind (f x) g)"
  by (auto simp: st_bind_def fun_eq_iff split: prod.split sum.split)

lemma exec_block_append:
  "exec_block H (ss @ ts) = st_bind (exec_block H ss) (\<lambda>_. exec_block H ts)"
  by (induction ss) (simp_all add: st_bind_assoc)

text \<open>A lifted runtime operation sees and changes the process state only.\<close>

subsection \<open>Operations that leave the names alone\<close>

lemma name_error_iff [simp]: "name_error r \<longleftrightarrow> (\<exists>x. r = Inl (NameError x))"
  by (cases r rule: name_error.cases) auto

lemma runtime_no_name_error:
  "\<not> name_error (fst (py_print s st))"
  "\<not> name_error (fst (check_call H a st))"
  "\<not> name_error (fst (run_capture_text H a st))"
  by (auto simp: py_print_def check_call_def run_capture_text_def decode_text_def Let_def
           split: prod.split sum.split)

lemma inert_return [intro!]: "inert (st_return x)"
  by (simp add: inert_def st_return_def)

lemma inert_raise [intro!]: "(\<And>x. e \<noteq> NameError x) \<Longrightarrow> inert (st_raise e)"
  unfolding inert_def st_raise_def by (cases e) auto

lemma inert_bind [intro!]:
  assumes m: "inert m" and f: "\<And>x. inert (f x)"
  shows "inert (st_bind m f)"
  unfolding inert_def
proof
  fix \<sigma>
  obtain r \<sigma>1 where r: "m \<sigma> = (r, \<sigma>1)" by (cases "m \<sigma>")
  from m have m1: "globals \<sigma>1 = globals \<sigma> \<and> modules \<sigma>1 = modules \<sigma> \<and> \<not> name_error r"
    unfolding inert_def by (metis r fst_conv snd_conv)
  show "globals (snd (st_bind m f \<sigma>)) = globals \<sigma> \<and> modules (snd (st_bind m f \<sigma>)) = modules \<sigma>
        \<and> \<not> name_error (fst (st_bind m f \<sigma>))"
  proof (cases r)
    case (Inl e)
    with r m1 show ?thesis by (simp add: st_bind_def)
  next
    case (Inr x)
    with r m1 f [of x] show ?thesis by (simp add: st_bind_def inert_def)
  qed
qed

lemma inert_lift [intro!]: "(\<And>st. \<not> name_error (fst (m st))) \<Longrightarrow> inert (lift m)"
  unfolding inert_def lift_def by (auto split: prod.split) (metis fst_conv)

lemma getattr_keeps_state: "snd (getattr v a \<sigma>) = \<sigma>"
  by (cases v) (simp_all add: getattr_def split: option.split)

lemma getattr_no_name_error: "fst (getattr v a \<sigma>) \<noteq> Inl (NameError x)"
  by (cases v) (simp_all add: getattr_def split: option.split)

lemma inert_getattr [intro!]: "inert (getattr v a)"
  by (simp add: inert_def getattr_keeps_state getattr_no_name_error)

lemma runtime_inert [intro!]:
  "inert (lift (py_print s))" "inert (lift (check_call H a))" "inert (lift (run_capture_text H a))"
  using runtime_no_name_error by blast+

lemma inert_if [intro!]: "inert a \<Longrightarrow> inert b \<Longrightarrow> inert (if c then a else b)"
  by simp

lemma inert_py_call [intro!]: "inert (py_call H f args kws)"
  unfolding py_call_def
  apply (split pyval.split)
  apply (intro conjI allI impI inert_if)
  apply (auto split: option.split list.split pyval.split)
  done

lemma inert_py_contains [intro!]: "inert (py_contains a b)"
  unfolding py_contains_def by (auto split: pyval.split prod.split)

lemma inert_py_mul [intro!]: "inert (py_mul a b)"
  unfolding py_mul_def by (auto split: pyval.split prod.split)

lemma inert_apply_op [intro!]: "inert (apply_op H p vs)"
  unfolding apply_op_def
  apply (split pyop.split)
  apply (intro conjI allI impI)
  apply (auto split: list.split option.split)
  done

lemma inert_py_iter [intro!]: "inert (py_iter v)"
  unfolding py_iter_def by (auto split: pyval.split sum.split)

lemma inert_run:
  "inert m \<Longrightarrow> m \<sigma> = (r, \<sigma>') \<Longrightarrow> globals \<sigma>' = globals \<sigma> \<and> modules \<sigma>' = modules \<sigma> \<and> \<not> name_error r"
  unfolding inert_def by (metis fst_conv snd_conv)

subsection \<open>Evaluation\<close>

text \<open>Evaluating an expression binds no name and loads no module.\<close>

lemma eval_frame:
  "eval_expr H e \<sigma> = (r, \<sigma>') \<Longrightarrow> globals \<sigma>' = globals \<sigma> \<and> modules \<sigma>' = modules \<sigma>"
  "eval_exprs H es \<sigma> = (rs, \<sigma>') \<Longrightarrow> globals \<sigma>' = globals \<sigma> \<and> modules \<sigma>' = modules \<sigma>"
proof (induction e and es arbitrary: r \<sigma> \<sigma>' and rs \<sigma> \<sigma>' rule: eval_expr.induct eval_exprs.induct)
  case (Lit v)
  then show ?case by (simp add: st_return_def)
next
  case (Name x)
  then show ?case by (auto simp: load_name_def split: option.splits)
next
  case (Op p es)
  obtain r1 \<sigma>1 where e1: "eval_exprs H es \<sigma> = (r1, \<sigma>1)" by (cases "eval_exprs H es \<sigma>")
  note ih = Op.IH [OF e1]
  show ?case
  proof (cases r1)
    case (Inl err)
    with Op.prems e1 ih show ?thesis by (simp add: st_bind_def)
  next
    case (Inr vs)
    with Op.prems e1 have "apply_op H p vs \<sigma>1 = (r, \<sigma>')" by (simp add: st_bind_def)
    with ih show ?thesis using inert_run [OF inert_apply_op] by metis
  qed
next
  case Nil_expr
  then show ?case by (simp add: st_return_def)
next
  case (Cons_expr e es)
  obtain r1 \<sigma>1 where e1: "eval_expr H e \<sigma> = (r1, \<sigma>1)" by (cases "eval_expr H e \<sigma>")
  note ih1 = Cons_expr.IH(1) [OF e1]
  show ?case
  proof (cases r1)
    case (Inl err)
    with Cons_expr.prems e1 ih1 show ?thesis by (simp add: st_bind_def)
  next
    case (Inr v)
    obtain r2 \<sigma>2 where e2: "eval_exprs H es \<sigma>1 = (r2, \<sigma>2)" by (cases "eval_exprs H es \<sigma>1")
    with Cons_expr.prems e1 Inr Cons_expr.IH(2) [OF e2] ih1 show ?thesis
      by (cases r2) (simp_all add: st_bind_def st_return_def)
  qed
qed

text \<open>An expression whose names are all bound never raises \<open>NameError\<close>.\<close>

lemma eval_no_name_error:
  "fv_expr e \<subseteq> dom (globals \<sigma>) \<union> dom builtins \<Longrightarrow> \<not> name_error (fst (eval_expr H e \<sigma>))"
  "fv_exprs es \<subseteq> dom (globals \<sigma>) \<union> dom builtins \<Longrightarrow> \<not> name_error (fst (eval_exprs H es \<sigma>))"
proof (induction e and es arbitrary: \<sigma> and \<sigma> rule: eval_expr.induct eval_exprs.induct)
  case (Lit v)
  then show ?case by (simp add: st_return_def)
next
  case (Name x)
  then show ?case by (auto simp: load_name_def split: option.split)
next
  case (Op p es)
  obtain r1 \<sigma>1 where e1: "eval_exprs H es \<sigma> = (r1, \<sigma>1)" by (cases "eval_exprs H es \<sigma>")
  from Op.prems have "fv_exprs es \<subseteq> dom (globals \<sigma>) \<union> dom builtins" by simp
  from Op.IH [OF this] e1 have ne: "\<not> name_error r1" by simp
  show ?case
  proof (cases r1)
    case (Inl err)
    with e1 ne show ?thesis by (simp add: st_bind_def)
  next
    case (Inr vs)
    obtain r2 \<sigma>2 where a: "apply_op H p vs \<sigma>1 = (r2, \<sigma>2)" by (cases "apply_op H p vs \<sigma>1")
    with e1 Inr inert_run [OF inert_apply_op a] show ?thesis by (simp add: st_bind_def)
  qed
next
  case Nil_expr
  then show ?case by (simp add: st_return_def)
next
  case (Cons_expr e es)
  obtain r1 \<sigma>1 where e1: "eval_expr H e \<sigma> = (r1, \<sigma>1)" by (cases "eval_expr H e \<sigma>")
  from Cons_expr.prems have "fv_expr e \<subseteq> dom (globals \<sigma>) \<union> dom builtins" by simp
  from Cons_expr.IH(1) [OF this] e1 have ne1: "\<not> name_error r1" by simp
  show ?case
  proof (cases r1)
    case (Inl err)
    with e1 ne1 show ?thesis by (simp add: st_bind_def)
  next
    case (Inr v)
    have "globals \<sigma>1 = globals \<sigma>" using eval_frame(1) [OF e1] by simp
    with Cons_expr.prems have "fv_exprs es \<subseteq> dom (globals \<sigma>1) \<union> dom builtins" by simp
    note ne2 = Cons_expr.IH(2) [OF this]
    obtain r2 \<sigma>2 where e2: "eval_exprs H es \<sigma>1 = (r2, \<sigma>2)" by (cases "eval_exprs H es \<sigma>1")
    with e1 Inr ne2 show ?thesis by (cases r2) (simp_all add: st_bind_def st_return_def)
  qed
qed

subsection \<open>Statements only add names\<close>

lemma grows_refl [simp]: "grows \<sigma> \<sigma>"
  by (simp add: grows_def)

lemma grows_trans: "grows a b \<Longrightarrow> grows b c \<Longrightarrow> grows a c"
  unfolding grows_def using order_trans by blast

lemma stm_grows_run: "stm_grows m \<Longrightarrow> m \<sigma> = (r, \<sigma>') \<Longrightarrow> grows \<sigma> \<sigma>'"
  unfolding stm_grows_def by (metis snd_conv)

lemma stm_grows_bind [intro!]:
  assumes m: "stm_grows m" and f: "\<And>x. stm_grows (f x)"
  shows "stm_grows (st_bind m f)"
  unfolding stm_grows_def
proof
  fix \<sigma>
  obtain r \<sigma>1 where r: "m \<sigma> = (r, \<sigma>1)" by (cases "m \<sigma>")
  have g1: "grows \<sigma> \<sigma>1" by (rule stm_grows_run [OF m r])
  show "grows \<sigma> (snd (st_bind m f \<sigma>))"
  proof (cases r)
    case (Inl e)
    with r g1 show ?thesis by (simp add: st_bind_def)
  next
    case (Inr x)
    with r g1 f [of x] show ?thesis
      by (auto simp: st_bind_def stm_grows_def intro: grows_trans)
  qed
qed

lemma stm_grows_inert [intro]: "inert m \<Longrightarrow> stm_grows m"
  by (auto simp: stm_grows_def grows_def inert_def)

lemma stm_grows_if [intro!]: "stm_grows a \<Longrightarrow> stm_grows b \<Longrightarrow> stm_grows (if c then a else b)"
  by simp

lemma stm_grows_store [intro!]: "stm_grows (store_name x v)"
  by (auto simp: stm_grows_def grows_def store_name_def)

lemma stm_grows_find_and_load [intro!]: "stm_grows (find_and_load H p c)"
  by (auto simp: stm_grows_def grows_def find_and_load_def Let_def split: option.split)

lemma stm_grows_import_path [intro!]: "stm_grows (import_path H p cs)"
  by (induction cs arbitrary: p) auto

lemma stm_grows_eval [intro!]: "stm_grows (eval_expr H e)"
  unfolding stm_grows_def grows_def by (metis eval_frame(1) order_refl prod.collapse)

lemma stm_grows_for_loop [intro!]: "stm_grows body \<Longrightarrow> stm_grows (for_loop x vs body)"
  by (induction vs) auto

lemma stm_grows_exec:
  "stm_grows (exec_stmt H s)"
  "stm_grows (exec_block H ss)"
  by (induction s and ss rule: exec_stmt.induct exec_block.induct) auto

subsection \<open>Soundness of the definite-assignment analysis\<close>

lemma defass_block_append:
  "defass_block (ss @ ts) A = (case defass_block ss A of None \<Rightarrow> None | Some A' \<Rightarrow> defass_block ts A')"
  by (induction ss arbitrary: A) (simp_all split: option.split)

lemma import_path_no_name_error: "\<not> name_error (fst (import_path H p cs \<sigma>))"
proof (induction cs arbitrary: p \<sigma>)
  case (Cons c cs)
  then show ?case
    by (auto simp: st_bind_def find_and_load_def Let_def split: prod.split sum.split if_splits)
qed (simp add: st_return_def)

lemma exec_grows_dom:
  "exec_stmt H s \<sigma> = (r, \<sigma>') \<Longrightarrow> A \<subseteq> dom (globals \<sigma>) \<Longrightarrow> A \<subseteq> dom (globals \<sigma>')"
  using stm_grows_run [OF stm_grows_exec(1)] by (fastforce simp: grows_def)

text \<open>Evaluating an expression whose names are bound, then continuing with its value.\<close>

lemma eval_then:
  assumes fv: "fv_expr e \<subseteq> dom (globals \<sigma>) \<union> dom builtins"
    and run: "st_bind (eval_expr H e) f \<sigma> = (r, \<sigma>')"
  obtains (raised) err where "r = Inl err" "\<not> name_error r"
    | (returned) v \<sigma>1 where "globals \<sigma>1 = globals \<sigma>" "f v \<sigma>1 = (r, \<sigma>')"
proof -
  obtain r1 \<sigma>1 where e1: "eval_expr H e \<sigma> = (r1, \<sigma>1)" by (cases "eval_expr H e \<sigma>")
  have ne: "\<not> name_error r1" using eval_no_name_error(1) [OF fv, where H = H] e1 by simp
  have g: "globals \<sigma>1 = globals \<sigma>" using eval_frame(1) [OF e1] by simp
  show ?thesis
  proof (cases r1)
    case (Inl err)
    with e1 run ne raised show ?thesis by (auto simp: st_bind_def)
  next
    case (Inr v)
    with e1 run g returned show ?thesis by (auto simp: st_bind_def)
  qed
qed

text \<open>A loop whose body raises no \<open>NameError\<close> once its target is bound raises none.\<close>

lemma for_loop_no_name_error:
  assumes body: "\<And>\<sigma>. insert x A \<subseteq> dom (globals \<sigma>) \<Longrightarrow> \<not> name_error (fst (b \<sigma>))"
    and g: "stm_grows b"
  shows "A \<subseteq> dom (globals \<sigma>) \<Longrightarrow> \<not> name_error (fst (for_loop x vs b \<sigma>))"
proof (induction vs arbitrary: \<sigma>)
  case Nil
  then show ?case by (simp add: st_return_def)
next
  case (Cons v vs)
  define \<sigma>1 where "\<sigma>1 = \<sigma>\<lparr>globals := (globals \<sigma>)(x \<mapsto> v)\<rparr>"
  have A1: "insert x A \<subseteq> dom (globals \<sigma>1)" using Cons.prems by (auto simp: \<sigma>1_def)
  obtain r \<sigma>2 where b: "b \<sigma>1 = (r, \<sigma>2)" by (cases "b \<sigma>1")
  have ne: "\<not> name_error r" using body [OF A1] b by simp
  have "A \<subseteq> dom (globals \<sigma>2)" using A1 stm_grows_run [OF g b] by (auto simp: grows_def)
  then have ne2: "\<not> name_error (fst (for_loop x vs b \<sigma>2))" by (rule Cons.IH)
  show ?case
    using b ne ne2 by (cases r) (simp_all add: st_bind_def store_name_def \<sigma>1_def)
qed

text \<open>
  Soundness: when the analysis accepts a statement from the names \<open>A\<close>, and those
  names are bound, running it raises no \<open>NameError\<close>, and when it completes the
  names the analysis promised are bound.
\<close>

lemma defass_sound:
  "defass s A = Some A' \<Longrightarrow> A \<subseteq> dom (globals \<sigma>) \<Longrightarrow> exec_stmt H s \<sigma> = (r, \<sigma>') \<Longrightarrow>
     \<not> name_error r \<and> (r = Inr () \<longrightarrow> A' \<subseteq> dom (globals \<sigma>'))"
  "defass_block ss A = Some A' \<Longrightarrow> A \<subseteq> dom (globals \<sigma>) \<Longrightarrow> exec_block H ss \<sigma> = (r, \<sigma>') \<Longrightarrow>
     \<not> name_error r \<and> (r = Inr () \<longrightarrow> A' \<subseteq> dom (globals \<sigma>'))"
proof (induction s and ss arbitrary: A A' \<sigma> r \<sigma>' and A A' \<sigma> r \<sigma>'
       rule: exec_stmt.induct exec_block.induct)
  case (ExprS e)
  from ExprS.prems(1,2) have fv: "fv_expr e \<subseteq> dom (globals \<sigma>) \<union> dom builtins" and A': "A' = A"
    by (auto split: if_splits)
  from fv ExprS.prems(3) [unfolded exec_stmt.simps] show ?case
  proof (cases rule: eval_then)
    case (returned v \<sigma>1)
    with ExprS.prems(2) A' show ?thesis by (auto simp: st_return_def)
  qed simp
next
  case (Assign x e)
  from Assign.prems(1,2) have fv: "fv_expr e \<subseteq> dom (globals \<sigma>) \<union> dom builtins"
    and A': "A' = insert x A" by (auto split: if_splits)
  from fv Assign.prems(3) [unfolded exec_stmt.simps] show ?case
  proof (cases rule: eval_then)
    case (returned v \<sigma>1)
    with Assign.prems(2) A' show ?thesis by (auto simp: store_name_def)
  qed simp
next
  case (Import m ms)
  obtain r1 \<sigma>1 where i: "import_path H None (m # ms) \<sigma> = (r1, \<sigma>1)"
    by (cases "import_path H None (m # ms) \<sigma>")
  have ne: "\<not> name_error r1" using import_path_no_name_error [of H None "m # ms" \<sigma>] i by simp
  have g: "A \<subseteq> dom (globals \<sigma>1)"
    using Import.prems(2) stm_grows_run [OF stm_grows_import_path i] by (auto simp: grows_def)
  from Import.prems(1,3) i ne g show ?case
    by (cases r1) (auto simp: st_bind_def store_name_def)
next
  case (For x e body)
  from For.prems(1,2) have fv: "fv_expr e \<subseteq> dom (globals \<sigma>) \<union> dom builtins"
    and A': "A' = A" and "defass_block body (insert x A) \<noteq> None" by (auto split: if_splits)
  then obtain B where B: "defass_block body (insert x A) = Some B" by blast
  have body: "\<not> name_error (fst (exec_block H body \<tau>))" if "insert x A \<subseteq> dom (globals \<tau>)" for \<tau>
    using For.IH [OF B that] by (metis prod.collapse)
  have grown: "A' \<subseteq> dom (globals \<sigma>')" using exec_grows_dom [OF For.prems(3)] For.prems(2) A' by simp
  from fv For.prems(3) [unfolded exec_stmt.simps] have "\<not> name_error r"
  proof (cases rule: eval_then)
    case (returned v \<sigma>1)
    obtain r2 \<sigma>2 where it: "py_iter v \<sigma>1 = (r2, \<sigma>2)" by (cases "py_iter v \<sigma>1")
    note i = inert_run [OF inert_py_iter it]
    show ?thesis
    proof (cases r2)
      case (Inl err)
      with returned it i show ?thesis by (auto simp: st_bind_def)
    next
      case (Inr vs)
      have "A \<subseteq> dom (globals \<sigma>2)" using i returned For.prems(2) by simp
      from for_loop_no_name_error [where x = x and A = A and b = "exec_block H body", OF body stm_grows_exec(2) this, where vs = vs] returned it Inr
      show ?thesis by (simp add: st_bind_def)
    qed
  qed
  with grown show ?case by simp
next
  case (IfS e body)
  from IfS.prems(1,2) have fv: "fv_expr e \<subseteq> dom (globals \<sigma>) \<union> dom builtins"
    and A': "A' = A" and "defass_block body A \<noteq> None" by (auto split: if_splits)
  then obtain B where B: "defass_block body A = Some B" by blast
  have grown: "A' \<subseteq> dom (globals \<sigma>')" using exec_grows_dom [OF IfS.prems(3)] IfS.prems(2) A' by simp
  from fv IfS.prems(3) [unfolded exec_stmt.simps] have "\<not> name_error r"
  proof (cases rule: eval_then)
    case (returned v \<sigma>1)
    with IfS.prems(2) have A1: "A \<subseteq> dom (globals \<sigma>1)" by simp
    show ?thesis
    proof (cases "py_truth v")
      case True
      with returned have "exec_block H body \<sigma>1 = (r, \<sigma>')" by simp
      from IfS.IH [OF B A1 this] show ?thesis by simp
    next
      case False
      with returned show ?thesis by (auto simp: st_return_def)
    qed
  qed
  with grown show ?case by simp
next
  case Nil_stmt
  then show ?case by (auto simp: st_return_def)
next
  case (Cons_stmt s ss)
  from Cons_stmt.prems(1) obtain A1 where A1: "defass s A = Some A1" and A2: "defass_block ss A1 = Some A'"
    by (auto split: option.splits)
  obtain r1 \<sigma>1 where s1: "exec_stmt H s \<sigma> = (r1, \<sigma>1)" by (cases "exec_stmt H s \<sigma>")
  note ih1 = Cons_stmt.IH(1) [OF A1 Cons_stmt.prems(2) s1]
  show ?case
  proof (cases r1)
    case (Inl err)
    with ih1 s1 Cons_stmt.prems(3) show ?thesis by (auto simp: st_bind_def)
  next
    case (Inr u)
    with ih1 have "A1 \<subseteq> dom (globals \<sigma>1)" by simp
    with Cons_stmt.IH(2) [OF A2 this] s1 Inr Cons_stmt.prems(3) show ?thesis
      by (simp add: st_bind_def)
  qed
qed

subsection \<open>The frame of a statement\<close>

lemma frame_refl [simp]: "frame X K \<sigma> \<sigma>"
  by (simp add: frame_def)

lemma frame_trans: "frame X K a b \<Longrightarrow> frame X K b c \<Longrightarrow> frame X K a c"
  by (simp add: frame_def)

lemma stm_frame_run: "stm_frame X K m \<Longrightarrow> m \<sigma> = (r, \<sigma>') \<Longrightarrow> frame X K \<sigma> \<sigma>'"
  unfolding stm_frame_def by (metis snd_conv)

lemma stm_frame_mono: "stm_frame X K m \<Longrightarrow> X \<subseteq> X' \<Longrightarrow> K \<subseteq> K' \<Longrightarrow> stm_frame X' K' m"
  unfolding stm_frame_def frame_def by blast

lemma stm_frame_bind [intro!]:
  assumes m: "stm_frame X K m" and f: "\<And>x. stm_frame X K (f x)"
  shows "stm_frame X K (st_bind m f)"
  unfolding stm_frame_def
proof
  fix \<sigma>
  obtain r \<sigma>1 where r: "m \<sigma> = (r, \<sigma>1)" by (cases "m \<sigma>")
  have f1: "frame X K \<sigma> \<sigma>1" by (rule stm_frame_run [OF m r])
  show "frame X K \<sigma> (snd (st_bind m f \<sigma>))"
  proof (cases r)
    case (Inl e)
    with r f1 show ?thesis by (simp add: st_bind_def)
  next
    case (Inr x)
    with r f1 f [of x] show ?thesis
      by (auto simp: st_bind_def stm_frame_def intro: frame_trans)
  qed
qed

lemma stm_frame_inert [intro]: "inert m \<Longrightarrow> stm_frame X K m"
  by (simp add: stm_frame_def frame_def inert_def)

lemma stm_frame_if [intro!]: "stm_frame X K a \<Longrightarrow> stm_frame X K b \<Longrightarrow> stm_frame X K (if c then a else b)"
  by simp

lemma stm_frame_store [intro]: "x \<in> X \<Longrightarrow> stm_frame X K (store_name x v)"
  by (auto simp: stm_frame_def frame_def store_name_def)

lemma stm_frame_find_and_load:
  "qualify p c \<in> K \<Longrightarrow> set_option p \<subseteq> K \<Longrightarrow> stm_frame X K (find_and_load H p c)"
  by (auto simp: stm_frame_def frame_def find_and_load_def Let_def split: option.split)

text \<open>\<open>_find_and_load\<close> returns the qualified name it was asked for.\<close>

lemma import_path_Cons_qualify:
  "import_path H p (c # cs) = st_bind (find_and_load H p c) (\<lambda>_. import_path H (Some (qualify p c)) cs)"
  by (auto simp: st_bind_def find_and_load_def Let_def fun_eq_iff split: prod.split sum.split)

lemma stm_frame_import_path:
  "path_keys p cs \<subseteq> K \<Longrightarrow> set_option p \<subseteq> K \<Longrightarrow> stm_frame X K (import_path H p cs)"
proof (induction cs arbitrary: p)
  case (Cons c cs)
  then show ?case
    unfolding import_path_Cons_qualify by (auto intro!: stm_frame_find_and_load)
qed auto

lemma stm_frame_eval [intro]: "stm_frame X K (eval_expr H e)"
  unfolding stm_frame_def frame_def by (metis eval_frame(1) prod.collapse)

lemma stm_frame_for_loop [intro!]: "stm_frame X K body \<Longrightarrow> x \<in> X \<Longrightarrow> stm_frame X K (for_loop x vs body)"
  by (induction vs) auto

text \<open>
  A statement binds only the names \<open>binds\<close> lists and changes only the entries of
  \<open>sys.modules\<close> that \<open>import_keys\<close> lists.
\<close>

lemma stm_frame_exec:
  "stm_frame (binds s) (import_keys s) (exec_stmt H s)"
  "stm_frame (binds_block ss) (import_keys_block ss) (exec_block H ss)"
proof (induction s and ss rule: exec_stmt.induct exec_block.induct)
  case (Import m ms)
  then show ?case by (auto intro!: stm_frame_import_path simp del: import_path.simps)
next
  case (For x e body)
  then have "stm_frame (insert x (binds_block body)) (import_keys_block body) (exec_block H body)"
    by (rule stm_frame_mono) auto
  then show ?case by auto
next
  case (Cons_stmt s ss)
  have "stm_frame (binds s \<union> binds_block ss) (import_keys s \<union> import_keys_block ss) (exec_stmt H s)"
    "stm_frame (binds s \<union> binds_block ss) (import_keys s \<union> import_keys_block ss) (exec_block H ss)"
    using Cons_stmt.IH by (auto elim: stm_frame_mono)
  then show ?case by auto
qed auto

lemma exec_block_frame:
  "exec_block H ss \<sigma> = (r, \<sigma>') \<Longrightarrow> x \<notin> binds_block ss \<Longrightarrow> globals \<sigma>' x = globals \<sigma> x"
  "exec_block H ss \<sigma> = (r, \<sigma>') \<Longrightarrow> k \<notin> import_keys_block ss \<Longrightarrow> modules \<sigma>' k = modules \<sigma> k"
  using stm_frame_run [OF stm_frame_exec(2)] unfolding frame_def by blast+

end
