(* ===== verification/Module.thy ===== *)
theory Module
  imports Interp Reporter
begin

text \<open>
  The notebook \<open>src/notebooks/dbt_package_lister.py\<close> statement by statement, as
  syntax of \<^theory_text>\<open>Interp\<close>: the module docstring (which the compiler stores in
  \<open>__doc__\<close>) and the six cells, each a list of statements in source order. Running
  them in order from a fresh module namespace is \<open>run_module\<close>. The lemmas compute
  each cell on an arbitrary state, show that the statement-level run refines the
  cell-level model \<open>notebook\<close> of \<^theory_text>\<open>Reporter\<close>, give the namespace a complete run
  leaves, and show by the definite-assignment analysis which names each cell needs
  and that the whole module never raises \<open>NameError\<close>. Running the cells in a
  session is \<^theory_text>\<open>Session\<close>.
\<close>

section \<open>Syntax of the script\<close>

abbreviation str_lit :: "pystr \<Rightarrow> expr" where
  "str_lit s \<equiv> Lit (VStr s)"

abbreviation attr :: "expr \<Rightarrow> pystr \<Rightarrow> expr" where
  "attr e a \<equiv> Op (GetAttr a) [e]"

abbreviation call :: "expr \<Rightarrow> expr list \<Rightarrow> expr" where
  "call f args \<equiv> Op (Call []) (f # args)"

abbreviation print_stmt :: "expr \<Rightarrow> stmt" where
  "print_stmt e \<equiv> ExprS (call (Name ''print'') [e])"

text \<open>The f-string \<open>f"  \<bullet> {x}"\<close> of cells 3 and 6.\<close>

abbreviation bullet_fmt :: "pystr \<Rightarrow> expr" where
  "bullet_fmt x \<equiv> Op (Format [''  '' @ bullet @ '' '', []]) [Name x]"

section \<open>The cells\<close>

definition module_doc :: pystr where
  "module_doc =
     [nl] @ ''Snowflake Notebook: List dbt Packages'' @ [nl]
     @ ''This notebook demonstrates running dbt commands within Snowflake'' @ [nl]"

definition cell1_ast :: "stmt list" where
  "cell1_ast =
     [Assign ''__doc__'' (str_lit module_doc),
      Import ''sys'' [],
      Import ''subprocess'' [],
      print_stmt (str_lit installing_msg),
      ExprS (call (attr (Name ''subprocess'') ''check_call'')
               [Op MkList [attr (Name ''sys'') ''executable'', str_lit ''-m'', str_lit ''pip'',
                           str_lit ''install'', str_lit ''dbt-snowflake==1.7.1'', str_lit ''-q'']]),
      print_stmt (str_lit installed_msg)]"

definition cell2_ast :: "stmt list" where
  "cell2_ast =
     [Import ''dbt'' [''version''],
      print_stmt (Op (Format [''dbt version: '', []])
                    [attr (attr (Name ''dbt'') ''version'') ''__version__''])]"

definition dbt_filter_body :: "stmt list" where
  "dbt_filter_body =
     [IfS (Op Contains [str_lit ''dbt'', call (attr (Name ''line'') ''lower'') []])
        [print_stmt (bullet_fmt ''line'')]]"

definition cell3_ast :: "stmt list" where
  "cell3_ast =
     [print_stmt (str_lit listing_header),
      Assign ''result''
        (Op (Call [''capture_output'', ''text''])
           [attr (Name ''subprocess'') ''run'',
            Op MkList [attr (Name ''sys'') ''executable'', str_lit ''-m'', str_lit ''pip'', str_lit ''list''],
            Lit (VBool True), Lit (VBool True)]),
      For ''line'' (call (attr (attr (Name ''result'') ''stdout'') ''split'') [str_lit [nl]])
        dbt_filter_body]"

definition cell4_ast :: "stmt list" where
  "cell4_ast =
     [print_stmt (str_lit (nl # clipboard_icon @ '' dbt Packages configured in project:'')),
      Assign ''packages_content'' (str_lit packages_content),
      print_stmt (Name ''packages_content'')]"

definition cell5_ast :: "stmt list" where
  "cell5_ast =
     [print_stmt (str_lit (nl # search_icon @ '' dbt Package Details:'')),
      print_stmt (Op Mul [str_lit ''='', Lit (VInt 60)]),
      print_stmt (str_lit ''Package: dbt-labs/dbt_utils''),
      print_stmt (str_lit ''Version: 1.1.1''),
      print_stmt (str_lit ''Description: Utility macros for dbt projects''),
      print_stmt (str_lit ''Repository: https://github.com/dbt-labs/dbt-utils''),
      print_stmt (Op Mul [str_lit ''='', Lit (VInt 60)])]"

definition commands_body :: "stmt list" where
  "commands_body = [print_stmt (bullet_fmt ''cmd'')]"

definition cell6_ast :: "stmt list" where
  "cell6_ast =
     [print_stmt (str_lit (nl # laptop_icon @ '' Available dbt commands:'')),
      Assign ''commands'' (Op MkList (map str_lit commands)),
      For ''cmd'' (Name ''commands'') commands_body,
      print_stmt (str_lit complete_msg)]"

definition module_cells :: "stmt list list" where
  "module_cells = [cell1_ast, cell2_ast, cell3_ast, cell4_ast, cell5_ast, cell6_ast]"

definition module_ast :: "stmt list" where
  "module_ast = concat module_cells"

section \<open>Running the module\<close>

text \<open>
  A fresh module namespace holds \<open>__name__\<close>; at start-up \<open>sys.modules\<close> holds
  \<open>sys\<close>, built into the interpreter.
\<close>

definition fresh_globals :: namespace where
  "fresh_globals = [''__name__'' \<mapsto> VStr ''__main__'']"

definition init_interp :: "'w host \<Rightarrow> 'w proc \<Rightarrow> 'w interp" where
  "init_interp H st = \<lparr>globals = fresh_globals, modules = [''sys'' \<mapsto> sys_ns H], pstate = st\<rparr>"

definition run_module :: "'w host \<Rightarrow> 'w proc \<Rightarrow> (py_error + unit) \<times> 'w interp" where
  "run_module H st = exec_block H module_ast (init_interp H st)"

text \<open>
  A block of statements refines a cell-level statement \<open>m\<close> at \<open>\<sigma>\<close> when it
  raises the same exception or completes as \<open>m\<close> does, leaving the same process
  state.
\<close>

definition block_refines :: "'w host \<Rightarrow> stmt list \<Rightarrow> ('w, unit) py \<Rightarrow> 'w interp \<Rightarrow> bool" where
  "block_refines H c m \<sigma> \<longleftrightarrow>
     fst (exec_block H c \<sigma>) = fst (m (pstate \<sigma>))
     \<and> pstate (snd (exec_block H c \<sigma>)) = snd (m (pstate \<sigma>))"

section \<open>Running the cells\<close>

lemma pstate_init_interp [simp]: "pstate (init_interp H st) = st"
  by (simp add: init_interp_def)

lemmas interp_run_defs =
  load_name_def builtins_def apply_op_def py_call_def lift_def st_return_def st_bind_def
  store_name_def getattr_def as_argv_def py_print_def py_bind_def py_return_def Let_def

text \<open>
  Each lemma gives the outcome of a cell, the process state it leaves (as the
  cell-level model of \<^theory_text>\<open>Reporter\<close> computes it), and the names and modules it
  leaves.
\<close>

lemma cell1_ast_run:
  assumes "globals \<sigma> ''print'' = None" "modules \<sigma> ''sys'' = Some (sys_ns H)"
    and "modules \<sigma> ''subprocess'' = None" "find_module H (world (pstate \<sigma>)) ''subprocess''"
  shows "fst (exec_block H cell1_ast \<sigma>) = fst (cell1_install H (pstate \<sigma>))"
    and "pstate (snd (exec_block H cell1_ast \<sigma>)) = snd (cell1_install H (pstate \<sigma>))"
    and "globals (snd (exec_block H cell1_ast \<sigma>)) =
           (globals \<sigma>)(''__doc__'' \<mapsto> VStr module_doc, ''sys'' \<mapsto> VModule ''sys'',
                        ''subprocess'' \<mapsto> VModule ''subprocess'')"
    and "modules (snd (exec_block H cell1_ast \<sigma>)) = (modules \<sigma>)(''subprocess'' \<mapsto> subprocess_ns)"
proof -
  obtain rc out err w' where x: "exec H (install_args H) (world (pstate \<sigma>)) = (rc, out, err, w')"
    by (cases "exec H (install_args H) (world (pstate \<sigma>))")
  note x' = x [unfolded install_args_def]
  note defs = cell1_install_def cell1_ast_def interp_run_defs check_call_def py_discard_def sys_ns_def install_args_def
    subprocess_ns_def find_and_load_def qualify_def module_init_def
  show "fst (exec_block H cell1_ast \<sigma>) = fst (cell1_install H (pstate \<sigma>))"
    and "pstate (snd (exec_block H cell1_ast \<sigma>)) = snd (cell1_install H (pstate \<sigma>))"
    and "globals (snd (exec_block H cell1_ast \<sigma>)) =
           (globals \<sigma>)(''__doc__'' \<mapsto> VStr module_doc, ''sys'' \<mapsto> VModule ''sys'',
                        ''subprocess'' \<mapsto> VModule ''subprocess'')"
    and "modules (snd (exec_block H cell1_ast \<sigma>)) = (modules \<sigma>)(''subprocess'' \<mapsto> subprocess_ns)"
    using x x' assms by (simp_all add: defs)
qed

lemma cell4_ast_run:
  assumes "globals \<sigma> ''print'' = None"
  shows "fst (exec_block H cell4_ast \<sigma>) = fst (cell4_packages (pstate \<sigma>))"
    and "pstate (snd (exec_block H cell4_ast \<sigma>)) = snd (cell4_packages (pstate \<sigma>))"
    and "globals (snd (exec_block H cell4_ast \<sigma>)) =
           (globals \<sigma>)(''packages_content'' \<mapsto> VStr packages_content)"
    and "modules (snd (exec_block H cell4_ast \<sigma>)) = modules \<sigma>"
  using assms by (simp_all add: cell4_ast_def cell4_packages_def interp_run_defs)

lemma cell5_ast_run:
  assumes "globals \<sigma> ''print'' = None"
  shows "fst (exec_block H cell5_ast \<sigma>) = fst (cell5_details (pstate \<sigma>))"
    and "pstate (snd (exec_block H cell5_ast \<sigma>)) = snd (cell5_details (pstate \<sigma>))"
    and "globals (snd (exec_block H cell5_ast \<sigma>)) = globals \<sigma>"
    and "modules (snd (exec_block H cell5_ast \<sigma>)) = modules \<sigma>"
  using assms by (simp_all add: cell5_ast_def cell5_details_def interp_run_defs py_mul_def)

lemma py_split_not_Nil [simp]: "py_split c s \<noteq> []"
  by (simp add: py_split_def)

lemma dbt_filter_body_run:
  assumes "globals \<sigma> ''print'' = None" "globals \<sigma> ''line'' = Some (VStr l)"
  shows "exec_block H dbt_filter_body \<sigma> =
    (Inr (), \<sigma>\<lparr>pstate := (pstate \<sigma>)\<lparr>stdout := stdout (pstate \<sigma>)
                   @ printed (if is_dbt_line l then [bullet_line l] else [])\<rparr>\<rparr>)"
  using assms
  by (simp add: dbt_filter_body_def interp_run_defs py_contains_def is_dbt_line_def bullet_line_def)

lemma dbt_filter_loop:
  assumes "globals \<sigma> ''print'' = None"
  shows "for_loop ''line'' (map VStr ls) (exec_block H dbt_filter_body) \<sigma> =
    (Inr (), \<sigma>\<lparr>globals := (if ls = [] then globals \<sigma> else (globals \<sigma>)(''line'' \<mapsto> VStr (last ls))),
               pstate := (pstate \<sigma>)\<lparr>stdout := stdout (pstate \<sigma>)
                   @ printed (map bullet_line (filter is_dbt_line ls))\<rparr>\<rparr>)"
  using assms
proof (induction ls arbitrary: \<sigma>)
  case Nil
  then show ?case by (simp add: st_return_def)
next
  case (Cons l ls)
  then show ?case
    by (simp add: st_bind_def store_name_def dbt_filter_body_run) (auto intro!: interp.equality simp: fun_eq_iff)
qed

lemma cell3_ast_ok:
  assumes "globals \<sigma> ''print'' = None" "globals \<sigma> ''sys'' = Some (VModule ''sys'')"
    and "globals \<sigma> ''subprocess'' = Some (VModule ''subprocess'')"
    and "modules \<sigma> ''sys'' = Some (sys_ns H)" "modules \<sigma> ''subprocess'' = Some subprocess_ns"
    and x: "exec H (list_args H) (world (pstate \<sigma>)) = (rc, out, err, w')"
    and c: "capture_error out err = None"
  shows "fst (exec_block H cell3_ast \<sigma>) = fst (cell3_list H (pstate \<sigma>))"
    and "pstate (snd (exec_block H cell3_ast \<sigma>)) = snd (cell3_list H (pstate \<sigma>))"
    and "globals (snd (exec_block H cell3_ast \<sigma>)) =
           (globals \<sigma>)(''result'' \<mapsto> VCompleted \<lparr>cp_args = list_args H, returncode = rc,
                          cp_stdout = translate_newlines out, cp_stderr = translate_newlines err\<rparr>,
                        ''line'' \<mapsto> VStr (last (py_split nl (translate_newlines out))))"
    and "modules (snd (exec_block H cell3_ast \<sigma>)) = modules \<sigma>"
proof -
  have nl: "byte_val nl < 128" by (simp add: nl_def byte_val_def)
  note x' = x [unfolded list_args_def]
  note defs = cell3_ast_def cell3_list_def interp_run_defs sys_ns_def subprocess_ns_def list_args_def
    py_iter_def
  show "fst (exec_block H cell3_ast \<sigma>) = fst (cell3_list H (pstate \<sigma>))"
    and "pstate (snd (exec_block H cell3_ast \<sigma>)) = snd (cell3_list H (pstate \<sigma>))"
    and "globals (snd (exec_block H cell3_ast \<sigma>)) =
           (globals \<sigma>)(''result'' \<mapsto> VCompleted \<lparr>cp_args = list_args H, returncode = rc,
                          cp_stdout = translate_newlines out, cp_stderr = translate_newlines err\<rparr>,
                        ''line'' \<mapsto> VStr (last (py_split nl (translate_newlines out))))"
    and "modules (snd (exec_block H cell3_ast \<sigma>)) = modules \<sigma>"
    using x x' c assms(1-5) nl
    by (simp_all add: defs run_capture_text_run dbt_filter_loop print_dbt_lines_run)
qed

lemma cell3_ast_raise:
  assumes "globals \<sigma> ''print'' = None" "globals \<sigma> ''sys'' = Some (VModule ''sys'')"
    and "globals \<sigma> ''subprocess'' = Some (VModule ''subprocess'')"
    and "modules \<sigma> ''sys'' = Some (sys_ns H)" "modules \<sigma> ''subprocess'' = Some subprocess_ns"
    and x: "exec H (list_args H) (world (pstate \<sigma>)) = (rc, out, err, w')"
    and c: "capture_error out err = Some e"
  shows "fst (exec_block H cell3_ast \<sigma>) = fst (cell3_list H (pstate \<sigma>))"
    and "pstate (snd (exec_block H cell3_ast \<sigma>)) = snd (cell3_list H (pstate \<sigma>))"
    and "globals (snd (exec_block H cell3_ast \<sigma>)) = globals \<sigma>"
    and "modules (snd (exec_block H cell3_ast \<sigma>)) = modules \<sigma>"
proof -
  note x' = x [unfolded list_args_def]
  note defs = cell3_ast_def cell3_list_def interp_run_defs sys_ns_def subprocess_ns_def list_args_def
  show "fst (exec_block H cell3_ast \<sigma>) = fst (cell3_list H (pstate \<sigma>))"
    and "pstate (snd (exec_block H cell3_ast \<sigma>)) = snd (cell3_list H (pstate \<sigma>))"
    and "globals (snd (exec_block H cell3_ast \<sigma>)) = globals \<sigma>"
    and "modules (snd (exec_block H cell3_ast \<sigma>)) = modules \<sigma>"
    using x x' c assms(1-5) by (simp_all add: defs run_capture_text_raise)
qed

lemma cell2_ast_run:
  assumes "globals \<sigma> ''print'' = None" "modules \<sigma> ''dbt'' = None" "modules \<sigma> ''dbt.version'' = None"
  shows "fst (exec_block H cell2_ast \<sigma>) = fst (cell2_version H (pstate \<sigma>))
    \<and> pstate (snd (exec_block H cell2_ast \<sigma>)) = snd (cell2_version H (pstate \<sigma>))
    \<and> globals (snd (exec_block H cell2_ast \<sigma>)) =
        (if find_module H (world (pstate \<sigma>)) ''dbt'' \<and> find_module H (world (pstate \<sigma>)) ''dbt.version''
         then (globals \<sigma>)(''dbt'' \<mapsto> VModule ''dbt'') else globals \<sigma>)
    \<and> modules (snd (exec_block H cell2_ast \<sigma>)) ''sys'' = modules \<sigma> ''sys''
    \<and> modules (snd (exec_block H cell2_ast \<sigma>)) ''subprocess'' = modules \<sigma> ''subprocess''"
  using assms
  by (cases "find_module H (world (pstate \<sigma>)) ''dbt''";
      cases "find_module H (world (pstate \<sigma>)) ''dbt.version''";
      cases "import_version H (world (pstate \<sigma>))")
     (simp_all add: cell2_ast_def cell2_version_def import_dbt_version_def dbt_import_def interp_run_defs
       find_and_load_def qualify_def module_init_def)

lemma eval_str_lits: "eval_exprs H (map str_lit ss) \<sigma> = (Inr (map VStr ss), \<sigma>)"
  by (induction ss) (simp_all add: st_bind_def st_return_def)

lemma commands_loop:
  assumes "globals \<sigma> ''print'' = None"
  shows "for_loop ''cmd'' (map VStr ls) (exec_block H commands_body) \<sigma> =
    (Inr (), \<sigma>\<lparr>globals := (if ls = [] then globals \<sigma> else (globals \<sigma>)(''cmd'' \<mapsto> VStr (last ls))),
               pstate := (pstate \<sigma>)\<lparr>stdout := stdout (pstate \<sigma>) @ printed (map bullet_line ls)\<rparr>\<rparr>)"
  using assms
proof (induction ls arbitrary: \<sigma>)
  case Nil
  then show ?case by (simp add: st_return_def)
next
  case (Cons l ls)
  then show ?case
    by (simp add: commands_body_def interp_run_defs bullet_line_def) (auto intro!: interp.equality simp: fun_eq_iff)
qed

lemma cell6_ast_run:
  assumes "globals \<sigma> ''print'' = None"
  shows "exec_block H cell6_ast \<sigma> =
    (Inr (), \<sigma>\<lparr>globals := (globals \<sigma>)(''commands'' \<mapsto> VList (map VStr commands),
                                  ''cmd'' \<mapsto> VStr ''dbt build - Run everything''),
               pstate := snd (py_seq [cell6_commands, py_print complete_msg] (pstate \<sigma>))\<rparr>)"
  using assms
  by (simp add: cell6_ast_def interp_run_defs py_iter_def commands_loop cell6_commands_def eval_str_lits
      py_seq_prints [unfolded py_print_def])
    (simp add: commands_def py_bind_def py_print_def)

section \<open>The statement-level run refines the cell-level model\<close>

lemma block_refines_append:
  assumes c: "block_refines H c m \<sigma>"
    and d: "block_refines H d k (snd (exec_block H c \<sigma>))"
  shows "block_refines H (c @ d) (py_bind m (\<lambda>_. k)) \<sigma>"
proof -
  obtain r \<sigma>1 where r: "exec_block H c \<sigma> = (r, \<sigma>1)" by (cases "exec_block H c \<sigma>")
  from c r have m: "m (pstate \<sigma>) = (r, pstate \<sigma>1)" by (simp add: block_refines_def prod_eq_iff)
  show ?thesis
  proof (cases r)
    case (Inl e)
    with r m show ?thesis by (simp add: block_refines_def exec_block_append st_bind_def py_bind_def)
  next
    case (Inr u)
    from d r have "block_refines H d k \<sigma>1" by simp
    with Inr r m show ?thesis by (simp add: block_refines_def exec_block_append st_bind_def py_bind_def)
  qed
qed

lemma notebook_six_cells:
  "notebook H =
     py_seq [cell1_install H, cell2_version H, cell3_list H, cell4_packages, cell5_details,
             py_seq [cell6_commands, py_print complete_msg]]"
  by (simp add: notebook_def py_bind_assoc)

lemma module_ast_cells:
  "module_ast = cell1_ast @ cell2_ast @ cell3_ast @ cell4_ast @ cell5_ast @ cell6_ast @ []"
  by (simp add: module_ast_def module_cells_def)

lemma cell3_refines:
  assumes "globals \<sigma> ''print'' = None" "globals \<sigma> ''sys'' = Some (VModule ''sys'')"
    and "globals \<sigma> ''subprocess'' = Some (VModule ''subprocess'')"
    and "modules \<sigma> ''sys'' = Some (sys_ns H)" "modules \<sigma> ''subprocess'' = Some subprocess_ns"
  shows "block_refines H cell3_ast (cell3_list H) \<sigma> \<and> globals (snd (exec_block H cell3_ast \<sigma>)) ''print'' = None"
proof -
  obtain rc out err w' where x: "exec H (list_args H) (world (pstate \<sigma>)) = (rc, out, err, w')"
    by (cases "exec H (list_args H) (world (pstate \<sigma>))")
  show ?thesis
  proof (cases "capture_error out err")
    case None
    from cell3_ast_ok [OF assms x None] assms(1) show ?thesis by (simp add: block_refines_def)
  next
    case (Some e)
    from cell3_ast_raise [OF assms x Some] assms(1) show ?thesis by (simp add: block_refines_def)
  qed
qed

text \<open>
  The states between the cells of a run from a fresh namespace: what each cell needs
  from the ones before it (\<open>print\<close> resolving to the built-in, \<open>sys\<close> and
  \<open>subprocess\<close> imported by cell 1, \<open>dbt\<close> not yet loaded) holds whatever the
  earlier cells raised.
\<close>

lemma module_chain:
  assumes sub: "find_module H (world st) ''subprocess''"
    and \<sigma>1_def: "\<sigma>1 = snd (exec_block H cell1_ast (init_interp H st))"
    and \<sigma>2_def: "\<sigma>2 = snd (exec_block H cell2_ast \<sigma>1)"
    and \<sigma>3_def: "\<sigma>3 = snd (exec_block H cell3_ast \<sigma>2)"
    and \<sigma>4_def: "\<sigma>4 = snd (exec_block H cell4_ast \<sigma>3)"
  shows "globals (init_interp H st) ''print'' = None"
    and "modules (init_interp H st) ''sys'' = Some (sys_ns H)"
    and "modules (init_interp H st) ''subprocess'' = None"
    and "find_module H (world (pstate (init_interp H st))) ''subprocess''"
    and "globals \<sigma>1 = fresh_globals(''__doc__'' \<mapsto> VStr module_doc, ''sys'' \<mapsto> VModule ''sys'',
                                    ''subprocess'' \<mapsto> VModule ''subprocess'')"
    and "modules \<sigma>1 ''dbt'' = None" "modules \<sigma>1 ''dbt.version'' = None"
    and "globals \<sigma>2 ''print'' = None" "globals \<sigma>2 ''sys'' = Some (VModule ''sys'')"
    and "globals \<sigma>2 ''subprocess'' = Some (VModule ''subprocess'')"
    and "modules \<sigma>2 ''sys'' = Some (sys_ns H)" "modules \<sigma>2 ''subprocess'' = Some subprocess_ns"
    and "globals \<sigma>3 ''print'' = None"
    and "globals \<sigma>4 = (globals \<sigma>3)(''packages_content'' \<mapsto> VStr packages_content)"
proof -
  show s0: "globals (init_interp H st) ''print'' = None"
    "modules (init_interp H st) ''sys'' = Some (sys_ns H)"
    "modules (init_interp H st) ''subprocess'' = None"
    "find_module H (world (pstate (init_interp H st))) ''subprocess''"
    using sub by (simp_all add: init_interp_def fresh_globals_def)
  note c1 = cell1_ast_run [OF s0]
  show g1: "globals \<sigma>1 = fresh_globals(''__doc__'' \<mapsto> VStr module_doc, ''sys'' \<mapsto> VModule ''sys'',
                                    ''subprocess'' \<mapsto> VModule ''subprocess'')"
    by (simp add: \<sigma>1_def c1) (simp add: init_interp_def)
  show m1: "modules \<sigma>1 ''dbt'' = None" "modules \<sigma>1 ''dbt.version'' = None"
    by (simp_all add: \<sigma>1_def c1) (simp_all add: init_interp_def)
  have p1: "globals \<sigma>1 ''print'' = None" by (simp add: g1 fresh_globals_def)
  note c2 = cell2_ast_run [where H = H, OF p1 m1, folded \<sigma>2_def]
  have g2: "globals \<sigma>2 = (if find_module H (world (pstate \<sigma>1)) ''dbt''
                            \<and> find_module H (world (pstate \<sigma>1)) ''dbt.version''
                         then (globals \<sigma>1)(''dbt'' \<mapsto> VModule ''dbt'') else globals \<sigma>1)"
    and m2: "modules \<sigma>2 ''sys'' = modules \<sigma>1 ''sys''" "modules \<sigma>2 ''subprocess'' = modules \<sigma>1 ''subprocess''"
    using c2 by blast+
  have m1': "modules \<sigma>1 ''sys'' = Some (sys_ns H)" "modules \<sigma>1 ''subprocess'' = Some subprocess_ns"
    by (simp_all add: \<sigma>1_def c1) (simp_all add: init_interp_def)
  show s2: "globals \<sigma>2 ''print'' = None" "globals \<sigma>2 ''sys'' = Some (VModule ''sys'')"
    "globals \<sigma>2 ''subprocess'' = Some (VModule ''subprocess'')"
    "modules \<sigma>2 ''sys'' = Some (sys_ns H)" "modules \<sigma>2 ''subprocess'' = Some subprocess_ns"
    by (simp_all add: g2 g1 m2 m1' fresh_globals_def)
  show p3: "globals \<sigma>3 ''print'' = None"
    using cell3_refines [OF s2] by (simp add: \<sigma>3_def)
  show "globals \<sigma>4 = (globals \<sigma>3)(''packages_content'' \<mapsto> VStr packages_content)"
    by (simp add: \<sigma>4_def cell4_ast_run [OF p3])
qed

lemma cell6_completes: "fst (py_seq [cell6_commands, py_print complete_msg] st) = Inr ()"
  by (simp add: cell6_commands_def commands_def py_bind_def py_print_def py_return_def)

lemma module_block_refines:
  assumes "find_module H (world st) ''subprocess''"
  shows "block_refines H module_ast (notebook H) (init_interp H st)"
proof -
  define \<sigma>1 where "\<sigma>1 = snd (exec_block H cell1_ast (init_interp H st))"
  define \<sigma>2 where "\<sigma>2 = snd (exec_block H cell2_ast \<sigma>1)"
  define \<sigma>3 where "\<sigma>3 = snd (exec_block H cell3_ast \<sigma>2)"
  define \<sigma>4 where "\<sigma>4 = snd (exec_block H cell4_ast \<sigma>3)"
  define \<sigma>5 where "\<sigma>5 = snd (exec_block H cell5_ast \<sigma>4)"
  note ch = module_chain [OF assms \<sigma>1_def \<sigma>2_def \<sigma>3_def \<sigma>4_def]
  have p1: "globals \<sigma>1 ''print'' = None" by (simp add: ch(5) fresh_globals_def)
  have p4: "globals \<sigma>4 ''print'' = None" by (simp add: ch(13,14))
  have p5: "globals \<sigma>5 ''print'' = None" by (simp add: \<sigma>5_def cell5_ast_run [OF p4] p4)
  have r1: "block_refines H cell1_ast (cell1_install H) (init_interp H st)"
    using cell1_ast_run [OF ch(1-4)] by (simp add: block_refines_def)
  have r2: "block_refines H cell2_ast (cell2_version H) \<sigma>1"
    using cell2_ast_run [OF p1 ch(6,7)] by (simp add: block_refines_def)
  have r3: "block_refines H cell3_ast (cell3_list H) \<sigma>2"
    using cell3_refines [OF ch(8-12)] by simp
  have r4: "block_refines H cell4_ast cell4_packages \<sigma>3"
    using cell4_ast_run [OF ch(13)] by (simp add: block_refines_def)
  have r5: "block_refines H cell5_ast cell5_details \<sigma>4"
    using cell5_ast_run [OF p4] by (simp add: block_refines_def)
  have e6: "py_seq [cell6_commands, py_print complete_msg] (pstate \<sigma>5)
      = (Inr (), snd (py_seq [cell6_commands, py_print complete_msg] (pstate \<sigma>5)))"
    using cell6_completes by (metis prod.collapse)
  have r6: "block_refines H (cell6_ast @ []) (py_seq [py_seq [cell6_commands, py_print complete_msg]]) \<sigma>5"
    unfolding block_refines_def append_Nil2 cell6_ast_run [OF p5] py_seq_Cons_run [where m = "py_seq [cell6_commands, py_print complete_msg]" and st = "pstate \<sigma>5", OF e6] py_seq_Nil_run
    by simp
  show ?thesis
    unfolding module_ast_cells notebook_six_cells py_seq.simps(2) [of "cell1_install H"]
      py_seq.simps(2) [of "cell2_version H"] py_seq.simps(2) [of "cell3_list H"]
      py_seq.simps(2) [of cell4_packages] py_seq.simps(2) [of cell5_details]
    by (intro block_refines_append r1)
       (simp_all only: \<sigma>1_def [symmetric] \<sigma>2_def [symmetric] \<sigma>3_def [symmetric] \<sigma>4_def [symmetric]
         \<sigma>5_def [symmetric] r2 r3 r4 r5 r6)
qed

text \<open>C24: The statement-level run of the module, from a fresh namespace with only \<open>sys\<close> loaded, refines the cell-level model: whenever the import system finds the standard library's \<open>subprocess\<close>, it raises the same exception as \<open>notebook\<close> or completes as it does, and leaves the same output streams, children and world.\<close>

theorem module_refines_notebook:
  assumes "find_module H (world st) ''subprocess''"
  shows "fst (run_module H st) = fst (notebook H st)
    \<and> pstate (snd (run_module H st)) = snd (notebook H st)"
  using module_block_refines [OF assms] by (simp add: block_refines_def run_module_def)

section \<open>Which names each cell needs\<close>

text \<open>
  The definite-assignment analysis of each cell from any set \<open>A\<close> of bound names:
  cell 3 reads \<open>sys\<close> and \<open>subprocess\<close>, which only cell 1 binds; every other
  cell binds what it reads, apart from the built-in \<open>print\<close>.
\<close>

lemma dom_builtins [simp]: "dom builtins = {''print''}"
  by (simp add: builtins_def)

lemma defass_cells:
  "defass_block cell1_ast A = Some (insert ''subprocess'' (insert ''sys'' (insert ''__doc__'' A)))"
  "defass_block cell2_ast A = Some (insert ''dbt'' A)"
  "defass_block cell3_ast A =
     (if ''sys'' \<in> A \<and> ''subprocess'' \<in> A then Some (insert ''result'' A) else None)"
  "defass_block cell4_ast A = Some (insert ''packages_content'' A)"
  "defass_block cell5_ast A = Some A"
  "defass_block cell6_ast A = Some (insert ''commands'' A)"
  by (auto simp: cell1_ast_def cell2_ast_def cell3_ast_def dbt_filter_body_def cell4_ast_def
      cell5_ast_def cell6_ast_def commands_body_def commands_def)

text \<open>
  A cell the analysis accepts from the names bound before it raises no
  \<open>NameError\<close>, and no cell unbinds a name or unloads a module.
\<close>

lemma cell_no_name_error:
  "defass_block c (dom (globals \<sigma>)) \<noteq> None \<Longrightarrow> \<not> name_error (fst (exec_block H c \<sigma>))"
  using defass_sound(2) [where H = H] by (metis not_None_eq order_refl prod.collapse)

lemma exec_block_grows: "grows \<sigma> (snd (exec_block H c \<sigma>))"
  using stm_grows_exec(2) [of H c] by (simp add: stm_grows_def)

text \<open>C25: Running the whole module from a fresh namespace never raises \<open>NameError\<close>, on every environment and from every process state: every name the script reads is bound earlier in the script or is the built-in \<open>print\<close>.\<close>

theorem module_no_name_error: "\<not> name_error (fst (run_module H st))"
proof -
  have "defass_block module_ast (dom (globals (init_interp H st))) \<noteq> None"
    by (simp add: module_ast_cells defass_block_append defass_cells init_interp_def fresh_globals_def)
  then show ?thesis unfolding run_module_def by (rule cell_no_name_error)
qed

section \<open>The namespace a complete run leaves\<close>

lemma exec_block_append_Inr:
  "fst (exec_block H c \<sigma>) = Inr u \<Longrightarrow> exec_block H (c @ d) \<sigma> = exec_block H d (snd (exec_block H c \<sigma>))"
  by (cases "exec_block H c \<sigma>") (simp add: exec_block_append st_bind_def)

text \<open>C28: When the module runs to completion (the install exits with status 0, \<open>dbt.version\<close> imports and defines \<open>__version__\<close>, and \<open>pip list\<close> writes well-formed UTF-8), it leaves the namespace it started from (the model's starting namespace binds only \<open>__name__\<close>) bound at exactly nine more names: the docstring, the three modules, \<open>result\<close> holding the \<open>CompletedProcess\<close> of \<open>pip list\<close> with its decoded output, the configuration text, the command list, and the two loop variables, which keep their last values: \<open>line\<close> is the last piece of the split output (the empty string when the output ends with a newline) and \<open>cmd\<close> the last command.\<close>

theorem module_final_globals:
  assumes sub: "find_module H (world st) ''subprocess''"
    and x1: "exec H (install_args H) (world st) = (0, out1, err1, w1)"
    and imp: "dbt_import H w1 = Inr v"
    and x2: "exec H (list_args H) w1 = (rc, out2, err2, w2)"
    and valid: "utf8_valid out2" "utf8_valid err2"
  shows "fst (run_module H st) = Inr ()
    \<and> globals (snd (run_module H st)) =
        fresh_globals(''__doc__'' \<mapsto> VStr module_doc, ''sys'' \<mapsto> VModule ''sys'',
          ''subprocess'' \<mapsto> VModule ''subprocess'', ''dbt'' \<mapsto> VModule ''dbt'',
          ''result'' \<mapsto> VCompleted \<lparr>cp_args = list_args H, returncode = rc,
                            cp_stdout = translate_newlines out2, cp_stderr = translate_newlines err2\<rparr>,
          ''line'' \<mapsto> VStr (last (py_split nl (translate_newlines out2))),
          ''packages_content'' \<mapsto> VStr packages_content,
          ''commands'' \<mapsto> VList (map VStr commands),
          ''cmd'' \<mapsto> VStr ''dbt build - Run everything'')"
proof -
  define \<sigma>1 where "\<sigma>1 = snd (exec_block H cell1_ast (init_interp H st))"
  define \<sigma>2 where "\<sigma>2 = snd (exec_block H cell2_ast \<sigma>1)"
  define \<sigma>3 where "\<sigma>3 = snd (exec_block H cell3_ast \<sigma>2)"
  define \<sigma>4 where "\<sigma>4 = snd (exec_block H cell4_ast \<sigma>3)"
  define \<sigma>5 where "\<sigma>5 = snd (exec_block H cell5_ast \<sigma>4)"
  note ch = module_chain [OF sub \<sigma>1_def \<sigma>2_def \<sigma>3_def \<sigma>4_def]
  note c1 = cell1_ast_run [OF ch(1-4), folded \<sigma>1_def]
  have p1: "globals \<sigma>1 ''print'' = None" by (simp add: ch(5) fresh_globals_def)
  from imp have found: "find_module H w1 ''dbt''" "find_module H w1 ''dbt.version''"
    by (auto simp: dbt_import_def split: if_splits)
  have f1: "fst (exec_block H cell1_ast (init_interp H st)) = Inr ()"
    and w1: "world (pstate \<sigma>1) = w1"
    using c1(1,2) x1 by (simp_all add: cell1_install_ok)
  note c2 = cell2_ast_run [where H = H, OF p1 ch(6,7), folded \<sigma>2_def]
  have f2: "fst (exec_block H cell2_ast \<sigma>1) = Inr ()"
    and w2: "world (pstate \<sigma>2) = w1"
    and g2: "globals \<sigma>2 = (globals \<sigma>1)(''dbt'' \<mapsto> VModule ''dbt'')"
    using c2 w1 imp found by (simp_all add: cell2_version_ok)
  have cap: "capture_error out2 err2 = None" using valid by (simp add: capture_error_None_iff)
  note c3 = cell3_ast_ok [OF ch(8-12) x2 [folded w2] cap, folded \<sigma>3_def]
  have f3: "fst (exec_block H cell3_ast \<sigma>2) = Inr ()"
    using c3(1) x2 w2 cap by (simp add: cell3_list_run)
  note c4 = cell4_ast_run [where H = H, OF ch(13), folded \<sigma>4_def]
  have p4: "globals \<sigma>4 ''print'' = None" by (simp add: ch(13,14))
  note c5 = cell5_ast_run [where H = H, OF p4, folded \<sigma>5_def]
  have f4: "fst (exec_block H cell4_ast \<sigma>3) = Inr ()"
    by (simp add: c4(1) cell4_packages_def py_bind_def py_print_def py_return_def)
  have f5: "fst (exec_block H cell5_ast \<sigma>4) = Inr ()"
    by (simp add: c5(1) cell5_details_def py_bind_def py_print_def py_return_def)
  have p5: "globals \<sigma>5 ''print'' = None" using c5(3) p4 by simp
  have run: "run_module H st = exec_block H (cell6_ast @ []) \<sigma>5"
    unfolding run_module_def module_ast_cells
    by (simp only: exec_block_append_Inr [OF f1] exec_block_append_Inr [OF f2, folded \<sigma>1_def]
        exec_block_append_Inr [OF f3] exec_block_append_Inr [OF f4] exec_block_append_Inr [OF f5]
        \<sigma>1_def [symmetric] \<sigma>2_def [symmetric] \<sigma>3_def [symmetric] \<sigma>4_def [symmetric] \<sigma>5_def [symmetric])
  show ?thesis
    by (simp add: run cell6_ast_run [where H = H, OF p5] c5(3) c4(3) c3(3) g2 c1(3) st_return_def)
      (simp add: init_interp_def)
qed

section \<open>Witnesses\<close>

theorem module_refines_notebook_witness:
  "fst (run_module (example_host 1 (Some ''1.7.1'') []) example_state)
     = fst (notebook (example_host 1 (Some ''1.7.1'') []) example_state)
   \<and> pstate (snd (run_module (example_host 1 (Some ''1.7.1'') []) example_state))
     = snd (notebook (example_host 1 (Some ''1.7.1'') []) example_state)"
  using module_refines_notebook [of "example_host 1 (Some ''1.7.1'') []" example_state]
  by (simp add: example_host_def example_state_def)

theorem module_no_name_error_witness:
  "\<not> name_error (fst (run_module (example_host 0 None []) example_state))"
  by (rule module_no_name_error)

lemma example_listing_split:
  "last (py_split nl (translate_newlines example_listing)) = []"
proof -
  have "cr \<notin> set example_listing" by (simp add: example_listing_def cr_def nl_def)
  moreover have "py_split nl example_listing = [''Package         Version'', ''--------------- -------'',
              ''dbt-core        1.7.1'', ''requests        2.31.0'', ''DBT-Snowflake   1.7.1''] @ [[]]"
    unfolding example_listing_def by (rule py_split_printed) (simp add: nl_def)
  ultimately show ?thesis by (simp add: translate_newlines_no_cr)
qed

theorem module_final_globals_witness:
  "fst (run_module (example_host 0 (Some ''1.7.1'') example_listing) example_state) = Inr ()
   \<and> globals (snd (run_module (example_host 0 (Some ''1.7.1'') example_listing) example_state)) ''line''
       = Some (VStr [])
   \<and> globals (snd (run_module (example_host 0 (Some ''1.7.1'') example_listing) example_state)) ''cmd''
       = Some (VStr ''dbt build - Run everything'')"
  using module_final_globals [of "example_host 0 (Some ''1.7.1'') example_listing" example_state "[]" "[]"
      "()" "''1.7.1''" 0 example_listing "[]" "()"]
  by (simp add: example_simps example_listing_ascii utf8_valid_ascii example_listing_split)

end
