(* ===== verification/Session.thy ===== *)
theory Session
  imports Module
begin

text \<open>
  The notebook's interactive use: the kernel runs the cells the user asks for, in any
  order and any number of times, against one module namespace (\<open>run_session\<close>).
  The theory settles which orders of running the cells raise \<open>NameError\<close> (cell 3
  reads names only cell 1 binds), and shows, with the frame lemmas of
  \<^theory_text>\<open>Interp\<close> and the invariant \<open>dbt_linked\<close>, that \<open>sys.modules\<close> answers
  every later \<open>import dbt.version\<close>: a re-run of cell 2 prints what its first
  completed run printed, whatever was installed in between.
\<close>

section \<open>Running cells in a session\<close>

text \<open>
  Cell \<open>i\<close> (numbered from 1 as in the source's comments). In a session the kernel
  runs the cells the user asks for, in that order, each against the namespace the
  previous ones left; a cell that raises ends only that cell.
\<close>

definition cell_ast :: "nat \<Rightarrow> stmt list" where
  "cell_ast i = (if 1 \<le> i \<and> i \<le> length module_cells then module_cells ! (i - 1) else [])"

fun run_session :: "'w host \<Rightarrow> nat list \<Rightarrow> 'w interp \<Rightarrow> (py_error + unit) list \<times> 'w interp" where
  "run_session H [] \<sigma> = ([], \<sigma>)"
| "run_session H (i # is) \<sigma> =
     (case exec_block H (cell_ast i) \<sigma> of
        (r, \<sigma>') \<Rightarrow> (case run_session H is \<sigma>' of (rs, \<sigma>'') \<Rightarrow> (r # rs, \<sigma>'')))"

text \<open>
  The link \<open>import dbt.version\<close> leaves between the two modules: once
  \<open>dbt.version\<close> is in \<open>sys.modules\<close>, the package \<open>dbt\<close> is too, with the
  submodule as its attribute \<open>version\<close>.
\<close>

definition dbt_linked :: "'w interp \<Rightarrow> bool" where
  "dbt_linked \<sigma> \<longleftrightarrow>
     modules \<sigma> ''dbt.version'' = None
     \<or> (\<exists>d. modules \<sigma> ''dbt'' = Some d \<and> d ''version'' = Some (VModule ''dbt.version''))"

text \<open>
  An environment for re-running the install: \<open>dbt\<close> 1.6.0 is installed at start-up,
  and the install of cell 1 replaces it by 1.7.1; the world is the installed version.
\<close>

definition reinstall_host :: "pystr host" where
  "reinstall_host =
     \<lparr>executable = ''/usr/bin/python3'',
      exec = (\<lambda>args w. if args = [''/usr/bin/python3'', ''-m'', ''pip'', ''install'', ''dbt-snowflake==1.7.1'', ''-q'']
                       then (0, [], [], ''1.7.1'') else (0, [], [], w)),
      find_module = (\<lambda>_ _. True), import_version = (\<lambda>w. Some w)\<rparr>"

definition preinstalled_state :: "pystr proc" where
  "preinstalled_state = \<lparr>stdout = [], stderr = [], spawned = [], world = ''1.6.0''\<rparr>"

text \<open>The definite-assignment analysis of a cell by its number.\<close>

lemma defass_cell_ast:
  "i \<noteq> 3 \<Longrightarrow> defass_block (cell_ast i) A \<noteq> None"
  "''sys'' \<in> A \<Longrightarrow> ''subprocess'' \<in> A \<Longrightarrow> defass_block (cell_ast 3) A \<noteq> None"
  by (auto simp: cell_ast_def module_cells_def defass_cells nth_Cons' split: if_splits)

section \<open>Which orders raise \<open>NameError\<close>\<close>

text \<open>
  Cell 1 binds \<open>sys\<close> and \<open>subprocess\<close> before anything in it can raise: its first
  three statements complete whenever \<open>sys\<close> is loaded and \<open>subprocess\<close> is loaded
  or can be found, so the names stay bound even when the install fails.
\<close>

lemma cell1_binds:
  assumes "modules \<sigma> ''sys'' \<noteq> None"
    and "modules \<sigma> ''subprocess'' = None \<Longrightarrow> find_module H (world (pstate \<sigma>)) ''subprocess''"
  shows "{''sys'', ''subprocess''} \<subseteq> dom (globals (snd (exec_block H cell1_ast \<sigma>)))"
proof -
  obtain \<sigma>3 where e3: "exec_block H (take 3 cell1_ast) \<sigma> = (Inr (), \<sigma>3)"
    and d3: "{''sys'', ''subprocess''} \<subseteq> dom (globals \<sigma>3)"
    using assms
    by (cases "modules \<sigma> ''subprocess''")
       (auto simp: cell1_ast_def interp_run_defs find_and_load_def qualify_def)
  have "exec_block H cell1_ast \<sigma> = exec_block H (take 3 cell1_ast @ drop 3 cell1_ast) \<sigma>"
    by simp
  also have "\<dots> = exec_block H (drop 3 cell1_ast) \<sigma>3"
    unfolding exec_block_append st_bind_def e3 by simp
  finally have "exec_block H cell1_ast \<sigma> = exec_block H (drop 3 cell1_ast) \<sigma>3" .
  with d3 exec_block_grows [of \<sigma>3 H "drop 3 cell1_ast"] show ?thesis
    by (auto simp: grows_def)
qed

text \<open>
  The invariant of a session: once cell 1 has run, \<open>sys\<close> and \<open>subprocess\<close> are
  bound; \<open>sys\<close> stays loaded.
\<close>

lemma session_no_name_error_from:
  assumes "\<forall>w. find_module H w ''subprocess''"
  shows "modules \<sigma> ''sys'' \<noteq> None \<Longrightarrow> (b \<longrightarrow> {''sys'', ''subprocess''} \<subseteq> dom (globals \<sigma>)) \<Longrightarrow>
    \<forall>k < length cs. cs ! k = 3 \<longrightarrow> b \<or> 1 \<in> set (take k cs) \<Longrightarrow>
    \<forall>r \<in> set (fst (run_session H cs \<sigma>)). \<not> name_error r"
proof (induction cs arbitrary: \<sigma> b)
  case Nil
  then show ?case by simp
next
  case (Cons i cs)
  define \<sigma>' where "\<sigma>' = snd (exec_block H (cell_ast i) \<sigma>)"
  have g: "grows \<sigma> \<sigma>'" unfolding \<sigma>'_def by (rule exec_block_grows)
  have "defass_block (cell_ast i) (dom (globals \<sigma>)) \<noteq> None"
  proof (cases "i = 3")
    case True
    with Cons.prems(3) have b by (metis length_greater_0_conv list.discI nth_Cons_0 take0 empty_iff list.set(1))
    with Cons.prems(2) True show ?thesis by (simp add: defass_cell_ast(2))
  qed (rule defass_cell_ast(1))
  then have ne: "\<not> name_error (fst (exec_block H (cell_ast i) \<sigma>))" by (rule cell_no_name_error)
  have sys': "modules \<sigma>' ''sys'' \<noteq> None" using Cons.prems(1) g by (auto simp: grows_def)
  have b': "b \<or> i = 1 \<longrightarrow> {''sys'', ''subprocess''} \<subseteq> dom (globals \<sigma>')"
  proof
    assume "b \<or> i = 1"
    then show "{''sys'', ''subprocess''} \<subseteq> dom (globals \<sigma>')"
    proof
      assume b
      with Cons.prems(2) g show ?thesis by (auto simp: grows_def)
    next
      assume "i = 1"
      with cell1_binds [OF Cons.prems(1)] assms show ?thesis
        by (simp add: \<sigma>'_def cell_ast_def module_cells_def)
    qed
  qed
  have order': "\<forall>k < length cs. cs ! k = 3 \<longrightarrow> (b \<or> i = 1) \<or> 1 \<in> set (take k cs)"
  proof (intro allI impI)
    fix k assume "k < length cs" "cs ! k = 3"
    with Cons.prems(3) [rule_format, of "Suc k"] show "(b \<or> i = 1) \<or> 1 \<in> set (take k cs)" by auto
  qed
  have "\<forall>r \<in> set (fst (run_session H cs \<sigma>')). \<not> name_error r"
    by (rule Cons.IH [OF sys' b' order'])
  with ne show ?case
    by (simp add: \<sigma>'_def split: prod.split) (metis fst_conv snd_conv)
qed

text \<open>C26: In a notebook session whose environment always finds the standard library's \<open>subprocess\<close>, running the cells in any order and any number of times never raises \<open>NameError\<close>, provided every run of cell 3 comes after some run of cell 1 (whether or not that run of cell 1 raised): cell 3 is the only cell that reads names another cell binds, \<open>sys\<close> and \<open>subprocess\<close>, and cell 1 binds them before its install can fail.\<close>

theorem session_no_name_error:
  assumes "\<forall>w. find_module H w ''subprocess''"
    and "\<forall>k < length cs. cs ! k = 3 \<longrightarrow> 1 \<in> set (take k cs)"
  shows "\<forall>r \<in> set (fst (run_session H cs (init_interp H st))). \<not> name_error r"
  using session_no_name_error_from [OF assms(1), of "init_interp H st" False cs] assms(2)
  by (simp add: init_interp_def)

section \<open>Re-running cell 2: the import cache\<close>

lemma cell_ast_cases:
  "cell_ast i = [] \<or> (i = 2 \<and> cell_ast i = cell2_ast)
   \<or> (i \<noteq> 2 \<and> cell_ast i \<in> {cell1_ast, cell3_ast, cell4_ast, cell5_ast, cell6_ast})"
proof -
  have "i \<in> {1, 2, 3, 4, 5, 6} \<or> \<not> (1 \<le> i \<and> i \<le> 6)" by auto
  then show ?thesis by (auto simp: cell_ast_def module_cells_def)
qed

text \<open>
  No cell binds \<open>print\<close>; only cell 2 touches the entries \<open>dbt\<close> and
  \<open>dbt.version\<close> of \<open>sys.modules\<close>.
\<close>

lemma cell_frame_keys:
  "''print'' \<notin> binds_block (cell_ast i)"
  "i \<noteq> 2 \<Longrightarrow> k \<in> {''dbt'', ''dbt.version''} \<Longrightarrow> k \<notin> import_keys_block (cell_ast i)"
  using cell_ast_cases [of i]
  by (auto simp: cell1_ast_def cell2_ast_def cell3_ast_def cell4_ast_def cell5_ast_def cell6_ast_def
      dbt_filter_body_def commands_body_def qualify_def)

lemma dbt_linked_cong:
  "modules \<sigma>' ''dbt'' = modules \<sigma> ''dbt'' \<Longrightarrow> modules \<sigma>' ''dbt.version'' = modules \<sigma> ''dbt.version''
   \<Longrightarrow> dbt_linked \<sigma>' = dbt_linked \<sigma>"
  by (simp add: dbt_linked_def)

text \<open>
  \<open>import dbt.version\<close> keeps the link; when it completes, \<open>dbt.version\<close> is loaded;
  when \<open>dbt.version\<close> was loaded already it looks nothing up and changes nothing. It
  never touches the process state.
\<close>

lemma import_dbt_version:
  assumes "dbt_linked \<sigma>" and "import_path H None [''dbt'', ''version''] \<sigma> = (r, \<sigma>1)"
  shows "dbt_linked \<sigma>1" "pstate \<sigma>1 = pstate \<sigma>" "globals \<sigma>1 = globals \<sigma>"
    "r = Inr () \<Longrightarrow> modules \<sigma>1 ''dbt.version'' \<noteq> None"
    "modules \<sigma> ''dbt.version'' \<noteq> None \<Longrightarrow> r = Inr () \<and> \<sigma>1 = \<sigma>"
  using assms
  by (auto simp: dbt_linked_def st_bind_def find_and_load_def qualify_def Let_def st_return_def
           split: if_splits option.splits)

lemma cell2_ast_import:
  "exec_block H cell2_ast =
     st_bind (import_path H None [''dbt'', ''version''])
       (\<lambda>_. st_bind (store_name ''dbt'' (VModule ''dbt'')) (\<lambda>_. exec_block H (tl cell2_ast)))"
  by (simp only: cell2_ast_def exec_block.simps exec_stmt.simps list.sel st_bind_assoc)

text \<open>
  The \<open>print\<close> of cell 2 once \<open>dbt\<close> is bound and \<open>dbt.version\<close> is loaded: it prints the
  \<open>__version__\<close> the module's dictionary holds, whatever is installed now.
\<close>

lemma cell2_print_loaded:
  assumes "globals \<sigma> ''print'' = None" "globals \<sigma> ''dbt'' = Some (VModule ''dbt'')"
    "modules \<sigma> ''dbt'' = Some d"
    "d ''version'' = Some (VModule ''dbt.version'')" "modules \<sigma> ''dbt.version'' = Some ns"
  shows "exec_block H (tl cell2_ast) \<sigma> =
    (case ns ''__version__'' of
       None \<Rightarrow> (Inl (AttributeError ''__version__''), \<sigma>)
     | Some x \<Rightarrow>
         (case to_str x of
            None \<Rightarrow> (Inl (Unsupported ''format''), \<sigma>)
          | Some s \<Rightarrow> (Inr (), \<sigma>\<lparr>pstate := (pstate \<sigma>)\<lparr>stdout := stdout (pstate \<sigma>) @ (''dbt version: '' @ s) @ [nl]\<rparr>\<rparr>)))"
  using assms
  by (auto simp: cell2_ast_def interp_run_defs st_raise_def split: option.split)



text \<open>
  Every cell keeps the link and leaves \<open>print\<close> unbound; once \<open>dbt.version\<close> is
  loaded, its dictionary stays as it is.
\<close>

lemma cell_keeps_cache:
  assumes l: "dbt_linked \<sigma>" and p: "globals \<sigma> ''print'' = None"
    and run: "exec_block H (cell_ast i) \<sigma> = (r, \<sigma>1)"
  shows "dbt_linked \<sigma>1 \<and> globals \<sigma>1 ''print'' = None
    \<and> (modules \<sigma> ''dbt.version'' = Some ns \<longrightarrow> modules \<sigma>1 ''dbt.version'' = Some ns)"
proof -
  have p1: "globals \<sigma>1 ''print'' = None"
    using exec_block_frame(1) [OF run cell_frame_keys(1)] p by simp
  show ?thesis
  proof (cases "i = 2")
    case False
    have "modules \<sigma>1 k = modules \<sigma> k" if "k \<in> {''dbt'', ''dbt.version''}" for k
      using exec_block_frame(2) [OF run cell_frame_keys(2) [OF False that]] .
    with l p1 show ?thesis using dbt_linked_cong [of \<sigma>1 \<sigma>] by simp
  next
    case True
    then have c2: "cell_ast i = cell2_ast" by (simp add: cell_ast_def module_cells_def)
    obtain ri \<sigma>a where imp: "import_path H None [''dbt'', ''version''] \<sigma> = (ri, \<sigma>a)"
      by (cases "import_path H None [''dbt'', ''version''] \<sigma>")
    note I = import_dbt_version [OF l imp]
    define \<sigma>b where "\<sigma>b = \<sigma>a\<lparr>globals := (globals \<sigma>a)(''dbt'' \<mapsto> VModule ''dbt'')\<rparr>"
    have "modules \<sigma>1 = modules \<sigma>a"
    proof (cases ri)
      case (Inl e)
      with run c2 imp show ?thesis by (simp add: cell2_ast_import st_bind_def)
    next
      case (Inr u)
      with run c2 imp have "exec_block H (tl cell2_ast) \<sigma>b = (r, \<sigma>1)"
        by (simp add: cell2_ast_import st_bind_def store_name_def \<sigma>b_def)
      from exec_block_frame(2) [OF this] show ?thesis
        by (auto simp: cell2_ast_def \<sigma>b_def fun_eq_iff)
    qed
    with I(1,5) p1 show ?thesis by (auto simp: dbt_linked_def)
  qed
qed

lemma session_keeps_cache:
  "dbt_linked \<sigma> \<Longrightarrow> globals \<sigma> ''print'' = None \<Longrightarrow> \<sigma>' = snd (run_session H cs \<sigma>) \<Longrightarrow>
   dbt_linked \<sigma>' \<and> globals \<sigma>' ''print'' = None
   \<and> (modules \<sigma> ''dbt.version'' = Some ns \<longrightarrow> modules \<sigma>' ''dbt.version'' = Some ns)"
proof (induction cs arbitrary: \<sigma>)
  case (Cons i cs)
  obtain r \<sigma>1 where run: "exec_block H (cell_ast i) \<sigma> = (r, \<sigma>1)"
    by (cases "exec_block H (cell_ast i) \<sigma>")
  note c = cell_keeps_cache [OF Cons.prems(1,2) run, of ns]
  have "\<sigma>' = snd (run_session H cs \<sigma>1)" using Cons.prems(3) run by (simp split: prod.split)
  with c Cons.IH [of \<sigma>1] show ?case by simp
qed simp


lemma run_session_Cons:
  "run_session H (i # is) \<sigma> =
     (fst (exec_block H (cell_ast i) \<sigma>) # fst (run_session H is (snd (exec_block H (cell_ast i) \<sigma>))),
      snd (run_session H is (snd (exec_block H (cell_ast i) \<sigma>))))"
  by (simp split: prod.split)

lemma session_from_init:
  "\<sigma> = snd (run_session H cs (init_interp H st)) \<Longrightarrow> dbt_linked \<sigma> \<and> globals \<sigma> ''print'' = None"
  using session_keeps_cache [of "init_interp H st" \<sigma> H cs]
  by (simp add: init_interp_def dbt_linked_def fresh_globals_def)

text \<open>
  A session changes a global only through a cell that binds it: the frame lemma of
  \<^theory_text>\<open>Interp\<close>, run over the cells in turn.
\<close>

lemma session_frame:
  "x \<notin> (\<Union>i \<in> set cs. binds_block (cell_ast i)) \<Longrightarrow> globals (snd (run_session H cs \<sigma>)) x = globals \<sigma> x"
proof (induction cs arbitrary: \<sigma>)
  case (Cons i cs)
  obtain r \<sigma>1 where run: "exec_block H (cell_ast i) \<sigma> = (r, \<sigma>1)"
    by (cases "exec_block H (cell_ast i) \<sigma>")
  with Cons exec_block_frame(1) [OF run, of x] show ?case
    by (simp add: run_session_Cons del: run_session.simps(2))
qed simp

lemma run_session_length [simp]: "length (fst (run_session H cs \<sigma>)) = length cs"
  by (induction cs arbitrary: \<sigma>) (simp_all add: run_session_Cons del: run_session.simps(2))

text \<open>The \<open>k\<close>-th result of a session is that of its \<open>k\<close>-th cell, run where the cells before it left the namespace.\<close>

lemma run_session_nth:
  "k < length cs \<Longrightarrow> fst (run_session H cs \<sigma>) ! k =
     fst (exec_block H (cell_ast (cs ! k)) (snd (run_session H (take k cs) \<sigma>)))"
proof (induction cs arbitrary: \<sigma> k)
  case (Cons i cs)
  then show ?case by (cases k) (simp_all add: run_session_Cons del: run_session.simps(2))
qed simp

lemma cell_binds_subprocess:
  assumes "i \<noteq> 1" shows "''subprocess'' \<notin> binds_block (cell_ast i)"
proof -
  have "i \<in> {2, 3, 4, 5, 6} \<or> \<not> (1 \<le> i \<and> i \<le> 6)" using assms by auto
  then show ?thesis
    by (auto simp: cell_ast_def module_cells_def cell2_ast_def cell3_ast_def cell4_ast_def cell5_ast_def
        cell6_ast_def dbt_filter_body_def commands_body_def)
qed

lemma cell3_unbound_subprocess:
  "globals \<sigma> ''print'' = None \<Longrightarrow> globals \<sigma> ''subprocess'' = None \<Longrightarrow>
   fst (exec_block H cell3_ast \<sigma>) = Inl (NameError ''subprocess'')"
  by (simp add: cell3_ast_def interp_run_defs)

section \<open>Properties of sessions\<close>

text \<open>C9: Cells 4, 5 and 6 do the same wherever they run in a session: after any cells in any order, each writes exactly what the cell-level model of \<^theory_text>\<open>Reporter\<close> writes (the packages block, the details block, the seven commands and the closing line), and cell 6 completes. No cell binds \<open>print\<close>, so the built-in answers every call.\<close>

theorem static_cells_any_session:
  assumes "\<sigma> = snd (run_session H cs (init_interp H st))"
  shows "fst (exec_block H (cell_ast 4) \<sigma>) = fst (cell4_packages (pstate \<sigma>))
    \<and> pstate (snd (exec_block H (cell_ast 4) \<sigma>)) = snd (cell4_packages (pstate \<sigma>))
    \<and> fst (exec_block H (cell_ast 5) \<sigma>) = fst (cell5_details (pstate \<sigma>))
    \<and> pstate (snd (exec_block H (cell_ast 5) \<sigma>)) = snd (cell5_details (pstate \<sigma>))
    \<and> fst (exec_block H (cell_ast 6) \<sigma>) = Inr ()
    \<and> pstate (snd (exec_block H (cell_ast 6) \<sigma>)) =
        snd (py_seq [cell6_commands, py_print complete_msg] (pstate \<sigma>))"
proof -
  have p: "globals \<sigma> ''print'' = None" using session_from_init [OF assms] by simp
  have c: "cell_ast 4 = cell4_ast" "cell_ast 5 = cell5_ast" "cell_ast 6 = cell6_ast"
    by (simp_all add: cell_ast_def module_cells_def)
  show ?thesis
    unfolding c using cell4_ast_run(1,2) [OF p] cell5_ast_run(1,2) [OF p] cell6_ast_run [OF p, of H]
    by simp
qed

text \<open>C27: In a fresh session, a run of cell 3 that no run of cell 1 precedes raises \<open>NameError\<close> for \<open>subprocess\<close>, the first name the call \<open>subprocess.run(...)\<close> reads, whatever cells ran before it and in whatever environment: only cell 1 binds \<open>subprocess\<close>.\<close>

theorem cell3_name_error_without_cell1:
  assumes "k < length cs" "cs ! k = 3" "1 \<notin> set (take k cs)"
  shows "fst (run_session H cs (init_interp H st)) ! k = Inl (NameError ''subprocess'')"
proof -
  define \<sigma> where "\<sigma> = snd (run_session H (take k cs) (init_interp H st))"
  have p: "globals \<sigma> ''print'' = None" using session_from_init [OF \<sigma>_def] by simp
  have "''subprocess'' \<notin> (\<Union>i \<in> set (take k cs). binds_block (cell_ast i))"
    using assms(3) by (metis UN_E cell_binds_subprocess)
  then have s: "globals \<sigma> ''subprocess'' = None"
    unfolding \<sigma>_def by (simp add: session_frame init_interp_def fresh_globals_def)
  have "cell_ast (cs ! k) = cell3_ast" using assms(2) by (simp add: cell_ast_def module_cells_def)
  then have "fst (run_session H cs (init_interp H st)) ! k = fst (exec_block H cell3_ast \<sigma>)"
    unfolding \<sigma>_def by (simp only: run_session_nth [OF assms(1)])
  with cell3_unbound_subprocess [OF p s, of H] show ?thesis by simp
qed

text \<open>C10: \<open>sys.modules\<close> caches the import of cell 2. In a session, once a run of cell 2 has completed, every later run of it, after any cells in any order (re-runs of the install among them), completes and prints exactly the line the first run printed: the version of the package as it was when first imported, not the one installed now.\<close>

theorem cell2_rerun_cached:
  assumes reach: "\<sigma> = snd (run_session H cs0 (init_interp H st))"
    and first: "fst (exec_block H cell2_ast \<sigma>) = Inr ()"
    and later: "\<sigma>' = snd (run_session H cs (snd (exec_block H cell2_ast \<sigma>)))"
  shows "\<exists>D. stdout (pstate (snd (exec_block H cell2_ast \<sigma>))) = stdout (pstate \<sigma>) @ D
    \<and> exec_block H cell2_ast \<sigma>' =
        (Inr (), \<sigma>'\<lparr>globals := (globals \<sigma>')(''dbt'' \<mapsto> VModule ''dbt''),
                   pstate := (pstate \<sigma>')\<lparr>stdout := stdout (pstate \<sigma>') @ D\<rparr>\<rparr>)"
proof -
  from session_from_init [OF reach] have l: "dbt_linked \<sigma>" and p: "globals \<sigma> ''print'' = None"
    by simp_all
  obtain ri \<sigma>a where imp: "import_path H None [''dbt'', ''version''] \<sigma> = (ri, \<sigma>a)"
    by (cases "import_path H None [''dbt'', ''version''] \<sigma>")
  note I = import_dbt_version [OF l imp]
  define \<sigma>b where "\<sigma>b = \<sigma>a\<lparr>globals := (globals \<sigma>a)(''dbt'' \<mapsto> VModule ''dbt'')\<rparr>"
  have ri: "ri = Inr ()"
    using first imp by (cases ri) (auto simp: cell2_ast_import st_bind_def)
  then have e1: "exec_block H cell2_ast \<sigma> = exec_block H (tl cell2_ast) \<sigma>b"
    using imp by (simp add: cell2_ast_import st_bind_def store_name_def \<sigma>b_def)
  obtain ns where ns: "modules \<sigma>a ''dbt.version'' = Some ns" using I(4) ri by blast
  with I(1) obtain d where d: "modules \<sigma>a ''dbt'' = Some d" "d ''version'' = Some (VModule ''dbt.version'')"
    by (auto simp: dbt_linked_def)
  have pb: "globals \<sigma>b ''print'' = None" "globals \<sigma>b ''dbt'' = Some (VModule ''dbt'')"
    using p I(3) by (simp_all add: \<sigma>b_def)
  note L = cell2_print_loaded [OF pb d [folded \<sigma>b_def [THEN arg_cong [where f = modules], simplified]]]
  obtain x s where xs: "ns ''__version__'' = Some x" "to_str x = Some s"
    using first e1 L [OF ns [folded \<sigma>b_def [THEN arg_cong [where f = modules], simplified]], of H]
    by (auto split: option.splits)
  define D where "D = (''dbt version: '' @ s) @ [nl]"
  have r1: "exec_block H cell2_ast \<sigma> = (Inr (), \<sigma>b\<lparr>pstate := (pstate \<sigma>b)\<lparr>stdout := stdout (pstate \<sigma>b) @ D\<rparr>\<rparr>)"
    using e1 L [of ns H] ns xs by (simp add: \<sigma>b_def D_def)
  have "dbt_linked (snd (exec_block H cell2_ast \<sigma>))" "globals (snd (exec_block H cell2_ast \<sigma>)) ''print'' = None"
    "modules (snd (exec_block H cell2_ast \<sigma>)) ''dbt.version'' = Some ns"
    using r1 I(1) p I(3) ns by (simp_all add: \<sigma>b_def dbt_linked_def)
  from session_keeps_cache [OF this(1,2) later, of ns] this(3)
  have l': "dbt_linked \<sigma>'" and p': "globals \<sigma>' ''print'' = None" and ns': "modules \<sigma>' ''dbt.version'' = Some ns"
    by simp_all
  then obtain d' where d': "modules \<sigma>' ''dbt'' = Some d'" "d' ''version'' = Some (VModule ''dbt.version'')"
    by (auto simp: dbt_linked_def)
  obtain rj \<sigma>c where imp': "import_path H None [''dbt'', ''version''] \<sigma>' = (rj, \<sigma>c)"
    by (cases "import_path H None [''dbt'', ''version''] \<sigma>'")
  from import_dbt_version(5) [OF l' imp'] ns' have "rj = Inr ()" "\<sigma>c = \<sigma>'" by simp_all
  with imp' have e2: "exec_block H cell2_ast \<sigma>' =
      exec_block H (tl cell2_ast) (\<sigma>'\<lparr>globals := (globals \<sigma>')(''dbt'' \<mapsto> VModule ''dbt'')\<rparr>)"
    by (simp add: cell2_ast_import st_bind_def store_name_def)
  have "exec_block H (tl cell2_ast) (\<sigma>'\<lparr>globals := (globals \<sigma>')(''dbt'' \<mapsto> VModule ''dbt'')\<rparr>) =
      (Inr (), \<sigma>'\<lparr>globals := (globals \<sigma>')(''dbt'' \<mapsto> VModule ''dbt''),
                 pstate := (pstate \<sigma>')\<lparr>stdout := stdout (pstate \<sigma>') @ D\<rparr>\<rparr>)"
    using cell2_print_loaded [of "\<sigma>'\<lparr>globals := (globals \<sigma>')(''dbt'' \<mapsto> VModule ''dbt'')\<rparr>" d' ns H] p' d' ns' xs
    by (simp add: D_def)
  with e2 r1 I(2) show ?thesis by (auto simp: \<sigma>b_def)
qed

section \<open>Witnesses\<close>

theorem session_no_name_error_witness:
  "list_all (\<lambda>r. \<not> name_error r)
     (fst (run_session (example_host 0 (Some ''1.7.1'') example_listing) [1, 3, 3, 2]
        (init_interp (example_host 0 (Some ''1.7.1'') example_listing) example_state)))"
  using session_no_name_error [of "example_host 0 (Some ''1.7.1'') example_listing" "[1, 3, 3, 2]" example_state]
  by (simp add: example_host_def less_Suc_eq list_all_iff)

theorem static_cells_any_session_witness:
  "fst (exec_block (example_host 0 (Some ''1.7.1'') example_listing) (cell_ast 6)
      (snd (run_session (example_host 0 (Some ''1.7.1'') example_listing) [3, 1]
         (init_interp (example_host 0 (Some ''1.7.1'') example_listing) example_state)))) = Inr ()"
  using static_cells_any_session [OF refl, of "example_host 0 (Some ''1.7.1'') example_listing" "[3, 1]" example_state]
  by simp

theorem cell3_name_error_without_cell1_witness:
  "2 < length [2, 4, 3::nat] \<and> [2, 4, 3::nat] ! 2 = 3 \<and> 1 \<notin> set (take 2 [2, 4, 3::nat])
   \<and> fst (run_session (example_host 0 (Some ''1.7.1'') example_listing) [2, 4, 3]
        (init_interp (example_host 0 (Some ''1.7.1'') example_listing) example_state)) ! 2
     = Inl (NameError ''subprocess'')"
  using cell3_name_error_without_cell1 [of 2 "[2, 4, 3]" "example_host 0 (Some ''1.7.1'') example_listing" example_state]
  by simp

lemma first_run:
  "fst (exec_block reinstall_host cell2_ast (init_interp reinstall_host preinstalled_state)) = Inr ()
   \<and> stdout (pstate (snd (exec_block reinstall_host cell2_ast (init_interp reinstall_host preinstalled_state))))
     = ''dbt version: 1.6.0'' @ [nl]"
  by (simp add: cell2_ast_def interp_run_defs init_interp_def preinstalled_state_def reinstall_host_def
     find_and_load_def qualify_def module_init_def fresh_globals_def)

theorem cell2_rerun_cached_witness:
  "let \<sigma>1 = snd (exec_block reinstall_host cell2_ast (init_interp reinstall_host preinstalled_state));
       \<sigma>' = snd (run_session reinstall_host [1] \<sigma>1)
   in import_version reinstall_host (world (pstate \<sigma>')) = Some ''1.7.1''
      \<and> fst (exec_block reinstall_host cell2_ast \<sigma>') = Inr ()
      \<and> stdout (pstate (snd (exec_block reinstall_host cell2_ast \<sigma>')))
          = stdout (pstate \<sigma>') @ ''dbt version: 1.6.0'' @ [nl]"
proof -
  define \<sigma>0 where "\<sigma>0 = init_interp reinstall_host preinstalled_state"
  define \<sigma>1 where "\<sigma>1 = snd (exec_block reinstall_host cell2_ast \<sigma>0)"
  define \<sigma>' where "\<sigma>' = snd (run_session reinstall_host [1] \<sigma>1)"
  have f: "fst (exec_block reinstall_host cell2_ast \<sigma>0) = Inr ()"
    and out: "stdout (pstate \<sigma>1) = ''dbt version: 1.6.0'' @ [nl]"
    using first_run by (simp_all add: \<sigma>0_def \<sigma>1_def)
  have s0: "\<sigma>0 = snd (run_session reinstall_host [] (init_interp reinstall_host preinstalled_state))"
    by (simp add: \<sigma>0_def)
  obtain D where D: "stdout (pstate \<sigma>1) = stdout (pstate \<sigma>0) @ D"
    and r: "exec_block reinstall_host cell2_ast \<sigma>' =
        (Inr (), \<sigma>'\<lparr>globals := (globals \<sigma>')(''dbt'' \<mapsto> VModule ''dbt''),
                   pstate := (pstate \<sigma>')\<lparr>stdout := stdout (pstate \<sigma>') @ D\<rparr>\<rparr>)"
    using cell2_rerun_cached [OF s0 f, of \<sigma>' "[1]"] by (auto simp: \<sigma>1_def \<sigma>'_def)
  have "D = ''dbt version: 1.6.0'' @ [nl]"
    using D out by (simp add: \<sigma>0_def init_interp_def preinstalled_state_def)
  moreover have "world (pstate \<sigma>') = ''1.7.1''"
  proof -
    have "globals \<sigma>1 ''print'' = None" "modules \<sigma>1 ''sys'' = Some (sys_ns reinstall_host)"
      "modules \<sigma>1 ''subprocess'' = None"
      by (simp_all add: \<sigma>1_def \<sigma>0_def cell2_ast_def interp_run_defs init_interp_def
          preinstalled_state_def reinstall_host_def find_and_load_def qualify_def module_init_def
          fresh_globals_def)
    moreover have "find_module reinstall_host (world (pstate \<sigma>1)) ''subprocess''"
      by (simp add: reinstall_host_def)
    ultimately have c1: "pstate (snd (exec_block reinstall_host cell1_ast \<sigma>1)) =
        snd (cell1_install reinstall_host (pstate \<sigma>1))"
      by (rule cell1_ast_run(2))
    have x: "exec reinstall_host (install_args reinstall_host) (world (pstate \<sigma>1)) = (0, [], [], ''1.7.1'')"
      by (simp add: reinstall_host_def install_args_def)
    moreover have "\<sigma>' = snd (exec_block reinstall_host cell1_ast \<sigma>1)"
      by (simp add: \<sigma>'_def cell_ast_def module_cells_def split: prod.split)
    ultimately show ?thesis using cell1_install_ok [OF x] c1 by simp
  qed
  ultimately show ?thesis
    using r unfolding Let_def \<sigma>0_def [symmetric] \<sigma>1_def [symmetric] \<sigma>'_def [symmetric]
    by (simp add: reinstall_host_def)
qed

end
