(* ===== verification/Spec2Isabelle.thy ===== *)
theory Spec2Isabelle
  imports PipModel Codepoints Session
begin

text \<open>
  \<^bold>\<open>A verification development of the notebook \<open>src/notebooks/dbt_package_lister.py\<close>.\<close>

  \<^bold>\<open>The program.\<close> One Python script run as six notebook cells and a closing
  \<open>print\<close>. Cell 1 prints a message, installs \<open>dbt-snowflake==1.7.1\<close> with
  \<open>subprocess.check_call([sys.executable, "-m", "pip", "install", ..., "-q"])\<close> and
  prints a success message; cell 2 imports \<open>dbt.version\<close> and prints its
  \<open>__version__\<close>; cell 3 runs \<open>pip list\<close> with \<open>subprocess.run(capture_output=True,
  text=True)\<close>, splits the captured text on newlines and prints, behind a bullet, every
  line whose lower-cased form contains \<open>dbt\<close>; cells 4 to 6 print fixed text (a
  \<open>packages.yml\<close> snippet, the details of \<open>dbt_utils\<close> between two rules of sixty
  \<open>=\<close>, and seven dbt commands). An exception (a failing install, a failing import,
  undecodable output of \<open>pip list\<close>) ends the script. The parts interact through the
  interpreter's two output streams, the children the script starts, the environment
  those children change (the installed packages), and the module namespace the cells
  share (cell 3 calls \<open>subprocess.run\<close> and reads \<open>sys.executable\<close>, which cell 1
  imports).

  \<^bold>\<open>Theories.\<close>
  \<^item> \<open>Prelude\<close>: the type names (\<open>pystr\<close> is a Python \<open>str\<close> as its UTF-8 bytes,
    \<open>argv\<close> a command line), the newline and carriage-return bytes, the UTF-8 spelling
    of the six non-ASCII glyphs of the source, the named collections \<open>py_defs\<close>
    and \<open>py_run\<close>, and generic lemmas shared by the components: searching the
    concatenation of the images of a list agrees with searching their letters.
  \<^item> \<open>PyStr\<close>: the \<open>str\<close> methods the script calls. \<open>py_split\<close>/\<open>split_loop\<close> is
    \<open>str.split(sep)\<close> for a one-character separator, written as CPython's scan;
    \<open>py_lower\<close> is \<open>str.lower\<close>; \<open>py_in\<close> is the operator \<open>in\<close>, a search
    (\<open>find_from\<close>) for the first occurrence; \<open>py_replace\<close> is \<open>str.replace\<close> (a
    \<^theory_text>\<open>function\<close> whose termination is proved with the measure \<open>length s\<close>);
    \<open>py_str_mul\<close> is \<open>str * n\<close>. \<open>py_join\<close> (\<open>sep.join\<close>) is the reference the
    split is specified against. Lemmas: both split/join round trips, the number of
    pieces, separator-free pieces, agreement of \<open>in\<close> with the library's
    \<open>sublist\<close>, and what \<open>replace\<close> removes.
  \<^item> \<open>Utf8\<close>: the strict UTF-8 codec that \<open>text=True\<close> applies to captured output.
    \<open>utf8_seq\<close> reads one well-formed sequence, \<open>utf8_dec\<close> (a \<^theory_text>\<open>function\<close>
    terminating on the measure \<open>length s\<close>) decodes a byte string or returns the
    position of the first undecodable byte, \<open>utf8_encode\<close> encodes. Lemmas: both
    round trips (so decoded text is faithfully kept as its bytes) and the error
    position.
  \<^item> \<open>Subprocess\<close>: the runtime. The interpreter's state is the record \<open>'w proc\<close>
    (standard output, standard error, the command lines of the children started so
    far, in order, and the world \<open>'w\<close>); a statement is a function \<open>('w, 'a) py\<close>
    from a state to \<open>py_error + 'a\<close> and the next state, sequenced by
    \<open>py_bind\<close>/\<open>py_seq\<close>, which stop at the first exception. The environment is the
    record \<open>'w host\<close>: the interpreter's path (\<open>sys.executable\<close>), \<open>exec\<close> (what a
    child does: exit status, bytes written to its standard output and standard error,
    next world), \<open>find_module\<close> (which modules the import system finds) and
    \<open>import_version\<close> (the \<open>__version__\<close> of \<open>dbt.version\<close>, if it defines one).
    \<open>check_call\<close> (inherited streams), \<open>run_capture_text\<close> with \<open>decode_text\<close>
    (strict decoding, then \<open>translate_newlines\<close>: universal newlines, stdout before
    stderr as \<open>Popen._communicate\<close> does), \<open>dbt_import\<close>/\<open>import_dbt_version\<close>
    (the package \<open>dbt\<close>, then \<open>dbt.version\<close>, then the attribute: the first missing
    one decides the \<open>ModuleNotFoundError\<close> or \<open>AttributeError\<close>) and \<open>py_print\<close>
    model the calls of the script. \<open>py_error\<close> holds the exceptions they raise, with
    \<open>NameError\<close> and \<open>TypeError\<close> for the statement-level model and \<open>Unsupported\<close>,
    which is not a Python exception but that model's answer for an operation outside
    the fragment it covers. Lemmas: the monad laws used, one run equation per
    statement (collection \<open>py_run\<close>), when \<open>run\<close> raises \<open>UnicodeDecodeError\<close>, and
    that captured text has no carriage return.
  \<^item> \<open>Reporter\<close>: the cells \<open>cell1_install\<close> to \<open>cell6_commands\<close>, the loop
    \<open>print_dbt_lines\<close> with its test \<open>is_dbt_line\<close>, and \<open>notebook\<close>, their
    composition in source order, which is how the notebook kernel runs the cells one
    after the other, stopping at the first exception. One run lemma per cell;
    \<open>notebook_cases\<close> splits every run into its four outcomes (install fails, import
    fails, listing undecodable, success); the main theorems give the exact result of
    the whole notebook on each outcome, which outcomes raise, the order of the
    children, and that both output streams are only extended.
  \<^item> \<open>Codepoints\<close>: why text may be kept as its bytes. Python's \<open>str\<close> is a
    sequence of code points; on a decoded listing, \<open>split('\n')\<close> on the bytes is the
    split on the code points (\<open>py_split_decoded\<close>), and the loop's test selects the
    same lines on the bytes as \<open>'dbt' in line.lower()\<close> on the code points, for every
    lower-case mapping that lowers ASCII as ASCII and maps no other code point to a
    string containing \<open>d\<close>, \<open>b\<close> or \<open>t\<close>, which Unicode's does not
    (\<open>listing_filter_decoded\<close>). Both rest on a generic lemma of \<open>Prelude\<close> on
    searching a concatenation of images.
  \<^item> \<open>Interp\<close>: the statement-level interpreter. A value \<open>pyval\<close> is one of the
    objects the script handles (\<open>None\<close>, booleans, integers, strings, lists, modules,
    built-in functions and bound methods, \<open>CompletedProcess\<close>); the state
    \<open>'w interp\<close> is the module's global namespace, \<open>sys.modules\<close> (each module's
    dictionary) and the process state of \<open>Subprocess\<close>. \<open>expr\<close> and \<open>stmt\<close> are
    a deep embedding of the constructs the script uses; \<open>eval_expr\<close> evaluates the
    operands of an operation from left to right (the callee of a call first) and
    applies it (\<open>getattr\<close>, \<open>py_call\<close>, \<open>format_parts\<close>, \<open>py_contains\<close>,
    \<open>py_mul\<close>); \<open>load_name\<close> looks a name up in the globals and then in
    \<open>builtins\<close>, raising \<open>NameError\<close>; \<open>import_path\<close>/\<open>find_and_load\<close> import a
    dotted name prefix by prefix through \<open>sys.modules\<close>, binding each submodule as
    an attribute of its package; \<open>exec_stmt\<close> runs expression statements,
    assignments, \<open>import\<close>, \<open>for\<close> (\<open>for_loop\<close>, whose target keeps its last
    value) and \<open>if\<close>. Operations the script does not use, and other argument forms of
    the ones it does, raise the model's \<open>Unsupported\<close> (not a Python exception).
    \<open>defass\<close>/\<open>defass_block\<close> is a definite-assignment analysis in the style of
    IMP's \<open>Def_Init\<close>; \<open>binds\<close> and \<open>import_keys\<close> give the names a statement
    may bind and the entries of \<open>sys.modules\<close> it may change (the prefixes of its
    import paths, \<open>path_keys\<close>). Lemmas: evaluation binds no name and loads no module;
    no statement unbinds a name or unloads a module; the analysis is sound: a block it
    accepts from bound names never raises \<open>NameError\<close> (\<open>defass_sound\<close>); and
    outside \<open>binds\<close> and \<open>import_keys\<close> a block changes nothing
    (\<open>stm_frame_exec\<close>).
  \<^item> \<open>Module\<close>: the script as statements: \<open>module_doc\<close> and \<open>cell1_ast\<close> to
    \<open>cell6_ast\<close> (with the loop bodies \<open>dbt_filter_body\<close> and \<open>commands_body\<close>)
    follow the source line by line, cell 1 starting with the docstring, which the
    compiler stores in \<open>__doc__\<close>, and cell 6 ending with the closing \<open>print\<close>.
    \<open>run_module\<close> runs them from a fresh namespace (\<open>init_interp\<close>: only
    \<open>__name__\<close> bound, only \<open>sys\<close> loaded). One run lemma per cell relates it to
    the cell of \<open>Reporter\<close>; composed by \<open>block_refines_append\<close>, they show that
    the statement-level run refines \<open>notebook\<close> (\<open>module_block_refines\<close>,
    \<open>module_refines_notebook\<close>), which validates the cell-level model against the
    line-by-line one. The same lemmas give the namespace a complete run leaves
    (\<open>module_final_globals\<close>), and the analysis of \<open>Interp\<close>, applied to each
    cell, shows that the module never raises \<open>NameError\<close> (\<open>module_no_name_error\<close>).
  \<^item> \<open>Session\<close>: the notebook's interactive use. \<open>cell_ast\<close> numbers the cells as
    the source's comments do, and \<open>run_session\<close> runs them one at a time, in any
    order and any number of times, against one namespace, a raising cell ending only
    itself (this is the kernel's behaviour, not code of the repository). Only cell 3
    reads names another cell binds, so any order that runs cell 1 before each run of
    cell 3 raises no \<open>NameError\<close> (\<open>session_no_name_error\<close>), and conversely
    every run of cell 3 that no run of cell 1 precedes raises \<open>NameError\<close> for
    \<open>subprocess\<close> (\<open>cell3_name_error_without_cell1\<close>, from the frame lemma
    \<open>session_frame\<close>: a session changes a global only through a cell that binds it).
    No cell binds \<open>print\<close>, so cells 4 to 6 write what their cell-level models write
    wherever they run in a session (\<open>static_cells_any_session\<close>). With the frame
    lemmas of \<open>Interp\<close>, the invariant \<open>dbt_linked\<close> of sessions (once
    \<open>dbt.version\<close> is loaded it is the attribute \<open>version\<close> of the loaded package
    \<open>dbt\<close>) shows that \<open>sys.modules\<close> answers every later \<open>import dbt.version\<close>:
    a re-run of cell 2 prints the line its first completed run printed, whatever was
    installed in between (\<open>cell2_rerun_cached\<close>; the witness preinstalls 1.6.0, runs
    cell 2, installs 1.7.1 with cell 1 and still reads 1.6.0).
  \<^item> \<open>PipModel\<close>: an environment for the notebook: a package site and index,
    \<open>pip install\<close> (resolution, installation by name, the \<open>ERROR:\<close> lines of an
    unresolvable requirement) and \<open>pip list\<close> (the distributions sorted by canonical
    name, \<open>pip_sorted\<close>, in pip's padded, right-stripped table). It is written from
    pip's documented behaviour, not from code of this repository. Its theorem is the
    end-to-end run of the notebook in it, whose listing is read back from pip's table
    through the split of \<open>PyStr\<close> (\<open>pip_notebook_success\<close>).

  \<^bold>\<open>The environment as hypotheses.\<close> pip and dbt are not code of this repository:
  every theorem about the notebook holds for every \<open>host\<close> and every state, and
  states what the environment answered as hypotheses on \<open>exec\<close>,
  \<open>find_module\<close> and \<open>import_version\<close>. The witnesses use \<open>example_host\<close> (a small environment whose
  \<open>pip list\<close> prints a given text), \<open>reinstall_host\<close> (whose install replaces the
  installed \<open>dbt\<close>) and the pip model's \<open>demo_world\<close>.

  \<^bold>\<open>Not modelled, and why.\<close> Output buffering (the model writes a child's inherited
  output where the call happens, as a flushed or unbuffered stdout does); the
  traceback an uncaught exception prints (the notebook kernel writes it, not the
  script); encodings other than UTF-8 for \<open>text=True\<close> (the notebook's locale);
  the full Unicode case table (\<open>str.lower\<close> on the bytes lowers ASCII letters only;
  \<open>Codepoints\<close> shows this decides the script's test as the full mapping does, under
  the stated property of the table, which is not itself checked);
  other exceptions of the import system (an \<open>ImportError\<close> raised while executing the
  package's code); a \<open>UnicodeEncodeError\<close> of \<open>print\<close> (a \<open>str\<close> with lone
  surrogates cannot be kept as UTF-8 bytes, so the model has none); an \<open>OSError\<close>
  when the interpreter cannot be started; keyboard interrupts (the kernel's, not the
  script's). No loop of the script can fail to end (it iterates over finite lists),
  and the two recursive functions of the model, \<open>py_replace\<close> and \<open>utf8_dec\<close>,
  are proved to terminate; no definition of the development uses fuel.

  The statement-level model has its own limits: \<open>builtins\<close> holds only \<open>print\<close>, the
  one built-in the script reads (any other name unbound in the module raises
  \<open>NameError\<close> in the model); the module's starting namespace binds only
  \<open>__name__\<close> (CPython also binds \<open>__builtins__\<close>, \<open>__spec__\<close>,
  \<open>__loader__\<close> and the like, and IPython its own names, none of which the script
  reads or writes, so the theorems about the namespace speak of the names the model
  tracks); the dictionaries of \<open>sys\<close> and \<open>subprocess\<close> hold only the
  attributes the script reads; \<open>str()\<close> of values other than strings, \<open>None\<close>
  and booleans, calls with other keyword arguments, and the kernel's own state
  (output history, display) are outside it. A \<open>for\<close> loop iterates over the items the iterable had when the loop started,
  which is what Python does for the lists the script iterates, as nothing mutates them.

  \<^bold>\<open>Further work.\<close> The listing theorem of the pip model without the
  well-formedness hypothesis on the resolution; keyboard interrupts between statements
  and inside a call, with the child killed and reaped; and the kernel's display of
  results and tracebacks, which is code of the notebook service, not of this
  repository.
\<close>

end
